theory Spec2Isabelle
  imports Main
begin

section \<open>Python values used by the contact manager\<close>

text \<open>
  The program is a single Python module, \<^verbatim>\<open>main.py\<close>. A Python string is the list of its
  code points, and a code point is a natural number: those of Unicode are the numbers
  below \<^verbatim>\<open>0x110000\<close>, and no table below gives a property to a larger one. The text of a
  string literal of the program, which is ASCII throughout, is written \<open>ascii ''...''\<close>.

  Every exception the program can meet is a value of \<open>error\<close>, carrying the single
  string argument it was raised with.
\<close>

type_synonym str = "nat list"

definition ascii :: "string \<Rightarrow> str" where
  "ascii s = map of_char s"

datatype error = ValueError str | KeyError str | IndexError str | OverflowError str

definition NL :: nat where
  "NL = 0x0A"

definition BACKSLASH :: nat where
  "BACKSLASH = 0x5C"

definition SQUOTE :: nat where
  "SQUOTE = 0x27"

definition DQUOTE :: nat where
  "DQUOTE = 0x22"

definition SPACE :: nat where
  "SPACE = 0x20"

definition DOT :: nat where
  "DOT = 0x2E"

text \<open>\<^verbatim>\<open>sep.join(xs)\<close>\<close>

fun py_join :: "str \<Rightarrow> str list \<Rightarrow> str" where
  "py_join sep [] = []"
| "py_join sep [x] = x"
| "py_join sep (x # y # ys) = x @ sep @ py_join sep (y # ys)"

text \<open>\<^verbatim>\<open>str(n)\<close> for an integer: the digits are \<^verbatim>\<open>0\<close>..\<^verbatim>\<open>9\<close>, the code points from 48.\<close>

definition digit_char :: "nat \<Rightarrow> nat" where
  "digit_char n = 0x30 + n"

fun str_nat :: "nat \<Rightarrow> str" where
  "str_nat n = (if n < 10 then [digit_char n] else str_nat (n div 10) @ [digit_char (n mod 10)])"

declare str_nat.simps [simp del]

definition str_int :: "int \<Rightarrow> str" where
  "str_int i = (if i < 0 then 0x2D # str_nat (nat (- i)) else str_nat (nat i))"

text \<open>\<^verbatim>\<open>s.zfill(w)\<close> on a string without sign: the rendering of \<^verbatim>\<open>%02d\<close>.\<close>

definition zfill :: "nat \<Rightarrow> str \<Rightarrow> str" where
  "zfill w s = replicate (w - length s) 0x30 @ s"

text \<open>Comparison of strings by \<^verbatim>\<open><\<close>: lexicographic on code points.\<close>

fun str_lt :: "str \<Rightarrow> str \<Rightarrow> bool" where
  "str_lt [] [] = False"
| "str_lt [] (y # ys) = True"
| "str_lt (x # xs) [] = False"
| "str_lt (x # xs) (y # ys) = (x < y \<or> (x = y \<and> str_lt xs ys))"

text \<open>\<^verbatim>\<open>sorted(xs)\<close> for a strict order \<open>lt\<close>: a stable insertion sort.\<close>

fun py_insort :: "('a \<Rightarrow> 'a \<Rightarrow> bool) \<Rightarrow> 'a \<Rightarrow> 'a list \<Rightarrow> 'a list" where
  "py_insort lt x [] = [x]"
| "py_insort lt x (y # ys) = (if lt x y then x # y # ys else y # py_insort lt x ys)"

definition py_sorted :: "('a \<Rightarrow> 'a \<Rightarrow> bool) \<Rightarrow> 'a list \<Rightarrow> 'a list" where
  "py_sorted lt xs = foldl (\<lambda>acc x. py_insort lt x acc) [] xs"

text \<open>
  An insertion-ordered \<^verbatim>\<open>dict\<close> is an association list with distinct keys:
  \<^verbatim>\<open>d[k] = v\<close> replaces the value in place when the key is present and appends otherwise.
\<close>

fun dict_set :: "'k \<Rightarrow> 'v \<Rightarrow> ('k \<times> 'v) list \<Rightarrow> ('k \<times> 'v) list" where
  "dict_set k v [] = [(k, v)]"
| "dict_set k v (p # ps) = (if fst p = k then (k, v) # ps else p # dict_set k v ps)"

section \<open>The Unicode character database\<close>

text \<open>
  The library functions the program calls read these properties of a code point: its
  decimal digit value (\<^verbatim>\<open>\d\<close> in a regular expression, \<^verbatim>\<open>int\<close>), whether it is white space
  (\<^verbatim>\<open>strip\<close>, \<^verbatim>\<open>split\<close>), whether it is printable (\<^verbatim>\<open>repr\<close>), and its lower case, with the
  properties Cased and Case_Ignorable that decide the lower case of a capital sigma
  (\<^verbatim>\<open>lower\<close>). The tables are those of Unicode 14.0.0, the version of CPython 3.11.
  A table of ranges lists them in increasing order, both ends included.
\<close>

fun in_ranges :: "nat \<Rightarrow> (nat \<times> nat) list \<Rightarrow> bool" where
  "in_ranges c [] = False"
| "in_ranges c (r # rs) =
     (if c < fst r then False else if c \<le> snd r then True else in_ranges c rs)"

text \<open>
  The code points with a decimal digit value come in runs of ten, from the digit zero to
  the digit nine of a script, \<^verbatim>\<open>0\<close>..\<^verbatim>\<open>9\<close> first. \<open>DECIMAL_ZEROS\<close> lists the zeros, and
  \<open>decimal\<close> is \<^verbatim>\<open>unicodedata.decimal\<close>: the value of a digit, \<open>None\<close> for any other code point.
\<close>

definition DECIMAL_ZEROS :: "nat list" where
  "DECIMAL_ZEROS =
    [0x30, 0x660, 0x6F0, 0x7C0, 0x966, 0x9E6, 0xA66, 0xAE6, 0xB66, 0xBE6, 0xC66, 0xCE6, 0xD66,
     0xDE6, 0xE50, 0xED0, 0xF20, 0x1040, 0x1090, 0x17E0, 0x1810, 0x1946, 0x19D0, 0x1A80, 0x1A90,
     0x1B50, 0x1BB0, 0x1C40, 0x1C50, 0xA620, 0xA8D0, 0xA900, 0xA9D0, 0xA9F0, 0xAA50, 0xABF0,
     0xFF10, 0x104A0, 0x10D30, 0x11066, 0x110F0, 0x11136, 0x111D0, 0x112F0, 0x11450, 0x114D0,
     0x11650, 0x116C0, 0x11730, 0x118E0, 0x11950, 0x11C50, 0x11D50, 0x11DA0, 0x16A60, 0x16AC0,
     0x16B50, 0x1D7CE, 0x1D7D8, 0x1D7E2, 0x1D7EC, 0x1D7F6, 0x1E140, 0x1E2F0, 0x1E950, 0x1FBF0]"

definition decimal :: "nat \<Rightarrow> nat option" where
  "decimal c =
     (case find (\<lambda>z. z \<le> c \<and> c < z + 10) DECIMAL_ZEROS of
        None \<Rightarrow> None
      | Some z \<Rightarrow> Some (c - z))"

text \<open>\<^verbatim>\<open>c.isspace()\<close>: the white space that \<^verbatim>\<open>strip\<close> and \<^verbatim>\<open>split\<close> remove.\<close>

definition WHITESPACE :: "(nat \<times> nat) list" where
  "WHITESPACE =
    [(0x9, 0xD), (0x1C, 0x20), (0x85, 0x85), (0xA0, 0xA0), (0x1680, 0x1680), (0x2000, 0x200A),
     (0x2028, 0x2029), (0x202F, 0x202F), (0x205F, 0x205F), (0x3000, 0x3000)]"

definition is_space :: "nat \<Rightarrow> bool" where
  "is_space c = in_ranges c WHITESPACE"

text \<open>\<^verbatim>\<open>c.isprintable()\<close>: every assigned code point that is no control, format, surrogate,
  private-use or separator character, and the blank.\<close>

definition PRINTABLE :: "(nat \<times> nat) list" where
  "PRINTABLE =
    [(0x20, 0x7E), (0xA1, 0xAC), (0xAE, 0x377), (0x37A, 0x37F), (0x384, 0x38A), (0x38C, 0x38C),
     (0x38E, 0x3A1), (0x3A3, 0x52F), (0x531, 0x556), (0x559, 0x58A), (0x58D, 0x58F),
     (0x591, 0x5C7), (0x5D0, 0x5EA), (0x5EF, 0x5F4), (0x606, 0x61B), (0x61D, 0x6DC),
     (0x6DE, 0x70D), (0x710, 0x74A), (0x74D, 0x7B1), (0x7C0, 0x7FA), (0x7FD, 0x82D),
     (0x830, 0x83E), (0x840, 0x85B), (0x85E, 0x85E), (0x860, 0x86A), (0x870, 0x88E),
     (0x898, 0x8E1), (0x8E3, 0x983), (0x985, 0x98C), (0x98F, 0x990), (0x993, 0x9A8),
     (0x9AA, 0x9B0), (0x9B2, 0x9B2), (0x9B6, 0x9B9), (0x9BC, 0x9C4), (0x9C7, 0x9C8),
     (0x9CB, 0x9CE), (0x9D7, 0x9D7), (0x9DC, 0x9DD), (0x9DF, 0x9E3), (0x9E6, 0x9FE),
     (0xA01, 0xA03), (0xA05, 0xA0A), (0xA0F, 0xA10), (0xA13, 0xA28), (0xA2A, 0xA30),
     (0xA32, 0xA33), (0xA35, 0xA36), (0xA38, 0xA39), (0xA3C, 0xA3C), (0xA3E, 0xA42),
     (0xA47, 0xA48), (0xA4B, 0xA4D), (0xA51, 0xA51), (0xA59, 0xA5C), (0xA5E, 0xA5E),
     (0xA66, 0xA76), (0xA81, 0xA83), (0xA85, 0xA8D), (0xA8F, 0xA91), (0xA93, 0xAA8),
     (0xAAA, 0xAB0), (0xAB2, 0xAB3), (0xAB5, 0xAB9), (0xABC, 0xAC5), (0xAC7, 0xAC9),
     (0xACB, 0xACD), (0xAD0, 0xAD0), (0xAE0, 0xAE3), (0xAE6, 0xAF1), (0xAF9, 0xAFF),
     (0xB01, 0xB03), (0xB05, 0xB0C), (0xB0F, 0xB10), (0xB13, 0xB28), (0xB2A, 0xB30),
     (0xB32, 0xB33), (0xB35, 0xB39), (0xB3C, 0xB44), (0xB47, 0xB48), (0xB4B, 0xB4D),
     (0xB55, 0xB57), (0xB5C, 0xB5D), (0xB5F, 0xB63), (0xB66, 0xB77), (0xB82, 0xB83),
     (0xB85, 0xB8A), (0xB8E, 0xB90), (0xB92, 0xB95), (0xB99, 0xB9A), (0xB9C, 0xB9C),
     (0xB9E, 0xB9F), (0xBA3, 0xBA4), (0xBA8, 0xBAA), (0xBAE, 0xBB9), (0xBBE, 0xBC2),
     (0xBC6, 0xBC8), (0xBCA, 0xBCD), (0xBD0, 0xBD0), (0xBD7, 0xBD7), (0xBE6, 0xBFA),
     (0xC00, 0xC0C), (0xC0E, 0xC10), (0xC12, 0xC28), (0xC2A, 0xC39), (0xC3C, 0xC44),
     (0xC46, 0xC48), (0xC4A, 0xC4D), (0xC55, 0xC56), (0xC58, 0xC5A), (0xC5D, 0xC5D),
     (0xC60, 0xC63), (0xC66, 0xC6F), (0xC77, 0xC8C), (0xC8E, 0xC90), (0xC92, 0xCA8),
     (0xCAA, 0xCB3), (0xCB5, 0xCB9), (0xCBC, 0xCC4), (0xCC6, 0xCC8), (0xCCA, 0xCCD),
     (0xCD5, 0xCD6), (0xCDD, 0xCDE), (0xCE0, 0xCE3), (0xCE6, 0xCEF), (0xCF1, 0xCF2),
     (0xD00, 0xD0C), (0xD0E, 0xD10), (0xD12, 0xD44), (0xD46, 0xD48), (0xD4A, 0xD4F),
     (0xD54, 0xD63), (0xD66, 0xD7F), (0xD81, 0xD83), (0xD85, 0xD96), (0xD9A, 0xDB1),
     (0xDB3, 0xDBB), (0xDBD, 0xDBD), (0xDC0, 0xDC6), (0xDCA, 0xDCA), (0xDCF, 0xDD4),
     (0xDD6, 0xDD6), (0xDD8, 0xDDF), (0xDE6, 0xDEF), (0xDF2, 0xDF4), (0xE01, 0xE3A),
     (0xE3F, 0xE5B), (0xE81, 0xE82), (0xE84, 0xE84), (0xE86, 0xE8A), (0xE8C, 0xEA3),
     (0xEA5, 0xEA5), (0xEA7, 0xEBD), (0xEC0, 0xEC4), (0xEC6, 0xEC6), (0xEC8, 0xECD),
     (0xED0, 0xED9), (0xEDC, 0xEDF), (0xF00, 0xF47), (0xF49, 0xF6C), (0xF71, 0xF97),
     (0xF99, 0xFBC), (0xFBE, 0xFCC), (0xFCE, 0xFDA), (0x1000, 0x10C5), (0x10C7, 0x10C7),
     (0x10CD, 0x10CD), (0x10D0, 0x1248), (0x124A, 0x124D), (0x1250, 0x1256), (0x1258, 0x1258),
     (0x125A, 0x125D), (0x1260, 0x1288), (0x128A, 0x128D), (0x1290, 0x12B0), (0x12B2, 0x12B5),
     (0x12B8, 0x12BE), (0x12C0, 0x12C0), (0x12C2, 0x12C5), (0x12C8, 0x12D6), (0x12D8, 0x1310),
     (0x1312, 0x1315), (0x1318, 0x135A), (0x135D, 0x137C), (0x1380, 0x1399), (0x13A0, 0x13F5),
     (0x13F8, 0x13FD), (0x1400, 0x167F), (0x1681, 0x169C), (0x16A0, 0x16F8), (0x1700, 0x1715),
     (0x171F, 0x1736), (0x1740, 0x1753), (0x1760, 0x176C), (0x176E, 0x1770), (0x1772, 0x1773),
     (0x1780, 0x17DD), (0x17E0, 0x17E9), (0x17F0, 0x17F9), (0x1800, 0x180D), (0x180F, 0x1819),
     (0x1820, 0x1878), (0x1880, 0x18AA), (0x18B0, 0x18F5), (0x1900, 0x191E), (0x1920, 0x192B),
     (0x1930, 0x193B), (0x1940, 0x1940), (0x1944, 0x196D), (0x1970, 0x1974), (0x1980, 0x19AB),
     (0x19B0, 0x19C9), (0x19D0, 0x19DA), (0x19DE, 0x1A1B), (0x1A1E, 0x1A5E), (0x1A60, 0x1A7C),
     (0x1A7F, 0x1A89), (0x1A90, 0x1A99), (0x1AA0, 0x1AAD), (0x1AB0, 0x1ACE), (0x1B00, 0x1B4C),
     (0x1B50, 0x1B7E), (0x1B80, 0x1BF3), (0x1BFC, 0x1C37), (0x1C3B, 0x1C49), (0x1C4D, 0x1C88),
     (0x1C90, 0x1CBA), (0x1CBD, 0x1CC7), (0x1CD0, 0x1CFA), (0x1D00, 0x1F15), (0x1F18, 0x1F1D),
     (0x1F20, 0x1F45), (0x1F48, 0x1F4D), (0x1F50, 0x1F57), (0x1F59, 0x1F59), (0x1F5B, 0x1F5B),
     (0x1F5D, 0x1F5D), (0x1F5F, 0x1F7D), (0x1F80, 0x1FB4), (0x1FB6, 0x1FC4), (0x1FC6, 0x1FD3),
     (0x1FD6, 0x1FDB), (0x1FDD, 0x1FEF), (0x1FF2, 0x1FF4), (0x1FF6, 0x1FFE), (0x2010, 0x2027),
     (0x2030, 0x205E), (0x2070, 0x2071), (0x2074, 0x208E), (0x2090, 0x209C), (0x20A0, 0x20C0),
     (0x20D0, 0x20F0), (0x2100, 0x218B), (0x2190, 0x2426), (0x2440, 0x244A), (0x2460, 0x2B73),
     (0x2B76, 0x2B95), (0x2B97, 0x2CF3), (0x2CF9, 0x2D25), (0x2D27, 0x2D27), (0x2D2D, 0x2D2D),
     (0x2D30, 0x2D67), (0x2D6F, 0x2D70), (0x2D7F, 0x2D96), (0x2DA0, 0x2DA6), (0x2DA8, 0x2DAE),
     (0x2DB0, 0x2DB6), (0x2DB8, 0x2DBE), (0x2DC0, 0x2DC6), (0x2DC8, 0x2DCE), (0x2DD0, 0x2DD6),
     (0x2DD8, 0x2DDE), (0x2DE0, 0x2E5D), (0x2E80, 0x2E99), (0x2E9B, 0x2EF3), (0x2F00, 0x2FD5),
     (0x2FF0, 0x2FFB), (0x3001, 0x303F), (0x3041, 0x3096), (0x3099, 0x30FF), (0x3105, 0x312F),
     (0x3131, 0x318E), (0x3190, 0x31E3), (0x31F0, 0x321E), (0x3220, 0xA48C), (0xA490, 0xA4C6),
     (0xA4D0, 0xA62B), (0xA640, 0xA6F7), (0xA700, 0xA7CA), (0xA7D0, 0xA7D1), (0xA7D3, 0xA7D3),
     (0xA7D5, 0xA7D9), (0xA7F2, 0xA82C), (0xA830, 0xA839), (0xA840, 0xA877), (0xA880, 0xA8C5),
     (0xA8CE, 0xA8D9), (0xA8E0, 0xA953), (0xA95F, 0xA97C), (0xA980, 0xA9CD), (0xA9CF, 0xA9D9),
     (0xA9DE, 0xA9FE), (0xAA00, 0xAA36), (0xAA40, 0xAA4D), (0xAA50, 0xAA59), (0xAA5C, 0xAAC2),
     (0xAADB, 0xAAF6), (0xAB01, 0xAB06), (0xAB09, 0xAB0E), (0xAB11, 0xAB16), (0xAB20, 0xAB26),
     (0xAB28, 0xAB2E), (0xAB30, 0xAB6B), (0xAB70, 0xABED), (0xABF0, 0xABF9), (0xAC00, 0xD7A3),
     (0xD7B0, 0xD7C6), (0xD7CB, 0xD7FB), (0xF900, 0xFA6D), (0xFA70, 0xFAD9), (0xFB00, 0xFB06),
     (0xFB13, 0xFB17), (0xFB1D, 0xFB36), (0xFB38, 0xFB3C), (0xFB3E, 0xFB3E), (0xFB40, 0xFB41),
     (0xFB43, 0xFB44), (0xFB46, 0xFBC2), (0xFBD3, 0xFD8F), (0xFD92, 0xFDC7), (0xFDCF, 0xFDCF),
     (0xFDF0, 0xFE19), (0xFE20, 0xFE52), (0xFE54, 0xFE66), (0xFE68, 0xFE6B), (0xFE70, 0xFE74),
     (0xFE76, 0xFEFC), (0xFF01, 0xFFBE), (0xFFC2, 0xFFC7), (0xFFCA, 0xFFCF), (0xFFD2, 0xFFD7),
     (0xFFDA, 0xFFDC), (0xFFE0, 0xFFE6), (0xFFE8, 0xFFEE), (0xFFFC, 0xFFFD), (0x10000, 0x1000B),
     (0x1000D, 0x10026), (0x10028, 0x1003A), (0x1003C, 0x1003D), (0x1003F, 0x1004D),
     (0x10050, 0x1005D), (0x10080, 0x100FA), (0x10100, 0x10102), (0x10107, 0x10133),
     (0x10137, 0x1018E), (0x10190, 0x1019C), (0x101A0, 0x101A0), (0x101D0, 0x101FD),
     (0x10280, 0x1029C), (0x102A0, 0x102D0), (0x102E0, 0x102FB), (0x10300, 0x10323),
     (0x1032D, 0x1034A), (0x10350, 0x1037A), (0x10380, 0x1039D), (0x1039F, 0x103C3),
     (0x103C8, 0x103D5), (0x10400, 0x1049D), (0x104A0, 0x104A9), (0x104B0, 0x104D3),
     (0x104D8, 0x104FB), (0x10500, 0x10527), (0x10530, 0x10563), (0x1056F, 0x1057A),
     (0x1057C, 0x1058A), (0x1058C, 0x10592), (0x10594, 0x10595), (0x10597, 0x105A1),
     (0x105A3, 0x105B1), (0x105B3, 0x105B9), (0x105BB, 0x105BC), (0x10600, 0x10736),
     (0x10740, 0x10755), (0x10760, 0x10767), (0x10780, 0x10785), (0x10787, 0x107B0),
     (0x107B2, 0x107BA), (0x10800, 0x10805), (0x10808, 0x10808), (0x1080A, 0x10835),
     (0x10837, 0x10838), (0x1083C, 0x1083C), (0x1083F, 0x10855), (0x10857, 0x1089E),
     (0x108A7, 0x108AF), (0x108E0, 0x108F2), (0x108F4, 0x108F5), (0x108FB, 0x1091B),
     (0x1091F, 0x10939), (0x1093F, 0x1093F), (0x10980, 0x109B7), (0x109BC, 0x109CF),
     (0x109D2, 0x10A03), (0x10A05, 0x10A06), (0x10A0C, 0x10A13), (0x10A15, 0x10A17),
     (0x10A19, 0x10A35), (0x10A38, 0x10A3A), (0x10A3F, 0x10A48), (0x10A50, 0x10A58),
     (0x10A60, 0x10A9F), (0x10AC0, 0x10AE6), (0x10AEB, 0x10AF6), (0x10B00, 0x10B35),
     (0x10B39, 0x10B55), (0x10B58, 0x10B72), (0x10B78, 0x10B91), (0x10B99, 0x10B9C),
     (0x10BA9, 0x10BAF), (0x10C00, 0x10C48), (0x10C80, 0x10CB2), (0x10CC0, 0x10CF2),
     (0x10CFA, 0x10D27), (0x10D30, 0x10D39), (0x10E60, 0x10E7E), (0x10E80, 0x10EA9),
     (0x10EAB, 0x10EAD), (0x10EB0, 0x10EB1), (0x10F00, 0x10F27), (0x10F30, 0x10F59),
     (0x10F70, 0x10F89), (0x10FB0, 0x10FCB), (0x10FE0, 0x10FF6), (0x11000, 0x1104D),
     (0x11052, 0x11075), (0x1107F, 0x110BC), (0x110BE, 0x110C2), (0x110D0, 0x110E8),
     (0x110F0, 0x110F9), (0x11100, 0x11134), (0x11136, 0x11147), (0x11150, 0x11176),
     (0x11180, 0x111DF), (0x111E1, 0x111F4), (0x11200, 0x11211), (0x11213, 0x1123E),
     (0x11280, 0x11286), (0x11288, 0x11288), (0x1128A, 0x1128D), (0x1128F, 0x1129D),
     (0x1129F, 0x112A9), (0x112B0, 0x112EA), (0x112F0, 0x112F9), (0x11300, 0x11303),
     (0x11305, 0x1130C), (0x1130F, 0x11310), (0x11313, 0x11328), (0x1132A, 0x11330),
     (0x11332, 0x11333), (0x11335, 0x11339), (0x1133B, 0x11344), (0x11347, 0x11348),
     (0x1134B, 0x1134D), (0x11350, 0x11350), (0x11357, 0x11357), (0x1135D, 0x11363),
     (0x11366, 0x1136C), (0x11370, 0x11374), (0x11400, 0x1145B), (0x1145D, 0x11461),
     (0x11480, 0x114C7), (0x114D0, 0x114D9), (0x11580, 0x115B5), (0x115B8, 0x115DD),
     (0x11600, 0x11644), (0x11650, 0x11659), (0x11660, 0x1166C), (0x11680, 0x116B9),
     (0x116C0, 0x116C9), (0x11700, 0x1171A), (0x1171D, 0x1172B), (0x11730, 0x11746),
     (0x11800, 0x1183B), (0x118A0, 0x118F2), (0x118FF, 0x11906), (0x11909, 0x11909),
     (0x1190C, 0x11913), (0x11915, 0x11916), (0x11918, 0x11935), (0x11937, 0x11938),
     (0x1193B, 0x11946), (0x11950, 0x11959), (0x119A0, 0x119A7), (0x119AA, 0x119D7),
     (0x119DA, 0x119E4), (0x11A00, 0x11A47), (0x11A50, 0x11AA2), (0x11AB0, 0x11AF8),
     (0x11C00, 0x11C08), (0x11C0A, 0x11C36), (0x11C38, 0x11C45), (0x11C50, 0x11C6C),
     (0x11C70, 0x11C8F), (0x11C92, 0x11CA7), (0x11CA9, 0x11CB6), (0x11D00, 0x11D06),
     (0x11D08, 0x11D09), (0x11D0B, 0x11D36), (0x11D3A, 0x11D3A), (0x11D3C, 0x11D3D),
     (0x11D3F, 0x11D47), (0x11D50, 0x11D59), (0x11D60, 0x11D65), (0x11D67, 0x11D68),
     (0x11D6A, 0x11D8E), (0x11D90, 0x11D91), (0x11D93, 0x11D98), (0x11DA0, 0x11DA9),
     (0x11EE0, 0x11EF8), (0x11FB0, 0x11FB0), (0x11FC0, 0x11FF1), (0x11FFF, 0x12399),
     (0x12400, 0x1246E), (0x12470, 0x12474), (0x12480, 0x12543), (0x12F90, 0x12FF2),
     (0x13000, 0x1342E), (0x14400, 0x14646), (0x16800, 0x16A38), (0x16A40, 0x16A5E),
     (0x16A60, 0x16A69), (0x16A6E, 0x16ABE), (0x16AC0, 0x16AC9), (0x16AD0, 0x16AED),
     (0x16AF0, 0x16AF5), (0x16B00, 0x16B45), (0x16B50, 0x16B59), (0x16B5B, 0x16B61),
     (0x16B63, 0x16B77), (0x16B7D, 0x16B8F), (0x16E40, 0x16E9A), (0x16F00, 0x16F4A),
     (0x16F4F, 0x16F87), (0x16F8F, 0x16F9F), (0x16FE0, 0x16FE4), (0x16FF0, 0x16FF1),
     (0x17000, 0x187F7), (0x18800, 0x18CD5), (0x18D00, 0x18D08), (0x1AFF0, 0x1AFF3),
     (0x1AFF5, 0x1AFFB), (0x1AFFD, 0x1AFFE), (0x1B000, 0x1B122), (0x1B150, 0x1B152),
     (0x1B164, 0x1B167), (0x1B170, 0x1B2FB), (0x1BC00, 0x1BC6A), (0x1BC70, 0x1BC7C),
     (0x1BC80, 0x1BC88), (0x1BC90, 0x1BC99), (0x1BC9C, 0x1BC9F), (0x1CF00, 0x1CF2D),
     (0x1CF30, 0x1CF46), (0x1CF50, 0x1CFC3), (0x1D000, 0x1D0F5), (0x1D100, 0x1D126),
     (0x1D129, 0x1D172), (0x1D17B, 0x1D1EA), (0x1D200, 0x1D245), (0x1D2E0, 0x1D2F3),
     (0x1D300, 0x1D356), (0x1D360, 0x1D378), (0x1D400, 0x1D454), (0x1D456, 0x1D49C),
     (0x1D49E, 0x1D49F), (0x1D4A2, 0x1D4A2), (0x1D4A5, 0x1D4A6), (0x1D4A9, 0x1D4AC),
     (0x1D4AE, 0x1D4B9), (0x1D4BB, 0x1D4BB), (0x1D4BD, 0x1D4C3), (0x1D4C5, 0x1D505),
     (0x1D507, 0x1D50A), (0x1D50D, 0x1D514), (0x1D516, 0x1D51C), (0x1D51E, 0x1D539),
     (0x1D53B, 0x1D53E), (0x1D540, 0x1D544), (0x1D546, 0x1D546), (0x1D54A, 0x1D550),
     (0x1D552, 0x1D6A5), (0x1D6A8, 0x1D7CB), (0x1D7CE, 0x1DA8B), (0x1DA9B, 0x1DA9F),
     (0x1DAA1, 0x1DAAF), (0x1DF00, 0x1DF1E), (0x1E000, 0x1E006), (0x1E008, 0x1E018),
     (0x1E01B, 0x1E021), (0x1E023, 0x1E024), (0x1E026, 0x1E02A), (0x1E100, 0x1E12C),
     (0x1E130, 0x1E13D), (0x1E140, 0x1E149), (0x1E14E, 0x1E14F), (0x1E290, 0x1E2AE),
     (0x1E2C0, 0x1E2F9), (0x1E2FF, 0x1E2FF), (0x1E7E0, 0x1E7E6), (0x1E7E8, 0x1E7EB),
     (0x1E7ED, 0x1E7EE), (0x1E7F0, 0x1E7FE), (0x1E800, 0x1E8C4), (0x1E8C7, 0x1E8D6),
     (0x1E900, 0x1E94B), (0x1E950, 0x1E959), (0x1E95E, 0x1E95F), (0x1EC71, 0x1ECB4),
     (0x1ED01, 0x1ED3D), (0x1EE00, 0x1EE03), (0x1EE05, 0x1EE1F), (0x1EE21, 0x1EE22),
     (0x1EE24, 0x1EE24), (0x1EE27, 0x1EE27), (0x1EE29, 0x1EE32), (0x1EE34, 0x1EE37),
     (0x1EE39, 0x1EE39), (0x1EE3B, 0x1EE3B), (0x1EE42, 0x1EE42), (0x1EE47, 0x1EE47),
     (0x1EE49, 0x1EE49), (0x1EE4B, 0x1EE4B), (0x1EE4D, 0x1EE4F), (0x1EE51, 0x1EE52),
     (0x1EE54, 0x1EE54), (0x1EE57, 0x1EE57), (0x1EE59, 0x1EE59), (0x1EE5B, 0x1EE5B),
     (0x1EE5D, 0x1EE5D), (0x1EE5F, 0x1EE5F), (0x1EE61, 0x1EE62), (0x1EE64, 0x1EE64),
     (0x1EE67, 0x1EE6A), (0x1EE6C, 0x1EE72), (0x1EE74, 0x1EE77), (0x1EE79, 0x1EE7C),
     (0x1EE7E, 0x1EE7E), (0x1EE80, 0x1EE89), (0x1EE8B, 0x1EE9B), (0x1EEA1, 0x1EEA3),
     (0x1EEA5, 0x1EEA9), (0x1EEAB, 0x1EEBB), (0x1EEF0, 0x1EEF1), (0x1F000, 0x1F02B),
     (0x1F030, 0x1F093), (0x1F0A0, 0x1F0AE), (0x1F0B1, 0x1F0BF), (0x1F0C1, 0x1F0CF),
     (0x1F0D1, 0x1F0F5), (0x1F100, 0x1F1AD), (0x1F1E6, 0x1F202), (0x1F210, 0x1F23B),
     (0x1F240, 0x1F248), (0x1F250, 0x1F251), (0x1F260, 0x1F265), (0x1F300, 0x1F6D7),
     (0x1F6DD, 0x1F6EC), (0x1F6F0, 0x1F6FC), (0x1F700, 0x1F773), (0x1F780, 0x1F7D8),
     (0x1F7E0, 0x1F7EB), (0x1F7F0, 0x1F7F0), (0x1F800, 0x1F80B), (0x1F810, 0x1F847),
     (0x1F850, 0x1F859), (0x1F860, 0x1F887), (0x1F890, 0x1F8AD), (0x1F8B0, 0x1F8B1),
     (0x1F900, 0x1FA53), (0x1FA60, 0x1FA6D), (0x1FA70, 0x1FA74), (0x1FA78, 0x1FA7C),
     (0x1FA80, 0x1FA86), (0x1FA90, 0x1FAAC), (0x1FAB0, 0x1FABA), (0x1FAC0, 0x1FAC5),
     (0x1FAD0, 0x1FAD9), (0x1FAE0, 0x1FAE7), (0x1FAF0, 0x1FAF6), (0x1FB00, 0x1FB92),
     (0x1FB94, 0x1FBCA), (0x1FBF0, 0x1FBF9), (0x20000, 0x2A6DF), (0x2A700, 0x2B738),
     (0x2B740, 0x2B81D), (0x2B820, 0x2CEA1), (0x2CEB0, 0x2EBE0), (0x2F800, 0x2FA1D),
     (0x30000, 0x3134A), (0xE0100, 0xE01EF)]"

definition is_printable :: "nat \<Rightarrow> bool" where
  "is_printable c = in_ranges c PRINTABLE"

text \<open>
  The lower case of one code point out of context. An entry \<open>(lo, hi, step, target)\<close> of
  \<open>LOWERCASE\<close> sends \<open>lo\<close>, \<open>lo + step\<close>, ... up to \<open>hi\<close> to \<open>target\<close>, \<open>target + step\<close>, ...;
  a code point no entry holds is its own lower case. One code point has a lower case of
  two: the capital I with a dot above, \<^verbatim>\<open>U+0130\<close>.
\<close>

definition LOWERCASE :: "(nat \<times> nat \<times> nat \<times> nat) list" where
  "LOWERCASE =
    [(0x41, 0x5A, 1, 0x61), (0xC0, 0xD6, 1, 0xE0), (0xD8, 0xDE, 1, 0xF8),
     (0x100, 0x12E, 2, 0x101), (0x132, 0x136, 2, 0x133), (0x139, 0x147, 2, 0x13A),
     (0x14A, 0x176, 2, 0x14B), (0x178, 0x178, 1, 0xFF), (0x179, 0x17D, 2, 0x17A),
     (0x181, 0x181, 1, 0x253), (0x182, 0x184, 2, 0x183), (0x186, 0x186, 1, 0x254),
     (0x187, 0x187, 1, 0x188), (0x189, 0x18A, 1, 0x256), (0x18B, 0x18B, 1, 0x18C),
     (0x18E, 0x18E, 1, 0x1DD), (0x18F, 0x18F, 1, 0x259), (0x190, 0x190, 1, 0x25B),
     (0x191, 0x191, 1, 0x192), (0x193, 0x193, 1, 0x260), (0x194, 0x194, 1, 0x263),
     (0x196, 0x196, 1, 0x269), (0x197, 0x197, 1, 0x268), (0x198, 0x198, 1, 0x199),
     (0x19C, 0x19C, 1, 0x26F), (0x19D, 0x19D, 1, 0x272), (0x19F, 0x19F, 1, 0x275),
     (0x1A0, 0x1A4, 2, 0x1A1), (0x1A6, 0x1A6, 1, 0x280), (0x1A7, 0x1A7, 1, 0x1A8),
     (0x1A9, 0x1A9, 1, 0x283), (0x1AC, 0x1AC, 1, 0x1AD), (0x1AE, 0x1AE, 1, 0x288),
     (0x1AF, 0x1AF, 1, 0x1B0), (0x1B1, 0x1B2, 1, 0x28A), (0x1B3, 0x1B5, 2, 0x1B4),
     (0x1B7, 0x1B7, 1, 0x292), (0x1B8, 0x1B8, 1, 0x1B9), (0x1BC, 0x1BC, 1, 0x1BD),
     (0x1C4, 0x1C4, 1, 0x1C6), (0x1C5, 0x1C5, 1, 0x1C6), (0x1C7, 0x1C7, 1, 0x1C9),
     (0x1C8, 0x1C8, 1, 0x1C9), (0x1CA, 0x1CA, 1, 0x1CC), (0x1CB, 0x1DB, 2, 0x1CC),
     (0x1DE, 0x1EE, 2, 0x1DF), (0x1F1, 0x1F1, 1, 0x1F3), (0x1F2, 0x1F4, 2, 0x1F3),
     (0x1F6, 0x1F6, 1, 0x195), (0x1F7, 0x1F7, 1, 0x1BF), (0x1F8, 0x21E, 2, 0x1F9),
     (0x220, 0x220, 1, 0x19E), (0x222, 0x232, 2, 0x223), (0x23A, 0x23A, 1, 0x2C65),
     (0x23B, 0x23B, 1, 0x23C), (0x23D, 0x23D, 1, 0x19A), (0x23E, 0x23E, 1, 0x2C66),
     (0x241, 0x241, 1, 0x242), (0x243, 0x243, 1, 0x180), (0x244, 0x244, 1, 0x289),
     (0x245, 0x245, 1, 0x28C), (0x246, 0x24E, 2, 0x247), (0x370, 0x372, 2, 0x371),
     (0x376, 0x376, 1, 0x377), (0x37F, 0x37F, 1, 0x3F3), (0x386, 0x386, 1, 0x3AC),
     (0x388, 0x38A, 1, 0x3AD), (0x38C, 0x38C, 1, 0x3CC), (0x38E, 0x38F, 1, 0x3CD),
     (0x391, 0x3A1, 1, 0x3B1), (0x3A3, 0x3AB, 1, 0x3C3), (0x3CF, 0x3CF, 1, 0x3D7),
     (0x3D8, 0x3EE, 2, 0x3D9), (0x3F4, 0x3F4, 1, 0x3B8), (0x3F7, 0x3F7, 1, 0x3F8),
     (0x3F9, 0x3F9, 1, 0x3F2), (0x3FA, 0x3FA, 1, 0x3FB), (0x3FD, 0x3FF, 1, 0x37B),
     (0x400, 0x40F, 1, 0x450), (0x410, 0x42F, 1, 0x430), (0x460, 0x480, 2, 0x461),
     (0x48A, 0x4BE, 2, 0x48B), (0x4C0, 0x4C0, 1, 0x4CF), (0x4C1, 0x4CD, 2, 0x4C2),
     (0x4D0, 0x52E, 2, 0x4D1), (0x531, 0x556, 1, 0x561), (0x10A0, 0x10C5, 1, 0x2D00),
     (0x10C7, 0x10C7, 1, 0x2D27), (0x10CD, 0x10CD, 1, 0x2D2D), (0x13A0, 0x13EF, 1, 0xAB70),
     (0x13F0, 0x13F5, 1, 0x13F8), (0x1C90, 0x1CBA, 1, 0x10D0), (0x1CBD, 0x1CBF, 1, 0x10FD),
     (0x1E00, 0x1E94, 2, 0x1E01), (0x1E9E, 0x1E9E, 1, 0xDF), (0x1EA0, 0x1EFE, 2, 0x1EA1),
     (0x1F08, 0x1F0F, 1, 0x1F00), (0x1F18, 0x1F1D, 1, 0x1F10), (0x1F28, 0x1F2F, 1, 0x1F20),
     (0x1F38, 0x1F3F, 1, 0x1F30), (0x1F48, 0x1F4D, 1, 0x1F40), (0x1F59, 0x1F5F, 2, 0x1F51),
     (0x1F68, 0x1F6F, 1, 0x1F60), (0x1F88, 0x1F8F, 1, 0x1F80), (0x1F98, 0x1F9F, 1, 0x1F90),
     (0x1FA8, 0x1FAF, 1, 0x1FA0), (0x1FB8, 0x1FB9, 1, 0x1FB0), (0x1FBA, 0x1FBB, 1, 0x1F70),
     (0x1FBC, 0x1FBC, 1, 0x1FB3), (0x1FC8, 0x1FCB, 1, 0x1F72), (0x1FCC, 0x1FCC, 1, 0x1FC3),
     (0x1FD8, 0x1FD9, 1, 0x1FD0), (0x1FDA, 0x1FDB, 1, 0x1F76), (0x1FE8, 0x1FE9, 1, 0x1FE0),
     (0x1FEA, 0x1FEB, 1, 0x1F7A), (0x1FEC, 0x1FEC, 1, 0x1FE5), (0x1FF8, 0x1FF9, 1, 0x1F78),
     (0x1FFA, 0x1FFB, 1, 0x1F7C), (0x1FFC, 0x1FFC, 1, 0x1FF3), (0x2126, 0x2126, 1, 0x3C9),
     (0x212A, 0x212A, 1, 0x6B), (0x212B, 0x212B, 1, 0xE5), (0x2132, 0x2132, 1, 0x214E),
     (0x2160, 0x216F, 1, 0x2170), (0x2183, 0x2183, 1, 0x2184), (0x24B6, 0x24CF, 1, 0x24D0),
     (0x2C00, 0x2C2F, 1, 0x2C30), (0x2C60, 0x2C60, 1, 0x2C61), (0x2C62, 0x2C62, 1, 0x26B),
     (0x2C63, 0x2C63, 1, 0x1D7D), (0x2C64, 0x2C64, 1, 0x27D), (0x2C67, 0x2C6B, 2, 0x2C68),
     (0x2C6D, 0x2C6D, 1, 0x251), (0x2C6E, 0x2C6E, 1, 0x271), (0x2C6F, 0x2C6F, 1, 0x250),
     (0x2C70, 0x2C70, 1, 0x252), (0x2C72, 0x2C72, 1, 0x2C73), (0x2C75, 0x2C75, 1, 0x2C76),
     (0x2C7E, 0x2C7F, 1, 0x23F), (0x2C80, 0x2CE2, 2, 0x2C81), (0x2CEB, 0x2CED, 2, 0x2CEC),
     (0x2CF2, 0x2CF2, 1, 0x2CF3), (0xA640, 0xA66C, 2, 0xA641), (0xA680, 0xA69A, 2, 0xA681),
     (0xA722, 0xA72E, 2, 0xA723), (0xA732, 0xA76E, 2, 0xA733), (0xA779, 0xA77B, 2, 0xA77A),
     (0xA77D, 0xA77D, 1, 0x1D79), (0xA77E, 0xA786, 2, 0xA77F), (0xA78B, 0xA78B, 1, 0xA78C),
     (0xA78D, 0xA78D, 1, 0x265), (0xA790, 0xA792, 2, 0xA791), (0xA796, 0xA7A8, 2, 0xA797),
     (0xA7AA, 0xA7AA, 1, 0x266), (0xA7AB, 0xA7AB, 1, 0x25C), (0xA7AC, 0xA7AC, 1, 0x261),
     (0xA7AD, 0xA7AD, 1, 0x26C), (0xA7AE, 0xA7AE, 1, 0x26A), (0xA7B0, 0xA7B0, 1, 0x29E),
     (0xA7B1, 0xA7B1, 1, 0x287), (0xA7B2, 0xA7B2, 1, 0x29D), (0xA7B3, 0xA7B3, 1, 0xAB53),
     (0xA7B4, 0xA7C2, 2, 0xA7B5), (0xA7C4, 0xA7C4, 1, 0xA794), (0xA7C5, 0xA7C5, 1, 0x282),
     (0xA7C6, 0xA7C6, 1, 0x1D8E), (0xA7C7, 0xA7C9, 2, 0xA7C8), (0xA7D0, 0xA7D0, 1, 0xA7D1),
     (0xA7D6, 0xA7D8, 2, 0xA7D7), (0xA7F5, 0xA7F5, 1, 0xA7F6), (0xFF21, 0xFF3A, 1, 0xFF41),
     (0x10400, 0x10427, 1, 0x10428), (0x104B0, 0x104D3, 1, 0x104D8),
     (0x10570, 0x10594, 2, 0x10597), (0x10571, 0x10579, 2, 0x10598),
     (0x1057D, 0x10589, 2, 0x105A4), (0x1058D, 0x10591, 2, 0x105B4),
     (0x10595, 0x10595, 1, 0x105BC), (0x10C80, 0x10CB2, 1, 0x10CC0),
     (0x118A0, 0x118BF, 1, 0x118C0), (0x16E40, 0x16E5F, 1, 0x16E60),
     (0x1E900, 0x1E921, 1, 0x1E922)]"

fun lower_in :: "nat \<Rightarrow> (nat \<times> nat \<times> nat \<times> nat) list \<Rightarrow> nat" where
  "lower_in c [] = c"
| "lower_in c ((lo, hi, step, target) # rest) =
     (if c < lo then c
      else if c \<le> hi \<and> (c - lo) mod step = 0 then target + (c - lo)
      else lower_in c rest)"

definition lower_char :: "nat \<Rightarrow> str" where
  "lower_char c = (if c = 0x130 then [0x69, 0x307] else [lower_in c LOWERCASE])"

text \<open>The properties Cased and Case_Ignorable.\<close>

definition CASED :: "(nat \<times> nat) list" where
  "CASED =
    [(0x41, 0x5A), (0x61, 0x7A), (0xAA, 0xAA), (0xB5, 0xB5), (0xBA, 0xBA), (0xC0, 0xD6),
     (0xD8, 0xF6), (0xF8, 0x1BA), (0x1BC, 0x1BF), (0x1C4, 0x293), (0x295, 0x2B8), (0x2C0, 0x2C1),
     (0x2E0, 0x2E4), (0x345, 0x345), (0x370, 0x373), (0x376, 0x377), (0x37A, 0x37D),
     (0x37F, 0x37F), (0x386, 0x386), (0x388, 0x38A), (0x38C, 0x38C), (0x38E, 0x3A1),
     (0x3A3, 0x3F5), (0x3F7, 0x481), (0x48A, 0x52F), (0x531, 0x556), (0x560, 0x588),
     (0x10A0, 0x10C5), (0x10C7, 0x10C7), (0x10CD, 0x10CD), (0x10D0, 0x10FA), (0x10FD, 0x10FF),
     (0x13A0, 0x13F5), (0x13F8, 0x13FD), (0x1C80, 0x1C88), (0x1C90, 0x1CBA), (0x1CBD, 0x1CBF),
     (0x1D00, 0x1DBF), (0x1E00, 0x1F15), (0x1F18, 0x1F1D), (0x1F20, 0x1F45), (0x1F48, 0x1F4D),
     (0x1F50, 0x1F57), (0x1F59, 0x1F59), (0x1F5B, 0x1F5B), (0x1F5D, 0x1F5D), (0x1F5F, 0x1F7D),
     (0x1F80, 0x1FB4), (0x1FB6, 0x1FBC), (0x1FBE, 0x1FBE), (0x1FC2, 0x1FC4), (0x1FC6, 0x1FCC),
     (0x1FD0, 0x1FD3), (0x1FD6, 0x1FDB), (0x1FE0, 0x1FEC), (0x1FF2, 0x1FF4), (0x1FF6, 0x1FFC),
     (0x2071, 0x2071), (0x207F, 0x207F), (0x2090, 0x209C), (0x2102, 0x2102), (0x2107, 0x2107),
     (0x210A, 0x2113), (0x2115, 0x2115), (0x2119, 0x211D), (0x2124, 0x2124), (0x2126, 0x2126),
     (0x2128, 0x2128), (0x212A, 0x212D), (0x212F, 0x2134), (0x2139, 0x2139), (0x213C, 0x213F),
     (0x2145, 0x2149), (0x214E, 0x214E), (0x2160, 0x217F), (0x2183, 0x2184), (0x24B6, 0x24E9),
     (0x2C00, 0x2CE4), (0x2CEB, 0x2CEE), (0x2CF2, 0x2CF3), (0x2D00, 0x2D25), (0x2D27, 0x2D27),
     (0x2D2D, 0x2D2D), (0xA640, 0xA66D), (0xA680, 0xA69D), (0xA722, 0xA787), (0xA78B, 0xA78E),
     (0xA790, 0xA7CA), (0xA7D0, 0xA7D1), (0xA7D3, 0xA7D3), (0xA7D5, 0xA7D9), (0xA7F5, 0xA7F6),
     (0xA7F8, 0xA7FA), (0xAB30, 0xAB5A), (0xAB5C, 0xAB68), (0xAB70, 0xABBF), (0xFB00, 0xFB06),
     (0xFB13, 0xFB17), (0xFF21, 0xFF3A), (0xFF41, 0xFF5A), (0x10400, 0x1044F),
     (0x104B0, 0x104D3), (0x104D8, 0x104FB), (0x10570, 0x1057A), (0x1057C, 0x1058A),
     (0x1058C, 0x10592), (0x10594, 0x10595), (0x10597, 0x105A1), (0x105A3, 0x105B1),
     (0x105B3, 0x105B9), (0x105BB, 0x105BC), (0x10780, 0x10780), (0x10783, 0x10785),
     (0x10787, 0x107B0), (0x107B2, 0x107BA), (0x10C80, 0x10CB2), (0x10CC0, 0x10CF2),
     (0x118A0, 0x118DF), (0x16E40, 0x16E7F), (0x1D400, 0x1D454), (0x1D456, 0x1D49C),
     (0x1D49E, 0x1D49F), (0x1D4A2, 0x1D4A2), (0x1D4A5, 0x1D4A6), (0x1D4A9, 0x1D4AC),
     (0x1D4AE, 0x1D4B9), (0x1D4BB, 0x1D4BB), (0x1D4BD, 0x1D4C3), (0x1D4C5, 0x1D505),
     (0x1D507, 0x1D50A), (0x1D50D, 0x1D514), (0x1D516, 0x1D51C), (0x1D51E, 0x1D539),
     (0x1D53B, 0x1D53E), (0x1D540, 0x1D544), (0x1D546, 0x1D546), (0x1D54A, 0x1D550),
     (0x1D552, 0x1D6A5), (0x1D6A8, 0x1D6C0), (0x1D6C2, 0x1D6DA), (0x1D6DC, 0x1D6FA),
     (0x1D6FC, 0x1D714), (0x1D716, 0x1D734), (0x1D736, 0x1D74E), (0x1D750, 0x1D76E),
     (0x1D770, 0x1D788), (0x1D78A, 0x1D7A8), (0x1D7AA, 0x1D7C2), (0x1D7C4, 0x1D7CB),
     (0x1DF00, 0x1DF09), (0x1DF0B, 0x1DF1E), (0x1E900, 0x1E943), (0x1F130, 0x1F149),
     (0x1F150, 0x1F169), (0x1F170, 0x1F189)]"

definition is_cased :: "nat \<Rightarrow> bool" where
  "is_cased c = in_ranges c CASED"

definition CASE_IGNORABLE :: "(nat \<times> nat) list" where
  "CASE_IGNORABLE =
    [(0x27, 0x27), (0x2E, 0x2E), (0x3A, 0x3A), (0x5E, 0x5E), (0x60, 0x60), (0xA8, 0xA8),
     (0xAD, 0xAD), (0xAF, 0xAF), (0xB4, 0xB4), (0xB7, 0xB8), (0x2B0, 0x36F), (0x374, 0x375),
     (0x37A, 0x37A), (0x384, 0x385), (0x387, 0x387), (0x483, 0x489), (0x559, 0x559),
     (0x55F, 0x55F), (0x591, 0x5BD), (0x5BF, 0x5BF), (0x5C1, 0x5C2), (0x5C4, 0x5C5),
     (0x5C7, 0x5C7), (0x5F4, 0x5F4), (0x600, 0x605), (0x610, 0x61A), (0x61C, 0x61C),
     (0x640, 0x640), (0x64B, 0x65F), (0x670, 0x670), (0x6D6, 0x6DD), (0x6DF, 0x6E8),
     (0x6EA, 0x6ED), (0x70F, 0x70F), (0x711, 0x711), (0x730, 0x74A), (0x7A6, 0x7B0),
     (0x7EB, 0x7F5), (0x7FA, 0x7FA), (0x7FD, 0x7FD), (0x816, 0x82D), (0x859, 0x85B),
     (0x888, 0x888), (0x890, 0x891), (0x898, 0x89F), (0x8C9, 0x902), (0x93A, 0x93A),
     (0x93C, 0x93C), (0x941, 0x948), (0x94D, 0x94D), (0x951, 0x957), (0x962, 0x963),
     (0x971, 0x971), (0x981, 0x981), (0x9BC, 0x9BC), (0x9C1, 0x9C4), (0x9CD, 0x9CD),
     (0x9E2, 0x9E3), (0x9FE, 0x9FE), (0xA01, 0xA02), (0xA3C, 0xA3C), (0xA41, 0xA42),
     (0xA47, 0xA48), (0xA4B, 0xA4D), (0xA51, 0xA51), (0xA70, 0xA71), (0xA75, 0xA75),
     (0xA81, 0xA82), (0xABC, 0xABC), (0xAC1, 0xAC5), (0xAC7, 0xAC8), (0xACD, 0xACD),
     (0xAE2, 0xAE3), (0xAFA, 0xAFF), (0xB01, 0xB01), (0xB3C, 0xB3C), (0xB3F, 0xB3F),
     (0xB41, 0xB44), (0xB4D, 0xB4D), (0xB55, 0xB56), (0xB62, 0xB63), (0xB82, 0xB82),
     (0xBC0, 0xBC0), (0xBCD, 0xBCD), (0xC00, 0xC00), (0xC04, 0xC04), (0xC3C, 0xC3C),
     (0xC3E, 0xC40), (0xC46, 0xC48), (0xC4A, 0xC4D), (0xC55, 0xC56), (0xC62, 0xC63),
     (0xC81, 0xC81), (0xCBC, 0xCBC), (0xCBF, 0xCBF), (0xCC6, 0xCC6), (0xCCC, 0xCCD),
     (0xCE2, 0xCE3), (0xD00, 0xD01), (0xD3B, 0xD3C), (0xD41, 0xD44), (0xD4D, 0xD4D),
     (0xD62, 0xD63), (0xD81, 0xD81), (0xDCA, 0xDCA), (0xDD2, 0xDD4), (0xDD6, 0xDD6),
     (0xE31, 0xE31), (0xE34, 0xE3A), (0xE46, 0xE4E), (0xEB1, 0xEB1), (0xEB4, 0xEBC),
     (0xEC6, 0xEC6), (0xEC8, 0xECD), (0xF18, 0xF19), (0xF35, 0xF35), (0xF37, 0xF37),
     (0xF39, 0xF39), (0xF71, 0xF7E), (0xF80, 0xF84), (0xF86, 0xF87), (0xF8D, 0xF97),
     (0xF99, 0xFBC), (0xFC6, 0xFC6), (0x102D, 0x1030), (0x1032, 0x1037), (0x1039, 0x103A),
     (0x103D, 0x103E), (0x1058, 0x1059), (0x105E, 0x1060), (0x1071, 0x1074), (0x1082, 0x1082),
     (0x1085, 0x1086), (0x108D, 0x108D), (0x109D, 0x109D), (0x10FC, 0x10FC), (0x135D, 0x135F),
     (0x1712, 0x1714), (0x1732, 0x1733), (0x1752, 0x1753), (0x1772, 0x1773), (0x17B4, 0x17B5),
     (0x17B7, 0x17BD), (0x17C6, 0x17C6), (0x17C9, 0x17D3), (0x17D7, 0x17D7), (0x17DD, 0x17DD),
     (0x180B, 0x180F), (0x1843, 0x1843), (0x1885, 0x1886), (0x18A9, 0x18A9), (0x1920, 0x1922),
     (0x1927, 0x1928), (0x1932, 0x1932), (0x1939, 0x193B), (0x1A17, 0x1A18), (0x1A1B, 0x1A1B),
     (0x1A56, 0x1A56), (0x1A58, 0x1A5E), (0x1A60, 0x1A60), (0x1A62, 0x1A62), (0x1A65, 0x1A6C),
     (0x1A73, 0x1A7C), (0x1A7F, 0x1A7F), (0x1AA7, 0x1AA7), (0x1AB0, 0x1ACE), (0x1B00, 0x1B03),
     (0x1B34, 0x1B34), (0x1B36, 0x1B3A), (0x1B3C, 0x1B3C), (0x1B42, 0x1B42), (0x1B6B, 0x1B73),
     (0x1B80, 0x1B81), (0x1BA2, 0x1BA5), (0x1BA8, 0x1BA9), (0x1BAB, 0x1BAD), (0x1BE6, 0x1BE6),
     (0x1BE8, 0x1BE9), (0x1BED, 0x1BED), (0x1BEF, 0x1BF1), (0x1C2C, 0x1C33), (0x1C36, 0x1C37),
     (0x1C78, 0x1C7D), (0x1CD0, 0x1CD2), (0x1CD4, 0x1CE0), (0x1CE2, 0x1CE8), (0x1CED, 0x1CED),
     (0x1CF4, 0x1CF4), (0x1CF8, 0x1CF9), (0x1D2C, 0x1D6A), (0x1D78, 0x1D78), (0x1D9B, 0x1DFF),
     (0x1FBD, 0x1FBD), (0x1FBF, 0x1FC1), (0x1FCD, 0x1FCF), (0x1FDD, 0x1FDF), (0x1FED, 0x1FEF),
     (0x1FFD, 0x1FFE), (0x200B, 0x200F), (0x2018, 0x2019), (0x2024, 0x2024), (0x2027, 0x2027),
     (0x202A, 0x202E), (0x2060, 0x2064), (0x2066, 0x206F), (0x2071, 0x2071), (0x207F, 0x207F),
     (0x2090, 0x209C), (0x20D0, 0x20F0), (0x2C7C, 0x2C7D), (0x2CEF, 0x2CF1), (0x2D6F, 0x2D6F),
     (0x2D7F, 0x2D7F), (0x2DE0, 0x2DFF), (0x2E2F, 0x2E2F), (0x3005, 0x3005), (0x302A, 0x302D),
     (0x3031, 0x3035), (0x303B, 0x303B), (0x3099, 0x309E), (0x30FC, 0x30FE), (0xA015, 0xA015),
     (0xA4F8, 0xA4FD), (0xA60C, 0xA60C), (0xA66F, 0xA672), (0xA674, 0xA67D), (0xA67F, 0xA67F),
     (0xA69C, 0xA69F), (0xA6F0, 0xA6F1), (0xA700, 0xA721), (0xA770, 0xA770), (0xA788, 0xA78A),
     (0xA7F2, 0xA7F4), (0xA7F8, 0xA7F9), (0xA802, 0xA802), (0xA806, 0xA806), (0xA80B, 0xA80B),
     (0xA825, 0xA826), (0xA82C, 0xA82C), (0xA8C4, 0xA8C5), (0xA8E0, 0xA8F1), (0xA8FF, 0xA8FF),
     (0xA926, 0xA92D), (0xA947, 0xA951), (0xA980, 0xA982), (0xA9B3, 0xA9B3), (0xA9B6, 0xA9B9),
     (0xA9BC, 0xA9BD), (0xA9CF, 0xA9CF), (0xA9E5, 0xA9E6), (0xAA29, 0xAA2E), (0xAA31, 0xAA32),
     (0xAA35, 0xAA36), (0xAA43, 0xAA43), (0xAA4C, 0xAA4C), (0xAA70, 0xAA70), (0xAA7C, 0xAA7C),
     (0xAAB0, 0xAAB0), (0xAAB2, 0xAAB4), (0xAAB7, 0xAAB8), (0xAABE, 0xAABF), (0xAAC1, 0xAAC1),
     (0xAADD, 0xAADD), (0xAAEC, 0xAAED), (0xAAF3, 0xAAF4), (0xAAF6, 0xAAF6), (0xAB5B, 0xAB5F),
     (0xAB69, 0xAB6B), (0xABE5, 0xABE5), (0xABE8, 0xABE8), (0xABED, 0xABED), (0xFB1E, 0xFB1E),
     (0xFBB2, 0xFBC2), (0xFE00, 0xFE0F), (0xFE13, 0xFE13), (0xFE20, 0xFE2F), (0xFE52, 0xFE52),
     (0xFE55, 0xFE55), (0xFEFF, 0xFEFF), (0xFF07, 0xFF07), (0xFF0E, 0xFF0E), (0xFF1A, 0xFF1A),
     (0xFF3E, 0xFF3E), (0xFF40, 0xFF40), (0xFF70, 0xFF70), (0xFF9E, 0xFF9F), (0xFFE3, 0xFFE3),
     (0xFFF9, 0xFFFB), (0x101FD, 0x101FD), (0x102E0, 0x102E0), (0x10376, 0x1037A),
     (0x10780, 0x10785), (0x10787, 0x107B0), (0x107B2, 0x107BA), (0x10A01, 0x10A03),
     (0x10A05, 0x10A06), (0x10A0C, 0x10A0F), (0x10A38, 0x10A3A), (0x10A3F, 0x10A3F),
     (0x10AE5, 0x10AE6), (0x10D24, 0x10D27), (0x10EAB, 0x10EAC), (0x10F46, 0x10F50),
     (0x10F82, 0x10F85), (0x11001, 0x11001), (0x11038, 0x11046), (0x11070, 0x11070),
     (0x11073, 0x11074), (0x1107F, 0x11081), (0x110B3, 0x110B6), (0x110B9, 0x110BA),
     (0x110BD, 0x110BD), (0x110C2, 0x110C2), (0x110CD, 0x110CD), (0x11100, 0x11102),
     (0x11127, 0x1112B), (0x1112D, 0x11134), (0x11173, 0x11173), (0x11180, 0x11181),
     (0x111B6, 0x111BE), (0x111C9, 0x111CC), (0x111CF, 0x111CF), (0x1122F, 0x11231),
     (0x11234, 0x11234), (0x11236, 0x11237), (0x1123E, 0x1123E), (0x112DF, 0x112DF),
     (0x112E3, 0x112EA), (0x11300, 0x11301), (0x1133B, 0x1133C), (0x11340, 0x11340),
     (0x11366, 0x1136C), (0x11370, 0x11374), (0x11438, 0x1143F), (0x11442, 0x11444),
     (0x11446, 0x11446), (0x1145E, 0x1145E), (0x114B3, 0x114B8), (0x114BA, 0x114BA),
     (0x114BF, 0x114C0), (0x114C2, 0x114C3), (0x115B2, 0x115B5), (0x115BC, 0x115BD),
     (0x115BF, 0x115C0), (0x115DC, 0x115DD), (0x11633, 0x1163A), (0x1163D, 0x1163D),
     (0x1163F, 0x11640), (0x116AB, 0x116AB), (0x116AD, 0x116AD), (0x116B0, 0x116B5),
     (0x116B7, 0x116B7), (0x1171D, 0x1171F), (0x11722, 0x11725), (0x11727, 0x1172B),
     (0x1182F, 0x11837), (0x11839, 0x1183A), (0x1193B, 0x1193C), (0x1193E, 0x1193E),
     (0x11943, 0x11943), (0x119D4, 0x119D7), (0x119DA, 0x119DB), (0x119E0, 0x119E0),
     (0x11A01, 0x11A0A), (0x11A33, 0x11A38), (0x11A3B, 0x11A3E), (0x11A47, 0x11A47),
     (0x11A51, 0x11A56), (0x11A59, 0x11A5B), (0x11A8A, 0x11A96), (0x11A98, 0x11A99),
     (0x11C30, 0x11C36), (0x11C38, 0x11C3D), (0x11C3F, 0x11C3F), (0x11C92, 0x11CA7),
     (0x11CAA, 0x11CB0), (0x11CB2, 0x11CB3), (0x11CB5, 0x11CB6), (0x11D31, 0x11D36),
     (0x11D3A, 0x11D3A), (0x11D3C, 0x11D3D), (0x11D3F, 0x11D45), (0x11D47, 0x11D47),
     (0x11D90, 0x11D91), (0x11D95, 0x11D95), (0x11D97, 0x11D97), (0x11EF3, 0x11EF4),
     (0x13430, 0x13438), (0x16AF0, 0x16AF4), (0x16B30, 0x16B36), (0x16B40, 0x16B43),
     (0x16F4F, 0x16F4F), (0x16F8F, 0x16F9F), (0x16FE0, 0x16FE1), (0x16FE3, 0x16FE4),
     (0x1AFF0, 0x1AFF3), (0x1AFF5, 0x1AFFB), (0x1AFFD, 0x1AFFE), (0x1BC9D, 0x1BC9E),
     (0x1BCA0, 0x1BCA3), (0x1CF00, 0x1CF2D), (0x1CF30, 0x1CF46), (0x1D167, 0x1D169),
     (0x1D173, 0x1D182), (0x1D185, 0x1D18B), (0x1D1AA, 0x1D1AD), (0x1D242, 0x1D244),
     (0x1DA00, 0x1DA36), (0x1DA3B, 0x1DA6C), (0x1DA75, 0x1DA75), (0x1DA84, 0x1DA84),
     (0x1DA9B, 0x1DA9F), (0x1DAA1, 0x1DAAF), (0x1E000, 0x1E006), (0x1E008, 0x1E018),
     (0x1E01B, 0x1E021), (0x1E023, 0x1E024), (0x1E026, 0x1E02A), (0x1E130, 0x1E13D),
     (0x1E2AE, 0x1E2AE), (0x1E2EC, 0x1E2EF), (0x1E8D0, 0x1E8D6), (0x1E944, 0x1E94B),
     (0x1F3FB, 0x1F3FF), (0xE0001, 0xE0001), (0xE0020, 0xE007F), (0xE0100, 0xE01EF)]"

definition is_case_ignorable :: "nat \<Rightarrow> bool" where
  "is_case_ignorable c = in_ranges c CASE_IGNORABLE"

section \<open>Methods of \<^verbatim>\<open>str\<close>\<close>

text \<open>
  \<^verbatim>\<open>repr(s)\<close>: single quotes unless the string holds a single quote and no double quote;
  the quote, the backslash and the characters that are not printable are escaped, with
  two, four or eight hexadecimal digits by the size of the code point.
\<close>

definition hex_digit :: "nat \<Rightarrow> nat" where
  "hex_digit n = ascii ''0123456789abcdef'' ! n"

fun hex :: "nat \<Rightarrow> nat \<Rightarrow> str" where
  "hex 0 n = []"
| "hex (Suc w) n = hex w (n div 16) @ [hex_digit (n mod 16)]"

definition repr_char :: "nat \<Rightarrow> nat \<Rightarrow> str" where
  "repr_char q c =
     (if c = q \<or> c = BACKSLASH then [BACKSLASH, c]
      else if c = 0x09 then BACKSLASH # ascii ''t''
      else if c = 0x0A then BACKSLASH # ascii ''n''
      else if c = 0x0D then BACKSLASH # ascii ''r''
      else if is_printable c then [c]
      else if c < 0x100 then BACKSLASH # ascii ''x'' @ hex 2 c
      else if c < 0x10000 then BACKSLASH # ascii ''u'' @ hex 4 c
      else BACKSLASH # ascii ''U'' @ hex 8 c)"

definition py_repr :: "str \<Rightarrow> str" where
  "py_repr s =
     (let q = (if SQUOTE \<in> set s \<and> DQUOTE \<notin> set s then DQUOTE else SQUOTE)
      in q # concat (map (repr_char q) s) @ [q])"

text \<open>
  \<^verbatim>\<open>str(error)\<close>. An exception raised with one argument renders as that argument, except
  \<^verbatim>\<open>KeyError\<close>, whose \<^verbatim>\<open>__str__\<close> is the \<^verbatim>\<open>repr\<close> of its argument.
\<close>

fun str_error :: "error \<Rightarrow> str" where
  "str_error (ValueError m) = m"
| "str_error (IndexError m) = m"
| "str_error (OverflowError m) = m"
| "str_error (KeyError m) = py_repr m"

text \<open>
  \<^verbatim>\<open>s.strip()\<close> and \<^verbatim>\<open>s.split()\<close>: white space is dropped at both ends, and the words are
  the maximal runs of other characters.
\<close>

definition py_strip :: "str \<Rightarrow> str" where
  "py_strip s = rev (dropWhile is_space (rev (dropWhile is_space s)))"

fun split_from :: "str \<Rightarrow> str \<Rightarrow> str list" where
  "split_from word [] = (if word = [] then [] else [word])"
| "split_from word (c # cs) =
     (if is_space c then (if word = [] then split_from [] cs else word # split_from [] cs)
      else split_from (word @ [c]) cs)"

definition py_split :: "str \<Rightarrow> str list" where
  "py_split s = split_from [] s"

text \<open>
  \<^verbatim>\<open>s.lower()\<close>: every code point is replaced by its lower case, except the capital sigma
  \<^verbatim>\<open>U+03A3\<close>. That one becomes the final sigma \<^verbatim>\<open>U+03C2\<close> when it ends a word, and the small
  sigma \<^verbatim>\<open>U+03C3\<close> otherwise: it ends a word when the nearest character before it that is
  not case-ignorable exists and is cased, and the nearest one after it that is not
  case-ignorable does not exist or is not cased. \<open>before\<close> holds the characters already
  passed, the nearest first.
\<close>

definition final_sigma :: "str \<Rightarrow> str \<Rightarrow> bool" where
  "final_sigma before after =
     ((case dropWhile is_case_ignorable before of [] \<Rightarrow> False | c # cs \<Rightarrow> is_cased c) \<and>
      (case dropWhile is_case_ignorable after of [] \<Rightarrow> True | c # cs \<Rightarrow> \<not> is_cased c))"

fun lower_from :: "str \<Rightarrow> str \<Rightarrow> str" where
  "lower_from before [] = []"
| "lower_from before (c # cs) =
     (if c = 0x3A3 then [if final_sigma before cs then 0x3C2 else 0x3C3] else lower_char c) @
     lower_from (c # before) cs"

definition py_lower :: "str \<Rightarrow> str" where
  "py_lower s = lower_from [] s"

section \<open>Regular expressions of the program\<close>

text \<open>
  The two patterns in play, \<^verbatim>\<open>\d{10}\<close> and the pattern the library builds for a
  \<^verbatim>\<open>strptime\<close> format, are sequences of groups, each group an alternation of fixed
  sequences of character classes. A class is \<^verbatim>\<open>\d\<close>, which on a \<^verbatim>\<open>str\<close> matches every code
  point with a decimal digit value, or the list of the characters it matches.
  \<open>re_run\<close> is the backtracking matcher: alternatives are tried left to right, and a
  later alternative is tried when the rest of the pattern fails after an earlier one.
  It returns the text of each group and the unmatched rest; with \<open>full\<close> set, a match must
  reach the end of the string (\<^verbatim>\<open>fullmatch\<close>).
\<close>

datatype cclass = Digit | Chars str

fun matches :: "cclass \<Rightarrow> nat \<Rightarrow> bool" where
  "matches Digit c = (decimal c \<noteq> None)"
| "matches (Chars k) c = (c \<in> set k)"

declare matches.simps [simp del]

type_synonym regex = "cclass list list list"

definition cls_1_9 :: cclass where
  "cls_1_9 = Chars (ascii ''123456789'')"

fun match_seq :: "cclass list \<Rightarrow> str \<Rightarrow> (str \<times> str) option" where
  "match_seq [] s = Some ([], s)"
| "match_seq (k # ks) [] = None"
| "match_seq (k # ks) (c # cs) =
     (if matches k c
      then (case match_seq ks cs of None \<Rightarrow> None | Some (m, r) \<Rightarrow> Some (c # m, r))
      else None)"

fun re_run :: "bool \<Rightarrow> regex \<Rightarrow> str \<Rightarrow> (str list \<times> str) option" where
  "re_run full [] s = (if full \<and> s \<noteq> [] then None else Some ([], s))"
| "re_run full ([] # gs) s = None"
| "re_run full ((a # as) # gs) s =
     (case match_seq a s of
        None \<Rightarrow> re_run full (as # gs) s
      | Some (m, rest) \<Rightarrow>
          (case re_run full gs rest of
             Some (ms, r) \<Rightarrow> Some (m # ms, r)
           | None \<Rightarrow> re_run full (as # gs) s))"

definition re_match :: "regex \<Rightarrow> str \<Rightarrow> (str list \<times> str) option" where
  "re_match = re_run False"

definition re_fullmatch :: "regex \<Rightarrow> str \<Rightarrow> (str list \<times> str) option" where
  "re_fullmatch = re_run True"

text \<open>\<^verbatim>\<open>PHONE_REGEX = re.compile(r"\d{10}")\<close>\<close>

definition PHONE_REGEX :: regex where
  "PHONE_REGEX = [[replicate 10 Digit]]"

section \<open>The \<^verbatim>\<open>datetime\<close> library\<close>

text \<open>
  A \<^verbatim>\<open>date\<close> holds year, month and day; every value the library hands out satisfies
  \<open>valid_date\<close>. The ordinal arithmetic follows CPython: day 1 is 0001-01-01.
  A \<^verbatim>\<open>datetime\<close> is modelled by its date: the program only stores what \<^verbatim>\<open>strptime\<close>
  returns for a date-only format (midnight) and only reads \<^verbatim>\<open>.date()\<close> and the date
  directives of \<^verbatim>\<open>strftime\<close>.
\<close>

record date =
  year :: int
  month :: int
  day :: int

definition MINYEAR :: int where
  "MINYEAR = 1"

definition MAXYEAR :: int where
  "MAXYEAR = 9999"

definition MAXORDINAL :: int where
  "MAXORDINAL = 3652059"

definition is_leap :: "int \<Rightarrow> bool" where
  "is_leap y = (y mod 4 = 0 \<and> (y mod 100 \<noteq> 0 \<or> y mod 400 = 0))"

definition DAYS_IN_MONTH :: "int list" where
  "DAYS_IN_MONTH = [31, 28, 31, 30, 31, 30, 31, 31, 30, 31, 30, 31]"

definition DAYS_BEFORE_MONTH :: "int list" where
  "DAYS_BEFORE_MONTH = [0, 31, 59, 90, 120, 151, 181, 212, 243, 273, 304, 334]"

definition days_in_month :: "int \<Rightarrow> int \<Rightarrow> int" where
  "days_in_month y m = (if m = 2 \<and> is_leap y then 29 else DAYS_IN_MONTH ! nat (m - 1))"

definition days_before_year :: "int \<Rightarrow> int" where
  "days_before_year y = (let y' = y - 1 in y' * 365 + y' div 4 - y' div 100 + y' div 400)"

definition days_before_month :: "int \<Rightarrow> int \<Rightarrow> int" where
  "days_before_month y m =
     DAYS_BEFORE_MONTH ! nat (m - 1) + (if m > 2 \<and> is_leap y then 1 else 0)"

definition ymd2ord :: "int \<Rightarrow> int \<Rightarrow> int \<Rightarrow> int" where
  "ymd2ord y m d = days_before_year y + days_before_month y m + d"

definition valid_date :: "date \<Rightarrow> bool" where
  "valid_date d =
     (MINYEAR \<le> year d \<and> year d \<le> MAXYEAR \<and> 1 \<le> month d \<and> month d \<le> 12 \<and>
      1 \<le> day d \<and> day d \<le> days_in_month (year d) (month d))"

text \<open>\<^verbatim>\<open>date(y, m, d)\<close>: the constructor checks its fields.\<close>

definition date_new :: "int \<Rightarrow> int \<Rightarrow> int \<Rightarrow> error + date" where
  "date_new y m d =
     (if \<not> (MINYEAR \<le> y \<and> y \<le> MAXYEAR)
        then Inl (ValueError (ascii ''year '' @ str_int y @ ascii '' is out of range''))
      else if \<not> (1 \<le> m \<and> m \<le> 12) then Inl (ValueError (ascii ''month must be in 1..12''))
      else if \<not> (1 \<le> d \<and> d \<le> days_in_month y m)
        then Inl (ValueError (ascii ''day is out of range for month''))
      else Inr \<lparr>year = y, month = m, day = d\<rparr>)"

text \<open>\<^verbatim>\<open>d.replace(year=y)\<close> builds a new date from the changed fields.\<close>

definition replace_year :: "date \<Rightarrow> int \<Rightarrow> error + date" where
  "replace_year d y = date_new y (month d) (day d)"

definition toordinal :: "date \<Rightarrow> int" where
  "toordinal d = ymd2ord (year d) (month d) (day d)"

text \<open>\<^verbatim>\<open>d.weekday()\<close>: Monday is 0, Sunday is 6.\<close>

definition weekday :: "date \<Rightarrow> int" where
  "weekday d = (toordinal d + 6) mod 7"

text \<open>\<^verbatim>\<open>a < b\<close> on dates compares year, month, day in this order.\<close>

definition date_lt :: "date \<Rightarrow> date \<Rightarrow> bool" where
  "date_lt a b =
     (year a < year b \<or> (year a = year b \<and>
       (month a < month b \<or> (month a = month b \<and> day a < day b))))"

text \<open>\<^verbatim>\<open>(a - b).days\<close>\<close>

definition days_between :: "date \<Rightarrow> date \<Rightarrow> int" where
  "days_between a b = toordinal a - toordinal b"

text \<open>
  \<^verbatim>\<open>d + timedelta(days=k)\<close> for \<open>k \<ge> 0\<close>, the only use the program makes of it: the date
  \<open>k\<close> days later, or \<^verbatim>\<open>OverflowError\<close> beyond 9999-12-31.
\<close>

definition tomorrow :: "date \<Rightarrow> date" where
  "tomorrow d =
     (if day d < days_in_month (year d) (month d) then d\<lparr>day := day d + 1\<rparr>
      else if month d < 12 then d\<lparr>month := month d + 1, day := 1\<rparr>
      else \<lparr>year = year d + 1, month = 1, day = 1\<rparr>)"

definition date_add_days :: "date \<Rightarrow> nat \<Rightarrow> error + date" where
  "date_add_days d k =
     (if toordinal d + int k > MAXORDINAL then Inl (OverflowError (ascii ''date value out of range''))
      else Inr ((tomorrow ^^ k) d))"

subsection \<open>\<^verbatim>\<open>strptime\<close> and \<^verbatim>\<open>strftime\<close>\<close>

text \<open>
  A format is the list of its items: \<^verbatim>\<open>"%d.%m.%Y"\<close> is \<open>[Pd, Lit DOT, Pm, Lit DOT, PY]\<close>.
  The pattern of each directive is the one of CPython's \<^verbatim>\<open>_strptime.TimeRE\<close>:
  \<^verbatim>\<open>%d\<close> is \<^verbatim>\<open>3[0-1]|[1-2]\d|0[1-9]|[1-9]| [1-9]\<close>, \<^verbatim>\<open>%m\<close> is \<^verbatim>\<open>1[0-2]|0[1-9]|[1-9]\<close>,
  \<^verbatim>\<open>%Y\<close> is \<^verbatim>\<open>\d\d\d\d\<close>. The library compiles the pattern with \<^verbatim>\<open>IGNORECASE\<close>, which
  changes nothing here: the pattern holds no letter.
\<close>

datatype fmt = Pd | Pm | PY | Lit nat

fun fmt_regex :: "fmt \<Rightarrow> cclass list list" where
  "fmt_regex Pd =
     [[Chars (ascii ''3''), Chars (ascii ''01'')], [Chars (ascii ''12''), Digit],
      [Chars (ascii ''0''), cls_1_9], [cls_1_9], [Chars (ascii '' ''), cls_1_9]]"
| "fmt_regex Pm =
     [[Chars (ascii ''1''), Chars (ascii ''012'')], [Chars (ascii ''0''), cls_1_9], [cls_1_9]]"
| "fmt_regex PY = [[Digit, Digit, Digit, Digit]]"
| "fmt_regex (Lit c) = [[Chars [c]]]"

fun fmt_text :: "fmt \<Rightarrow> str" where
  "fmt_text Pd = ascii ''%d''"
| "fmt_text Pm = ascii ''%m''"
| "fmt_text PY = ascii ''%Y''"
| "fmt_text (Lit c) = [c]"

definition FMT_DMY :: "fmt list" where
  "FMT_DMY = [Pd, Lit DOT, Pm, Lit DOT, PY]"

definition FMT_YMD :: "fmt list" where
  "FMT_YMD = [PY, Lit DOT, Pm, Lit DOT, Pd]"

text \<open>
  \<^verbatim>\<open>int(s)\<close> on a group of digits, which \<^verbatim>\<open>%d\<close> may have matched with a leading blank:
  the blank is skipped, and every digit counts with its decimal digit value, whatever its
  script.
\<close>

definition digit_val :: "nat \<Rightarrow> nat" where
  "digit_val c = (case decimal c of None \<Rightarrow> 0 | Some v \<Rightarrow> v)"

definition py_int :: "str \<Rightarrow> int" where
  "py_int s =
     int (foldl (\<lambda>acc c. 10 * acc + digit_val c) 0 (dropWhile (\<lambda>c. c = SPACE) s))"

definition group_value :: "fmt list \<Rightarrow> str list \<Rightarrow> fmt \<Rightarrow> int \<Rightarrow> int" where
  "group_value f ms p dflt = (case map_of (zip f ms) p of None \<Rightarrow> dflt | Some g \<Rightarrow> py_int g)"

definition strptime :: "str \<Rightarrow> fmt list \<Rightarrow> error + date" where
  "strptime s f =
     (case re_match (map fmt_regex f) s of
        None \<Rightarrow>
          Inl (ValueError (ascii ''time data '' @ py_repr s @ ascii '' does not match format '' @
                           py_repr (concat (map fmt_text f))))
      | Some (ms, r) \<Rightarrow>
          if r \<noteq> [] then Inl (ValueError (ascii ''unconverted data remains: '' @ r))
          else date_new (group_value f ms PY 1900) (group_value f ms Pm 1) (group_value f ms Pd 1))"

text \<open>
  \<^verbatim>\<open>d.strftime(f)\<close>. \<^verbatim>\<open>%d\<close> and \<^verbatim>\<open>%m\<close> are two digits; \<^verbatim>\<open>%Y\<close> is the year as the C
  library prints it, without padding (CPython up to 3.12 on Linux).
\<close>

fun fmt_render :: "date \<Rightarrow> fmt \<Rightarrow> str" where
  "fmt_render d Pd = zfill 2 (str_int (day d))"
| "fmt_render d Pm = zfill 2 (str_int (month d))"
| "fmt_render d PY = str_int (year d)"
| "fmt_render d (Lit c) = [c]"

definition strftime :: "date \<Rightarrow> fmt list \<Rightarrow> str" where
  "strftime d f = concat (map (fmt_render d) f)"

section \<open>Fields: \<^verbatim>\<open>Name\<close>, \<^verbatim>\<open>Phone\<close>, \<^verbatim>\<open>Birthday\<close>\<close>

text \<open>
  A field object is modelled by the value its validating setter stored. The constructor
  \<^verbatim>\<open>Field.__init__\<close> runs the setter, so each \<open>_init\<close> below is the setter of its class,
  returning the stored value or the exception.
\<close>

definition Name_init :: "str \<Rightarrow> error + str" where
  "Name_init n = (if n = [] then Inl (ValueError (ascii ''Name cannot be empty.'')) else Inr n)"

definition Phone_init :: "str \<Rightarrow> error + str" where
  "Phone_init new_phone_number =
     (if re_fullmatch PHONE_REGEX new_phone_number = None
        then Inl (ValueError (ascii ''Phone number must contain exactly 10 digits.''))
      else Inr new_phone_number)"

text \<open>
  The value of a \<^verbatim>\<open>Birthday\<close> is \<^verbatim>\<open>None\<close> or a \<^verbatim>\<open>datetime\<close>. Its setter branches on what
  it is given: \<^verbatim>\<open>None\<close>, a \<^verbatim>\<open>datetime\<close>, a string, or anything else.
\<close>

type_synonym Birthday = "date option"

datatype birthday_arg = ArgNone | ArgDatetime date | ArgStr str | ArgOther

fun Birthday_init :: "birthday_arg \<Rightarrow> error + Birthday" where
  "Birthday_init ArgNone = Inr None"
| "Birthday_init (ArgDatetime v) = Inr (Some v)"
| "Birthday_init (ArgStr v) =
     (case strptime v FMT_DMY of
        Inl e \<Rightarrow> Inl (ValueError (ascii ''Invalid date format. Use DD.MM.YYYY''))
      | Inr parsed_date \<Rightarrow> Inr (Some parsed_date))"
| "Birthday_init ArgOther =
     Inl (ValueError (ascii ''Birthday must be a datetime instance or str in DD.MM.YYYY format.''))"

fun Birthday_str :: "Birthday \<Rightarrow> str" where
  "Birthday_str None = []"
| "Birthday_str (Some v) = strftime v FMT_DMY"

section \<open>\<^verbatim>\<open>Record\<close>\<close>

text \<open>
  A method that mutates the record returns what it raised or returned together with the
  record as the call leaves it. The phone objects of a record are pairwise distinct
  objects (each is created by the call that stores it), so the list of their values
  determines the list, and \<^verbatim>\<open>phones.index(obj)\<close> and \<^verbatim>\<open>phones.remove(obj)\<close> act on the
  position \<^verbatim>\<open>find_phone\<close> found the object at: the first one holding the value.
\<close>

record Record =
  name :: str
  phones :: "str list"
  birthday :: "Birthday option"

definition Record_init :: "str \<Rightarrow> error + Record" where
  "Record_init n =
     (case Name_init n of
        Inl e \<Rightarrow> Inl e
      | Inr v \<Rightarrow> Inr \<lparr>name = v, phones = [], birthday = None\<rparr>)"

definition Record_add_phone :: "Record \<Rightarrow> str \<Rightarrow> (error + unit) \<times> Record" where
  "Record_add_phone self phone =
     (case Phone_init phone of
        Inl e \<Rightarrow> (Inl e, self)
      | Inr p \<Rightarrow> (Inr (), self\<lparr>phones := phones self @ [p]\<rparr>))"

fun find_index :: "'a \<Rightarrow> 'a list \<Rightarrow> nat option" where
  "find_index v [] = None"
| "find_index v (x # xs) =
     (if x = v then Some 0 else (case find_index v xs of None \<Rightarrow> None | Some i \<Rightarrow> Some (Suc i)))"

text \<open>\<^verbatim>\<open>find_phone\<close> returns the first phone object whose value is the argument: its position.\<close>

definition Record_find_phone :: "Record \<Rightarrow> str \<Rightarrow> nat option" where
  "Record_find_phone self phone = find_index phone (phones self)"

definition Record_remove_phone :: "Record \<Rightarrow> str \<Rightarrow> (error + unit) \<times> Record" where
  "Record_remove_phone self phone =
     (case Record_find_phone self phone of
        None \<Rightarrow> (Inl (ValueError (ascii ''Phone number not found.'')), self)
      | Some i \<Rightarrow> (Inr (), self\<lparr>phones := take i (phones self) @ drop (Suc i) (phones self)\<rparr>))"

text \<open>
  In \<^verbatim>\<open>self.phones[self.phones.index(phone_to_edit)] = Phone(new_phone_number)\<close> the right
  side is evaluated first, so an invalid new number raises before the list is touched.
\<close>

definition Record_edit_phone :: "Record \<Rightarrow> str \<Rightarrow> str \<Rightarrow> (error + unit) \<times> Record" where
  "Record_edit_phone self existing_phone_number new_phone_number =
     (case Record_find_phone self existing_phone_number of
        None \<Rightarrow> (Inl (ValueError (ascii ''Phone number to edit not found.'')), self)
      | Some i \<Rightarrow>
          (case Phone_init new_phone_number of
             Inl e \<Rightarrow> (Inl e, self)
           | Inr p \<Rightarrow> (Inr (), self\<lparr>phones := (phones self)[i := p]\<rparr>)))"

definition Record_add_birthday :: "Record \<Rightarrow> str \<Rightarrow> (error + unit) \<times> Record" where
  "Record_add_birthday self b =
     (case Birthday_init (ArgStr b) of
        Inl e \<Rightarrow> (Inl e, self)
      | Inr v \<Rightarrow> (Inr (), self\<lparr>birthday := Some v\<rparr>))"

text \<open>
  The next occurrence of a birthday, as \<^verbatim>\<open>days_to_birthday\<close>, \<^verbatim>\<open>get_upcoming_birthdays\<close>
  and \<^verbatim>\<open>birthdays\<close> each compute it:
  \<^verbatim>\<open>nb = d.replace(year=today.year); if nb < today: nb = nb.replace(year=today.year + 1)\<close>.
\<close>

definition next_birthday :: "date \<Rightarrow> date \<Rightarrow> error + date" where
  "next_birthday birthday_date today =
     (case replace_year birthday_date (year today) of
        Inl e \<Rightarrow> Inl e
      | Inr nb \<Rightarrow> if date_lt nb today then replace_year nb (year today + 1) else Inr nb)"

text \<open>
  \<^verbatim>\<open>days_to_birthday\<close> reads the clock; \<open>today\<close> is what \<^verbatim>\<open>datetime.today().date()\<close>
  returned. The method assigns to no attribute, so it returns its result only.
\<close>

definition Record_days_to_birthday :: "Record \<Rightarrow> date \<Rightarrow> error + int option" where
  "Record_days_to_birthday self today =
     (case birthday self of
        None \<Rightarrow> Inr None
      | Some None \<Rightarrow> Inr None
      | Some (Some v) \<Rightarrow>
          (case next_birthday v today of
             Inl e \<Rightarrow> Inl e
           | Inr nb \<Rightarrow> Inr (Some (days_between nb today))))"

definition Record_str :: "Record \<Rightarrow> str" where
  "Record_str self =
     (let phones_str = py_join (ascii ''; '') (phones self);
          birthday_str = (case birthday self of
                            None \<Rightarrow> []
                          | Some b \<Rightarrow> ascii '', birthday: '' @ Birthday_str b)
      in ascii ''Contact name: '' @ name self @ ascii '', phones: '' @ phones_str @ birthday_str)"

section \<open>\<^verbatim>\<open>AddressBook\<close>\<close>

text \<open>The \<^verbatim>\<open>data\<close> dictionary of the book, from contact name to record, in insertion order.\<close>

type_synonym AddressBook = "(str \<times> Record) list"

definition add_record :: "AddressBook \<Rightarrow> Record \<Rightarrow> AddressBook" where
  "add_record book record = dict_set (name record) record book"

definition find_record :: "AddressBook \<Rightarrow> str \<Rightarrow> Record option" where
  "find_record book n = map_of book n"

definition delete :: "AddressBook \<Rightarrow> str \<Rightarrow> (error + unit) \<times> AddressBook" where
  "delete book n =
     (if n \<in> fst ` set book then (Inr (), filter (\<lambda>p. fst p \<noteq> n) book)
      else (Inl (KeyError (ascii ''Record with name '' @ [SQUOTE] @ n @ [SQUOTE] @ ascii '' not found.'')), book))"

text \<open>
  A record the book holds is the object a handler works on: a method called on it changes
  the value of the book's entry, and only that. It never adds an entry: when the book
  has no entry for the record, the book stays as it is. \<open>update_entry\<close> replaces the value
  of an existing key, and \<open>store\<close> puts the record a method left into the entry it was
  found under (or inserted under by \<^verbatim>\<open>add_record\<close>).
\<close>

fun update_entry :: "'k \<Rightarrow> 'v \<Rightarrow> ('k \<times> 'v) list \<Rightarrow> ('k \<times> 'v) list" where
  "update_entry k v [] = []"
| "update_entry k v (p # ps) = (if fst p = k then (k, v) # ps else p # update_entry k v ps)"

definition store :: "AddressBook \<Rightarrow> str \<Rightarrow> (error + unit) \<times> Record \<Rightarrow> (error + unit) \<times> AddressBook" where
  "store book n res = (fst res, update_entry n (snd res) book)"

section \<open>The upcoming-birthdays computation\<close>

text \<open>
  The weekend shift of both \<^verbatim>\<open>get_upcoming_birthdays\<close> and \<^verbatim>\<open>birthdays\<close>:
  \<^verbatim>\<open>if cd.weekday() >= 5: cd += timedelta(days=7 - cd.weekday())\<close>.
\<close>

definition congratulation_date :: "date \<Rightarrow> error + date" where
  "congratulation_date nb =
     (if weekday nb \<ge> 5 then date_add_days nb (nat (7 - weekday nb)) else Inr nb)"

text \<open>\<^verbatim>\<open>upcoming.setdefault(key, []).append(n)\<close> on a dictionary of lists.\<close>

fun setdefault_append :: "('k \<times> 'v list) list \<Rightarrow> 'k \<Rightarrow> 'v \<Rightarrow> ('k \<times> 'v list) list" where
  "setdefault_append [] k v = [(k, [v])]"
| "setdefault_append (p # ps) k v =
     (if fst p = k then (k, snd p @ [v]) # ps else p # setdefault_append ps k v)"

text \<open>
  The loop of \<^verbatim>\<open>birthdays\<close> over \<^verbatim>\<open>book.data.values()\<close>, with the dictionary
  \<^verbatim>\<open>upcoming\<close> as accumulator. An exception leaves the loop and the handler.
\<close>

fun birthdays_loop ::
  "date \<Rightarrow> Record list \<Rightarrow> (date \<times> str list) list \<Rightarrow> error + (date \<times> str list) list" where
  "birthdays_loop today [] upcoming = Inr upcoming"
| "birthdays_loop today (record # rest) upcoming =
     (case birthday record of
        None \<Rightarrow> birthdays_loop today rest upcoming
      | Some None \<Rightarrow> birthdays_loop today rest upcoming
      | Some (Some birthday_date) \<Rightarrow>
          (case next_birthday birthday_date today of
             Inl e \<Rightarrow> Inl e
           | Inr nb \<Rightarrow>
               (let days_until = days_between nb today
                in if 0 \<le> days_until \<and> days_until < 7
                   then (case congratulation_date nb of
                           Inl e \<Rightarrow> Inl e
                         | Inr cd \<Rightarrow>
                             birthdays_loop today rest (setdefault_append upcoming cd (name record)))
                   else birthdays_loop today rest upcoming)))"

text \<open>
  \<^verbatim>\<open>get_upcoming_birthdays(users)\<close>: each user is a dictionary with the keys
  \<^verbatim>\<open>"name"\<close> and \<^verbatim>\<open>"birthday"\<close>; a missing key raises \<^verbatim>\<open>KeyError\<close>.
\<close>

definition dict_get :: "(str \<times> 'v) list \<Rightarrow> str \<Rightarrow> error + 'v" where
  "dict_get d k = (case map_of d k of None \<Rightarrow> Inl (KeyError k) | Some v \<Rightarrow> Inr v)"

fun get_upcoming_birthdays ::
  "date \<Rightarrow> (str \<times> str) list list \<Rightarrow> error + (str \<times> str) list list" where
  "get_upcoming_birthdays today [] = Inr []"
| "get_upcoming_birthdays today (user # users) =
     (case dict_get user (ascii ''birthday'') of
        Inl e \<Rightarrow> Inl e
      | Inr b \<Rightarrow>
     (case strptime b FMT_YMD of
        Inl e \<Rightarrow> Inl e
      | Inr birthday_date \<Rightarrow>
     (case next_birthday birthday_date today of
        Inl e \<Rightarrow> Inl e
      | Inr birthday_this_year \<Rightarrow>
          (let delta_days = days_between birthday_this_year today
           in if 0 \<le> delta_days \<and> delta_days < 7
              then (case congratulation_date birthday_this_year of
                      Inl e \<Rightarrow> Inl e
                    | Inr cd \<Rightarrow>
                   (case dict_get user (ascii ''name'') of
                      Inl e \<Rightarrow> Inl e
                    | Inr n \<Rightarrow>
                   (case get_upcoming_birthdays today users of
                      Inl e \<Rightarrow> Inl e
                    | Inr out \<Rightarrow>
                        Inr ([(ascii ''name'', n), (ascii ''congratulation_date'', strftime cd FMT_YMD)] # out))))
              else get_upcoming_birthdays today users))))"

section \<open>Commands and their handlers\<close>

datatype Command =
  ADD | CHANGE | PHONE | ALL' | ADD_BIRTHDAY | SHOW_BIRTHDAY | BIRTHDAYS | HELLO | HELP | CLOSE | EXIT

fun COMMAND_TEMPLATES :: "Command \<Rightarrow> str" where
  "COMMAND_TEMPLATES ADD = ascii ''add <name> <10-digit phone>''"
| "COMMAND_TEMPLATES CHANGE = ascii ''change <name> <old-phone> <new-phone>''"
| "COMMAND_TEMPLATES PHONE = ascii ''phone <name>''"
| "COMMAND_TEMPLATES ALL' = ascii ''all''"
| "COMMAND_TEMPLATES ADD_BIRTHDAY = ascii ''add-birthday <name> <DD.MM.YYYY>''"
| "COMMAND_TEMPLATES SHOW_BIRTHDAY = ascii ''show-birthday <name>''"
| "COMMAND_TEMPLATES BIRTHDAYS = ascii ''birthdays''"
| "COMMAND_TEMPLATES HELLO = ascii ''hello''"
| "COMMAND_TEMPLATES HELP = ascii ''help''"
| "COMMAND_TEMPLATES CLOSE = ascii ''close''"
| "COMMAND_TEMPLATES EXIT = ascii ''exit''"

definition command_usage_summary :: str where
  "command_usage_summary =
     py_join [NL] (map (\<lambda>c. ascii ''- '' @ COMMAND_TEMPLATES c)
       [ADD, CHANGE, PHONE, ALL', ADD_BIRTHDAY, SHOW_BIRTHDAY, BIRTHDAYS, HELLO, HELP, CLOSE, EXIT])"

text \<open>
  A handler is the function under the decorator (\<open>_body\<close>) wrapped by \<^verbatim>\<open>input_error\<close>.
  Both return the book as the call leaves it next to the result: the text returned, or
  the exception that escaped. \<^verbatim>\<open>input_error\<close> catches \<^verbatim>\<open>ValueError\<close>, \<^verbatim>\<open>IndexError\<close> and
  \<^verbatim>\<open>KeyError\<close> and returns \<^verbatim>\<open>str(error)\<close>; any other exception passes through it.
\<close>

type_synonym outcome = "(error + str) \<times> AddressBook"

fun caught :: "error \<Rightarrow> bool" where
  "caught (ValueError m) = True"
| "caught (IndexError m) = True"
| "caught (KeyError m) = True"
| "caught (OverflowError m) = False"

definition input_error :: "outcome \<Rightarrow> outcome" where
  "input_error res =
     (case fst res of
        Inr text \<Rightarrow> res
      | Inl e \<Rightarrow> if caught e then (Inr (str_error e), snd res) else res)"

text \<open>Lines 249 to 251 of \<^verbatim>\<open>add_contact\<close>: \<^verbatim>\<open>if phone: record.add_phone(phone)\<close>.\<close>

definition add_contact_phone :: "AddressBook \<Rightarrow> str \<Rightarrow> Record \<Rightarrow> str \<Rightarrow> str \<Rightarrow> outcome" where
  "add_contact_phone book n record phone message =
     (if phone \<noteq> []
      then (case store book n (Record_add_phone record phone) of
              (Inl e, book') \<Rightarrow> (Inl e, book')
            | (Inr u, book') \<Rightarrow> (Inr message, book'))
      else (Inr message, book))"

definition add_contact_body :: "str list \<Rightarrow> AddressBook \<Rightarrow> outcome" where
  "add_contact_body args book =
     (case args of
        n # phone # extra \<Rightarrow>
          (case find_record book n of
             None \<Rightarrow>
               (case Record_init n of
                  Inl e \<Rightarrow> (Inl e, book)
                | Inr record \<Rightarrow>
                    add_contact_phone (add_record book record) n record phone (ascii ''Contact added.''))
           | Some record \<Rightarrow> add_contact_phone book n record phone (ascii ''Contact updated.''))
      | _ \<Rightarrow> (Inl (ValueError (ascii ''Missing arguments. Usage: '' @ COMMAND_TEMPLATES ADD)), book))"

definition add_contact :: "str list \<Rightarrow> AddressBook \<Rightarrow> outcome" where
  "add_contact args book = input_error (add_contact_body args book)"

definition change_phone_body :: "str list \<Rightarrow> AddressBook \<Rightarrow> outcome" where
  "change_phone_body args book =
     (case args of
        n # old_phone # new_phone # extra \<Rightarrow>
          (case find_record book n of
             None \<Rightarrow> (Inl (KeyError (ascii ''Contact not found.'')), book)
           | Some record \<Rightarrow>
               (case store book n (Record_edit_phone record old_phone new_phone) of
                  (Inl e, book') \<Rightarrow> (Inl e, book')
                | (Inr u, book') \<Rightarrow> (Inr (ascii ''Phone number updated.''), book')))
      | _ \<Rightarrow> (Inl (ValueError (ascii ''Missing arguments. Usage: '' @ COMMAND_TEMPLATES CHANGE)), book))"

definition change_phone :: "str list \<Rightarrow> AddressBook \<Rightarrow> outcome" where
  "change_phone args book = input_error (change_phone_body args book)"

definition show_phone_body :: "str list \<Rightarrow> AddressBook \<Rightarrow> outcome" where
  "show_phone_body args book =
     (case args of
        [] \<Rightarrow> (Inl (ValueError (ascii ''Missing contact name. Usage: '' @ COMMAND_TEMPLATES PHONE)), book)
      | n # extra \<Rightarrow>
          (case find_record book n of
             None \<Rightarrow> (Inl (KeyError (ascii ''Contact not found.'')), book)
           | Some record \<Rightarrow>
               if phones record = [] then (Inr (ascii ''No phone numbers for this contact.''), book)
               else (Inr (py_join (ascii ''; '') (phones record)), book)))"

definition show_phone :: "str list \<Rightarrow> AddressBook \<Rightarrow> outcome" where
  "show_phone args book = input_error (show_phone_body args book)"

definition show_all_body :: "str list \<Rightarrow> AddressBook \<Rightarrow> outcome" where
  "show_all_body args book =
     (if args \<noteq> []
        then (Inl (ValueError (ascii ''No extra arguments expected. Usage: '' @ COMMAND_TEMPLATES ALL')), book)
      else if book = [] then (Inr (ascii ''Address book is empty.''), book)
      else (Inr (py_join [NL] (map (\<lambda>p. Record_str (snd p)) book)), book))"

definition show_all :: "str list \<Rightarrow> AddressBook \<Rightarrow> outcome" where
  "show_all args book = input_error (show_all_body args book)"

definition add_birthday_body :: "str list \<Rightarrow> AddressBook \<Rightarrow> outcome" where
  "add_birthday_body args book =
     (case args of
        n # birthday_str # extra \<Rightarrow>
          (case find_record book n of
             None \<Rightarrow>
               (case Record_init n of
                  Inl e \<Rightarrow> (Inl e, book)
                | Inr record \<Rightarrow>
                    (case store (add_record book record) n (Record_add_birthday record birthday_str) of
                       (Inl e, book') \<Rightarrow> (Inl e, book')
                     | (Inr u, book') \<Rightarrow> (Inr (ascii ''Birthday added.''), book')))
           | Some record \<Rightarrow>
               (case store book n (Record_add_birthday record birthday_str) of
                  (Inl e, book') \<Rightarrow> (Inl e, book')
                | (Inr u, book') \<Rightarrow> (Inr (ascii ''Birthday added.''), book')))
      | _ \<Rightarrow>
          (Inl (ValueError (ascii ''Missing arguments. Usage: '' @ COMMAND_TEMPLATES ADD_BIRTHDAY)), book))"

definition add_birthday :: "str list \<Rightarrow> AddressBook \<Rightarrow> outcome" where
  "add_birthday args book = input_error (add_birthday_body args book)"

definition show_birthday_body :: "str list \<Rightarrow> AddressBook \<Rightarrow> outcome" where
  "show_birthday_body args book =
     (case args of
        [] \<Rightarrow>
          (Inl (ValueError (ascii ''Missing contact name. Usage: '' @ COMMAND_TEMPLATES SHOW_BIRTHDAY)), book)
      | n # extra \<Rightarrow>
          (case find_record book n of
             None \<Rightarrow> (Inl (KeyError (ascii ''Contact not found.'')), book)
           | Some record \<Rightarrow>
               (case birthday record of
                  None \<Rightarrow> (Inr (ascii ''Birthday not set.''), book)
                | Some None \<Rightarrow> (Inr (ascii ''Birthday not set.''), book)
                | Some (Some v) \<Rightarrow> (Inr (strftime v FMT_DMY), book))))"

definition show_birthday :: "str list \<Rightarrow> AddressBook \<Rightarrow> outcome" where
  "show_birthday args book = input_error (show_birthday_body args book)"

text \<open>\<open>today\<close> is what \<^verbatim>\<open>datetime.today().date()\<close> returned when the handler ran.\<close>

definition birthdays_body :: "str list \<Rightarrow> AddressBook \<Rightarrow> date \<Rightarrow> outcome" where
  "birthdays_body args book today =
     (if args \<noteq> []
        then (Inl (ValueError (ascii ''No extra arguments expected. Usage: '' @ COMMAND_TEMPLATES BIRTHDAYS)),
              book)
      else (case birthdays_loop today (map snd book) [] of
              Inl e \<Rightarrow> (Inl e, book)
            | Inr upcoming \<Rightarrow>
                if upcoming = [] then (Inr (ascii ''No upcoming birthdays.''), book)
                else (Inr (py_join [NL]
                        (map (\<lambda>d. strftime d FMT_DMY @ ascii '': '' @
                                   py_join (ascii '', '') (py_sorted str_lt (the (map_of upcoming d))))
                             (py_sorted date_lt (map fst upcoming)))), book)))"

definition birthdays :: "str list \<Rightarrow> AddressBook \<Rightarrow> date \<Rightarrow> outcome" where
  "birthdays args book today = input_error (birthdays_body args book today)"

definition show_commands_body :: "str list \<Rightarrow> AddressBook \<Rightarrow> outcome" where
  "show_commands_body args book =
     (if args \<noteq> []
        then (Inl (ValueError (ascii ''No extra arguments expected. Usage: '' @ COMMAND_TEMPLATES HELP)), book)
      else (Inr (ascii ''Available commands:'' @ [NL] @ command_usage_summary), book))"

definition show_commands :: "str list \<Rightarrow> AddressBook \<Rightarrow> outcome" where
  "show_commands args book = input_error (show_commands_body args book)"

text \<open>
  The dispatch of \<^verbatim>\<open>main\<close> for a recognised command: what the iteration prints (or the
  exception that ends the program) and the book it leaves.
\<close>

fun dispatch :: "Command \<Rightarrow> str list \<Rightarrow> AddressBook \<Rightarrow> date \<Rightarrow> outcome" where
  "dispatch CLOSE args book today = (Inr (ascii ''Good bye!''), book)"
| "dispatch EXIT args book today = (Inr (ascii ''Good bye!''), book)"
| "dispatch HELLO args book today = (Inr (ascii ''How can I help you?''), book)"
| "dispatch ADD args book today = add_contact args book"
| "dispatch CHANGE args book today = change_phone args book"
| "dispatch PHONE args book today = show_phone args book"
| "dispatch ALL' args book today = show_all args book"
| "dispatch ADD_BIRTHDAY args book today = add_birthday args book"
| "dispatch SHOW_BIRTHDAY args book today = show_birthday args book"
| "dispatch BIRTHDAYS args book today = birthdays args book today"
| "dispatch HELP args book today = show_commands args book"

text \<open>
  \<^verbatim>\<open>parse_input\<close>: \<^verbatim>\<open>user_input.strip().split()\<close>, the first token lower-cased and looked
  up among the values of \<^verbatim>\<open>Command\<close>.
\<close>

fun Command_value :: "Command \<Rightarrow> str" where
  "Command_value ADD = ascii ''add''"
| "Command_value CHANGE = ascii ''change''"
| "Command_value PHONE = ascii ''phone''"
| "Command_value ALL' = ascii ''all''"
| "Command_value ADD_BIRTHDAY = ascii ''add-birthday''"
| "Command_value SHOW_BIRTHDAY = ascii ''show-birthday''"
| "Command_value BIRTHDAYS = ascii ''birthdays''"
| "Command_value HELLO = ascii ''hello''"
| "Command_value HELP = ascii ''help''"
| "Command_value CLOSE = ascii ''close''"
| "Command_value EXIT = ascii ''exit''"

definition Command_of :: "str \<Rightarrow> Command option" where
  "Command_of v =
     map_of (map (\<lambda>c. (Command_value c, c))
       [ADD, CHANGE, PHONE, ALL', ADD_BIRTHDAY, SHOW_BIRTHDAY, BIRTHDAYS, HELLO, HELP, CLOSE, EXIT]) v"

definition parse_input :: "str \<Rightarrow> Command option \<times> str list \<times> str option" where
  "parse_input user_input =
     (case py_split (py_strip user_input) of
        [] \<Rightarrow> (None, [], None)
      | original_command # rest \<Rightarrow>
          (Command_of (py_lower original_command), rest, Some original_command))"

definition format_unknown_command_message :: "str option \<Rightarrow> str" where
  "format_unknown_command_message raw_command =
     (case raw_command of
        Some raw \<Rightarrow> (if raw \<noteq> [] then ascii ''Unknown command '' @ [SQUOTE] @ raw @ [SQUOTE] @ ascii ''.''
                     else ascii ''Unknown command.'')
      | None \<Rightarrow> ascii ''Unknown command.'') @
     [NL] @ ascii ''Use one of the following patterns:'' @ [NL] @ command_usage_summary"

text \<open>
  One iteration of the loop of \<^verbatim>\<open>main\<close> on an input line: what it prints (or the
  exception that ends the program) with the book it leaves, and whether the loop goes on.
\<close>

definition main_iteration :: "str \<Rightarrow> AddressBook \<Rightarrow> date \<Rightarrow> outcome \<times> bool" where
  "main_iteration user_input book today =
     (if py_strip user_input = []
      then ((Inr (ascii ''Please enter a command. Example: '' @ COMMAND_TEMPLATES ADD), book), True)
      else (case parse_input user_input of
              (Some command, args, raw_command) \<Rightarrow>
                (dispatch command args book today, command \<noteq> CLOSE \<and> command \<noteq> EXIT)
            | (None, args, raw_command) \<Rightarrow>
                ((Inr (format_unknown_command_message raw_command), book), True)))"

section \<open>Vocabulary of the specification\<close>

text \<open>
  A digit is a code point with a decimal digit value: \<^verbatim>\<open>0\<close>..\<^verbatim>\<open>9\<close> and the digits of the
  other scripts. A phone number in the specification's sense is exactly ten digits.
\<close>

definition is_digit :: "nat \<Rightarrow> bool" where
  "is_digit c = (decimal c \<noteq> None)"

definition ten_digits :: "str \<Rightarrow> bool" where
  "ten_digits s = (length s = 10 \<and> list_all is_digit s)"

text \<open>A string matches a sequence of character classes when it does so position by position.\<close>

abbreviation seq_matches :: "cclass list \<Rightarrow> str \<Rightarrow> bool" where
  "seq_matches \<equiv> list_all2 matches"

text \<open>
  The candidate date of the specification: the birthday's month and day in the year of
  \<open>today\<close>, moved to the following year when that date is strictly before \<open>today\<close>.
\<close>

definition candidate :: "date \<Rightarrow> date \<Rightarrow> date" where
  "candidate birthday_date today =
     (let this_year = \<lparr>year = year today, month = month birthday_date, day = day birthday_date\<rparr>
      in if date_lt this_year today then this_year\<lparr>year := year today + 1\<rparr> else this_year)"

text \<open>The upcoming window: \<open>0 \<le> delta < 7\<close> for \<open>delta = candidate - today\<close> in days.\<close>

definition in_window :: "date \<Rightarrow> date \<Rightarrow> bool" where
  "in_window birthday_date today =
     (let delta = days_between (candidate birthday_date today) today in 0 \<le> delta \<and> delta < 7)"

text \<open>The pairs of congratulation date and contact name a dictionary \<^verbatim>\<open>upcoming\<close> lists.\<close>

definition listed :: "(date \<times> str list) list \<Rightarrow> (date \<times> str) set" where
  "listed upcoming = {(cd, n). \<exists>names. (cd, names) \<in> set upcoming \<and> n \<in> set names}"

text \<open>What one record adds to \<^verbatim>\<open>upcoming\<close> in the loop of \<^verbatim>\<open>birthdays\<close>.\<close>

definition contributes :: "date \<Rightarrow> Record \<Rightarrow> (date \<times> str) set" where
  "contributes today r =
     {(cd, name r) | cd v nb. birthday r = Some (Some v) \<and> next_birthday v today = Inr nb \<and>
        0 \<le> days_between nb today \<and> days_between nb today < 7 \<and> congratulation_date nb = Inr cd}"

text \<open>
  The invariant of the model: every stored phone is ten digits, and the birthday of a
  record is absent or holds a calendar date.
\<close>

definition record_ok :: "Record \<Rightarrow> bool" where
  "record_ok r =
     (list_all ten_digits (phones r) \<and>
      (case birthday r of None \<Rightarrow> True | Some None \<Rightarrow> False | Some (Some v) \<Rightarrow> valid_date v))"

definition book_ok :: "AddressBook \<Rightarrow> bool" where
  "book_ok book = list_all (\<lambda>p. record_ok (snd p)) book"

text \<open>The record \<^verbatim>\<open>Record(n)\<close> creates: no phones, no birthday.\<close>

definition empty_record :: "str \<Rightarrow> Record" where
  "empty_record n = \<lparr>name = n, phones = [], birthday = None\<rparr>"

text \<open>The books a session can reach: it starts empty and handles one command after another.\<close>

inductive reachable :: "AddressBook \<Rightarrow> bool" where
  start: "reachable []"
| step: "reachable book \<Longrightarrow> reachable (snd (dispatch c args book today))"

text \<open>A string matches a group when it matches one of its alternatives.\<close>

definition group_matches :: "cclass list list \<Rightarrow> str \<Rightarrow> bool" where
  "group_matches g m = (\<exists>a \<in> set g. seq_matches a m)"

text \<open>
  The texts \<^verbatim>\<open>strptime\<close> takes for the fields of \<^verbatim>\<open>%d.%m.%Y\<close>. A day is \<^verbatim>\<open>1\<close>..\<^verbatim>\<open>9\<close> alone
  or after \<^verbatim>\<open>0\<close> or a blank, \<^verbatim>\<open>1\<close> or \<^verbatim>\<open>2\<close> followed by a digit of any script, or \<^verbatim>\<open>3\<close>
  followed by \<^verbatim>\<open>0\<close> or \<^verbatim>\<open>1\<close>. A month is \<^verbatim>\<open>1\<close>..\<^verbatim>\<open>9\<close> alone or after \<^verbatim>\<open>0\<close>, or \<^verbatim>\<open>1\<close> followed
  by \<^verbatim>\<open>0\<close>, \<^verbatim>\<open>1\<close> or \<^verbatim>\<open>2\<close>. A year is four digits of any script. \<open>date_of_text\<close> is the date
  the three texts denote.
\<close>

definition one_to_nine :: "nat \<Rightarrow> bool" where
  "one_to_nine c = (0x31 \<le> c \<and> c \<le> 0x39)"

definition day_text :: "str \<Rightarrow> bool" where
  "day_text D =
     (case D of
        [c] \<Rightarrow> one_to_nine c
      | [c1, c2] \<Rightarrow>
          ((c1 = 0x30 \<or> c1 = SPACE) \<and> one_to_nine c2) \<or>
          ((c1 = 0x31 \<or> c1 = 0x32) \<and> is_digit c2) \<or>
          (c1 = 0x33 \<and> (c2 = 0x30 \<or> c2 = 0x31))
      | _ \<Rightarrow> False)"

definition month_text :: "str \<Rightarrow> bool" where
  "month_text M =
     (case M of
        [c] \<Rightarrow> one_to_nine c
      | [c1, c2] \<Rightarrow>
          (c1 = 0x30 \<and> one_to_nine c2) \<or> (c1 = 0x31 \<and> (c2 = 0x30 \<or> c2 = 0x31 \<or> c2 = 0x32))
      | _ \<Rightarrow> False)"

definition year_text :: "str \<Rightarrow> bool" where
  "year_text Y = (length Y = 4 \<and> list_all is_digit Y)"

definition date_of_text :: "str \<Rightarrow> str \<Rightarrow> str \<Rightarrow> date" where
  "date_of_text D M Y = \<lparr>year = py_int Y, month = py_int M, day = py_int D\<rparr>"

text \<open>
  A string in valid \<^verbatim>\<open>DD.MM.YYYY\<close> format: two of the digits \<^verbatim>\<open>0\<close>..\<^verbatim>\<open>9\<close>, a dot, two of
  them, a dot and four of them, naming a calendar date.
\<close>

definition zero_to_nine :: "nat \<Rightarrow> bool" where
  "zero_to_nine c = (0x30 \<le> c \<and> c \<le> 0x39)"

definition ddmmyyyy_date :: "str \<Rightarrow> date" where
  "ddmmyyyy_date s = date_of_text (take 2 s) (take 2 (drop 3 s)) (drop 6 s)"

definition valid_ddmmyyyy :: "str \<Rightarrow> bool" where
  "valid_ddmmyyyy s =
     (length s = 10 \<and> s ! 2 = DOT \<and> s ! 5 = DOT \<and>
      list_all zero_to_nine (take 2 s) \<and> list_all zero_to_nine (take 2 (drop 3 s)) \<and>
      list_all zero_to_nine (drop 6 s) \<and> valid_date (ddmmyyyy_date s))"

text \<open>
  The weekend rule of the specification, from candidate \<open>c\<close> to congratulation date \<open>cd\<close>:
  unchanged on Monday to Friday, two days later on Saturday, one day later on Sunday,
  a Monday in both cases.
\<close>

definition weekend_shift :: "date \<Rightarrow> date \<Rightarrow> bool" where
  "weekend_shift c cd =
     ((weekday c < 5 \<and> cd = c) \<or>
      (weekday c = 5 \<and> date_add_days c 2 = Inr cd \<and> toordinal cd = toordinal c + 2 \<and> weekday cd = 0) \<or>
      (weekday c = 6 \<and> date_add_days c 1 = Inr cd \<and> toordinal cd = toordinal c + 1 \<and> weekday cd = 0))"

section \<open>Literals and the characters of ASCII\<close>

lemma ascii_Nil [simp]: "ascii [] = []"
  by (simp add: ascii_def)

lemma ascii_Cons: "ascii (c # cs) = of_char c # ascii cs"
  by (simp add: ascii_def)

lemma ascii_eq_Nil [simp]: "ascii s = [] \<longleftrightarrow> s = []"
  by (simp add: ascii_def)

lemma ascii_inject [simp]: "ascii a = ascii b \<longleftrightarrow> a = b"
  unfolding ascii_def by (rule inj_map_eq_map) (rule inj_of_char)

lemma length_ascii [simp]: "length (ascii s) = length s"
  by (simp add: ascii_def)

lemma decimal_ascii:
  "c < 128 \<Longrightarrow> decimal c = (if 48 \<le> c \<and> c \<le> 57 then Some (c - 48) else None)"
  by (simp add: decimal_def DECIMAL_ZEROS_def)

lemma decimal_less: "decimal c = Some v \<Longrightarrow> v < 10"
  by (auto simp: decimal_def find_Some_iff split: option.splits)

lemma is_space_ascii:
  "c < 128 \<Longrightarrow> is_space c = ((9 \<le> c \<and> c \<le> 13) \<or> (28 \<le> c \<and> c \<le> 32))"
  by (auto simp: is_space_def WHITESPACE_def)

lemma is_printable_ascii: "c < 128 \<Longrightarrow> is_printable c = (32 \<le> c \<and> c \<le> 126)"
  by (auto simp: is_printable_def PRINTABLE_def)

lemma lower_char_ascii:
  "c < 128 \<Longrightarrow> lower_char c = [if 65 \<le> c \<and> c \<le> 90 then c + 32 else c]"
  by (auto simp: lower_char_def LOWERCASE_def)

lemma zero_to_nine_digit: "zero_to_nine c \<Longrightarrow> is_digit c \<and> digit_val c = c - 48"
  by (simp add: zero_to_nine_def is_digit_def digit_val_def decimal_ascii)

lemma is_digit_ascii: "c < 128 \<Longrightarrow> is_digit c = zero_to_nine c"
  by (simp add: zero_to_nine_def is_digit_def decimal_ascii)

text \<open>The definitions that evaluate the calendar and the tokeniser on given values.\<close>

lemmas date_eval =
  valid_date_def MINYEAR_def MAXYEAR_def MAXORDINAL_def days_in_month_def is_leap_def
  DAYS_IN_MONTH_def DAYS_BEFORE_MONTH_def next_birthday_def replace_year_def date_new_def date_lt_def
  days_between_def toordinal_def ymd2ord_def days_before_year_def days_before_month_def weekday_def
  congratulation_date_def date_add_days_def tomorrow_def candidate_def

lemmas parse_eval =
  parse_input_def py_strip_def py_split_def py_lower_def Command_of_def ascii_Cons is_space_ascii
  lower_char_ascii

section \<open>The matcher\<close>

lemma match_seq_sound:
  "match_seq ks s = Some (m, r) \<Longrightarrow> s = m @ r \<and> seq_matches ks m"
  by (induction ks s arbitrary: m r rule: match_seq.induct)
     (auto split: if_splits option.splits)

lemma match_seq_complete:
  "seq_matches ks m \<Longrightarrow> match_seq ks (m @ r) = Some (m, r)"
  by (induction ks m rule: list_all2_induct) auto

lemma re_fullmatch_single:
  "re_fullmatch [[ks]] s \<noteq> None \<longleftrightarrow> seq_matches ks s"
proof (cases "match_seq ks s")
  case None
  have "\<not> seq_matches ks s"
  proof
    assume "seq_matches ks s"
    from match_seq_complete [OF this, of "[]"] None show False by simp
  qed
  with None show ?thesis by (simp add: re_fullmatch_def)
next
  case (Some p)
  obtain m r where p: "p = (m, r)" by (cases p)
  from Some p have mr: "s = m @ r" "seq_matches ks m"
    using match_seq_sound by blast+
  show ?thesis
  proof (cases "r = []")
    case True
    with Some p mr show ?thesis by (simp add: re_fullmatch_def)
  next
    case False
    have "\<not> seq_matches ks s"
    proof
      assume "seq_matches ks s"
      then have "length s = length ks" by (simp add: list_all2_lengthD)
      moreover from mr(2) have "length m = length ks" by (simp add: list_all2_lengthD)
      ultimately show False using mr(1) False by simp
    qed
    with Some p False show ?thesis by (simp add: re_fullmatch_def)
  qed
qed

lemma seq_matches_replicate:
  "seq_matches (replicate n k) s \<longleftrightarrow> length s = n \<and> list_all (matches k) s"
proof (induction s arbitrary: n)
  case Nil
  then show ?case by auto
next
  case (Cons c cs)
  then show ?case by (cases n) auto
qed

lemma phone_regex_fullmatch:
  "re_fullmatch PHONE_REGEX s \<noteq> None \<longleftrightarrow> ten_digits s"
proof -
  have "matches Digit = is_digit" by (rule ext) (simp add: is_digit_def matches.simps)
  then show ?thesis
    unfolding PHONE_REGEX_def re_fullmatch_single seq_matches_replicate ten_digits_def by simp
qed

lemma Phone_init_eq:
  "Phone_init s =
     (if ten_digits s then Inr s
      else Inl (ValueError (ascii ''Phone number must contain exactly 10 digits.'')))"
  using phone_regex_fullmatch [of s] by (auto simp: Phone_init_def)

section \<open>Phone numbers\<close>

lemma ten_digits_ascii:
  assumes "list_all (\<lambda>c. c < 128) s"
  shows "ten_digits s \<longleftrightarrow> length s = 10 \<and> list_all zero_to_nine s"
proof -
  from assms have "list_all is_digit s \<longleftrightarrow> list_all zero_to_nine s"
    by (induction s) (simp_all add: is_digit_ascii)
  then show ?thesis by (simp add: ten_digits_def)
qed

lemma ten_digits_0123456789: "ten_digits (ascii ''0123456789'')"
  by (simp add: ten_digits_def ascii_Cons is_digit_ascii zero_to_nine_def)




section \<open>Editing a phone\<close>

lemma find_index_None_iff: "find_index v xs = None \<longleftrightarrow> v \<notin> set xs"
  by (induction xs) (auto split: option.splits)

lemma find_index_Some:
  "find_index v xs = Some i \<Longrightarrow> i < length xs \<and> xs ! i = v \<and> (\<forall>j<i. xs ! j \<noteq> v)"
proof (induction xs arbitrary: i)
  case Nil
  then show ?case by simp
next
  case (Cons x xs)
  show ?case
  proof (cases "x = v")
    case True
    with Cons.prems show ?thesis by simp
  next
    case False
    with Cons.prems obtain k where k: "find_index v xs = Some k" "i = Suc k"
      by (auto split: option.splits)
    from Cons.IH [OF k(1)] False k(2) show ?thesis
      by (auto simp: nth_Cons split: nat.splits)
  qed
qed

text \<open>
  C7. \<^verbatim>\<open>edit_phone(old, new)\<close> on a record: when no stored phone equals \<open>old\<close> it raises
  the phone-not-found \<^verbatim>\<open>ValueError\<close> and leaves the record as it was; when \<open>old\<close> is
  stored but \<open>new\<close> is not ten digits it raises the invalid-phone \<^verbatim>\<open>ValueError\<close> and
  leaves the record (with \<open>old\<close>) as it was; when both checks pass, the first entry
  equal to \<open>old\<close> is replaced by \<open>new\<close> at its position, and nothing else changes.
\<close>

theorem Record_edit_phone_cases:
  "(old \<notin> set (phones r) \<longrightarrow>
      Record_edit_phone r old new = (Inl (ValueError (ascii ''Phone number to edit not found.'')), r)) \<and>
   (old \<in> set (phones r) \<and> \<not> ten_digits new \<longrightarrow>
      Record_edit_phone r old new =
        (Inl (ValueError (ascii ''Phone number must contain exactly 10 digits.'')), r)) \<and>
   (old \<in> set (phones r) \<and> ten_digits new \<longrightarrow>
      (\<exists>i. i < length (phones r) \<and> phones r ! i = old \<and> (\<forall>j<i. phones r ! j \<noteq> old) \<and>
           Record_edit_phone r old new = (Inr (), r\<lparr>phones := (phones r)[i := new]\<rparr>)))"
proof (cases "find_index old (phones r)")
  case None
  then have "old \<notin> set (phones r)" by (simp add: find_index_None_iff)
  with None show ?thesis
    by (simp add: Record_edit_phone_def Record_find_phone_def)
next
  case (Some i)
  have mem: "old \<in> set (phones r)"
    using Some find_index_None_iff [of old "phones r"] by auto
  note fi = find_index_Some [OF Some]
  have "Record_edit_phone r old new =
          (if ten_digits new then (Inr (), r\<lparr>phones := (phones r)[i := new]\<rparr>)
           else (Inl (ValueError (ascii ''Phone number must contain exactly 10 digits.'')), r))"
    using Some by (simp add: Record_edit_phone_def Record_find_phone_def Phone_init_eq)
  with mem fi show ?thesis by auto
qed

theorem Record_edit_phone_cases_witness:
  "ascii ''3333333333'' \<notin> set [ascii ''0000000000'', ascii ''1111111111'', ascii ''1111111111''] \<and>
   Record_edit_phone
     \<lparr>name = ascii ''Al'', phones = [ascii ''0000000000'', ascii ''1111111111'', ascii ''1111111111''], birthday = None\<rparr>
     (ascii ''3333333333'') (ascii ''2222222222'') =
     (Inl (ValueError (ascii ''Phone number to edit not found.'')),
      \<lparr>name = ascii ''Al'', phones = [ascii ''0000000000'', ascii ''1111111111'', ascii ''1111111111''], birthday = None\<rparr>) \<and>
   ascii ''1111111111'' \<in> set [ascii ''0000000000'', ascii ''1111111111'', ascii ''1111111111''] \<and>
   \<not> ten_digits (ascii ''22'') \<and>
   Record_edit_phone
     \<lparr>name = ascii ''Al'', phones = [ascii ''0000000000'', ascii ''1111111111'', ascii ''1111111111''], birthday = None\<rparr>
     (ascii ''1111111111'') (ascii ''22'') =
     (Inl (ValueError (ascii ''Phone number must contain exactly 10 digits.'')),
      \<lparr>name = ascii ''Al'', phones = [ascii ''0000000000'', ascii ''1111111111'', ascii ''1111111111''], birthday = None\<rparr>) \<and>
   ten_digits (ascii ''2222222222'') \<and>
   (\<exists>i. Record_edit_phone
     \<lparr>name = ascii ''Al'', phones = [ascii ''0000000000'', ascii ''1111111111'', ascii ''1111111111''], birthday = None\<rparr>
     (ascii ''1111111111'') (ascii ''2222222222'') =
     (Inr (),
      \<lparr>name = ascii ''Al'', phones = [ascii ''0000000000'', ascii ''1111111111'', ascii ''1111111111''][i := ascii ''2222222222''],
         birthday = None\<rparr>))"
proof -
  let ?r = "\<lparr>name = ascii ''Al'', phones = [ascii ''0000000000'', ascii ''1111111111'', ascii ''1111111111''],
             birthday = None\<rparr>"
  have a: "\<not> ten_digits (ascii ''22'')" by (simp add: ten_digits_def)
  have b: "ten_digits (ascii ''2222222222'')"
    by (simp add: ten_digits_def ascii_Cons is_digit_ascii zero_to_nine_def)
  from a b Record_edit_phone_cases [of "ascii ''3333333333''" ?r "ascii ''2222222222''"]
    Record_edit_phone_cases [of "ascii ''1111111111''" ?r "ascii ''22''"]
    Record_edit_phone_cases [of "ascii ''1111111111''" ?r "ascii ''2222222222''"]
  show ?thesis by auto
qed

section \<open>Calendar arithmetic\<close>

lemma div_succ_int:
  fixes n k :: int
  assumes "0 < k"
  shows "(n + 1) div k = n div k + (if (n + 1) mod k = 0 then 1 else 0)"
proof -
  define q where "q = n div k"
  define r where "r = n mod k"
  have n: "n = k * q + r" by (simp add: q_def r_def)
  have r: "0 \<le> r" "r < k" using assms by (simp_all add: r_def)
  show ?thesis
  proof (cases "r + 1 < k")
    case True
    have e: "n + 1 = k * q + (r + 1)" using n by simp
    have "(n + 1) div k = q" using r True by (intro int_div_pos_eq [OF e]) auto
    moreover have "(n + 1) mod k = r + 1" using r True by (intro int_mod_pos_eq [OF e]) auto
    ultimately show ?thesis using r by (simp add: q_def)
  next
    case False
    with r have "r + 1 = k" by simp
    then have e: "n + 1 = k * (q + 1) + 0" using n by (simp add: algebra_simps)
    have "(n + 1) div k = q + 1" using assms by (intro int_div_pos_eq [OF e]) auto
    moreover have "(n + 1) mod k = 0" using assms by (intro int_mod_pos_eq [OF e]) auto
    ultimately show ?thesis by (simp add: q_def)
  qed
qed

lemma leap_divisors:
  fixes y :: int
  shows "y mod 100 = 0 \<Longrightarrow> y mod 4 = 0" and "y mod 400 = 0 \<Longrightarrow> y mod 100 = 0"
proof -
  have a: "(4::int) dvd 100" and b: "(100::int) dvd 400" by simp_all
  show "y mod 100 = 0 \<Longrightarrow> y mod 4 = 0"
    using dvd_trans [OF a, of y] by (simp add: mod_eq_0_iff_dvd)
  show "y mod 400 = 0 \<Longrightarrow> y mod 100 = 0"
    using dvd_trans [OF b, of y] by (simp add: mod_eq_0_iff_dvd)
qed

lemma leap_divisors_neg:
  fixes y :: int
  shows "y mod 4 \<noteq> 0 \<Longrightarrow> y mod 100 \<noteq> 0" and "y mod 100 \<noteq> 0 \<Longrightarrow> y mod 400 \<noteq> 0"
proof -
  show "y mod 100 \<noteq> 0" if "y mod 4 \<noteq> 0"
  proof
    assume "y mod 100 = 0"
    then have "y mod 4 = 0" by (rule leap_divisors(1))
    with that show False by simp
  qed
  show "y mod 400 \<noteq> 0" if "y mod 100 \<noteq> 0"
  proof
    assume "y mod 400 = 0"
    then have "y mod 100 = 0" by (rule leap_divisors(2))
    with that show False by simp
  qed
qed

lemma days_before_year_Suc:
  "days_before_year (y + 1) = days_before_year y + 365 + (if is_leap y then 1 else 0)"
proof -
  define i4 :: int where "i4 = (if y mod 4 = 0 then 1 else 0)"
  define i100 :: int where "i100 = (if y mod 100 = 0 then 1 else 0)"
  define i400 :: int where "i400 = (if y mod 400 = 0 then 1 else 0)"
  define l :: int where "l = (if is_leap y then 1 else 0)"
  define p4 where "p4 = (y - 1) div 4"
  define p100 where "p100 = (y - 1) div 100"
  define p400 where "p400 = (y - 1) div 400"
  have d4: "y div 4 = p4 + i4"
    using div_succ_int [of 4 "y - 1"] by (simp add: i4_def p4_def)
  have d100: "y div 100 = p100 + i100"
    using div_succ_int [of 100 "y - 1"] by (simp add: i100_def p100_def)
  have d400: "y div 400 = p400 + i400"
    using div_succ_int [of 400 "y - 1"] by (simp add: i400_def p400_def)
  have L: "i4 - i100 + i400 = l"
  proof -
    consider (a) "y mod 400 = 0" | (b) "y mod 400 \<noteq> 0" "y mod 100 = 0"
      | (c) "y mod 100 \<noteq> 0" "y mod 4 = 0" | (d) "y mod 4 \<noteq> 0"
      by blast
    then show ?thesis
    proof cases
      case a
      then have "y mod 100 = 0" by (rule leap_divisors(2))
      moreover from this have "y mod 4 = 0" by (rule leap_divisors(1))
      ultimately show ?thesis using a
        by (simp only: is_leap_def i4_def i100_def i400_def l_def) simp
    next
      case b
      from b(2) have "y mod 4 = 0" by (rule leap_divisors(1))
      with b show ?thesis
        by (simp only: is_leap_def i4_def i100_def i400_def l_def) simp
    next
      case c
      from c(1) have "y mod 400 \<noteq> 0" by (rule leap_divisors_neg(2))
      with c show ?thesis
        by (simp only: is_leap_def i4_def i100_def i400_def l_def) simp
    next
      case d
      then have "y mod 100 \<noteq> 0" by (rule leap_divisors_neg(1))
      moreover from this have "y mod 400 \<noteq> 0" by (rule leap_divisors_neg(2))
      ultimately show ?thesis using d
        by (simp only: is_leap_def i4_def i100_def i400_def l_def) simp
    qed
  qed
  have a: "days_before_year (y + 1) = y * 365 + (p4 + i4) - (p100 + i100) + (p400 + i400)"
    by (simp add: days_before_year_def d4 d100 d400)
  have b: "days_before_year y = (y - 1) * 365 + p4 - p100 + p400"
    by (simp add: days_before_year_def Let_def p4_def p100_def p400_def)
  have "days_before_year (y + 1) = days_before_year y + 365 + l"
    using a b L by simp
  then show ?thesis by (simp add: l_def)
qed

lemma days_before_year_mono: "y \<le> y' \<Longrightarrow> days_before_year y \<le> days_before_year y'"
proof (induction y' rule: int_ge_induct)
  case base
  show ?case by simp
next
  case (step i)
  then show ?case using days_before_year_Suc [of i] by (simp split: if_splits)
qed

lemma month_cases:
  "1 \<le> m \<Longrightarrow> m \<le> 12 \<Longrightarrow>
   m = 1 \<or> m = 2 \<or> m = 3 \<or> m = 4 \<or> m = 5 \<or> m = 6 \<or> m = 7 \<or> m = 8 \<or> m = 9 \<or> m = 10 \<or> m = 11 \<or> m = (12::int)"
  by arith

lemma days_before_month_Suc:
  assumes "1 \<le> m" "m \<le> 11"
  shows "days_before_month y (m + 1) = days_before_month y m + days_in_month y m"
proof -
  from assms have "m \<le> 12" by simp
  from month_cases [OF assms(1) this] assms(2) show ?thesis
    by (elim disjE) (simp_all add: days_before_month_def days_in_month_def DAYS_BEFORE_MONTH_def DAYS_IN_MONTH_def)
qed

lemma days_in_month_bounds:
  assumes "1 \<le> m" "m \<le> 12"
  shows "28 \<le> days_in_month y m \<and> days_in_month y m \<le> 31"
  using month_cases [OF assms]
  by (elim disjE) (simp_all add: days_in_month_def DAYS_IN_MONTH_def)

lemma days_before_month_12:
  "days_before_month y 12 + days_in_month y 12 = 365 + (if is_leap y then 1 else 0)"
  by (simp add: days_before_month_def days_in_month_def DAYS_BEFORE_MONTH_def DAYS_IN_MONTH_def)

lemma days_before_month_1: "days_before_month y 1 = 0"
  by (simp add: days_before_month_def DAYS_BEFORE_MONTH_def)

lemma days_before_month_mono:
  assumes "1 \<le> m" "m \<le> m'" "m' \<le> 12"
  shows "days_before_month y m \<le> days_before_month y m'"
  using assms(2,1,3)
proof (induction m' rule: int_ge_induct)
  case base
  show ?case by simp
next
  case (step i)
  then show ?case
    using days_before_month_Suc [of i y] days_in_month_bounds [of i y] by simp
qed

lemma days_before_month_next:
  assumes "1 \<le> m" "m < m'" "m' \<le> 12"
  shows "days_before_month y m + days_in_month y m \<le> days_before_month y m'"
proof -
  have "days_before_month y (m + 1) \<le> days_before_month y m'"
    using assms by (intro days_before_month_mono) auto
  then show ?thesis using days_before_month_Suc [of m y] assms by simp
qed

lemma day_of_year_le:
  assumes "1 \<le> m" "m \<le> 12" "d \<le> days_in_month y m"
  shows "days_before_month y m + d \<le> 365 + (if is_leap y then 1 else 0)"
proof (cases "m = 12")
  case True
  then show ?thesis using assms days_before_month_12 [of y] by (simp split: if_splits)
next
  case False
  then have "days_before_month y m + days_in_month y m \<le> days_before_month y 12"
    using assms by (intro days_before_month_next) auto
  moreover have "0 \<le> days_in_month y 12"
    using days_in_month_bounds [of 12 y] by simp
  ultimately show ?thesis using assms days_before_month_12 [of y] by (simp split: if_splits)
qed

lemma days_before_month_nonneg:
  assumes "1 \<le> m" "m \<le> 12"
  shows "0 \<le> days_before_month y m"
  using days_before_month_mono [of 1 m y] assms days_before_month_1 [of y] by simp

lemma date_lt_toordinal:
  assumes "valid_date a" "valid_date b" "date_lt a b"
  shows "toordinal a < toordinal b"
proof -
  from assms(1) have va: "1 \<le> month a" "month a \<le> 12" "1 \<le> day a"
    "day a \<le> days_in_month (year a) (month a)" by (simp_all add: valid_date_def)
  from assms(2) have vb: "1 \<le> month b" "month b \<le> 12" "1 \<le> day b"
    "day b \<le> days_in_month (year b) (month b)" by (simp_all add: valid_date_def)
  consider (y) "year a < year b"
    | (m) "year a = year b" "month a < month b"
    | (d) "year a = year b" "month a = month b" "day a < day b"
    using assms(3) by (auto simp: date_lt_def)
  then show ?thesis
  proof cases
    case y
    have "toordinal a \<le> days_before_year (year a) + (365 + (if is_leap (year a) then 1 else 0))"
      using day_of_year_le [OF va(1,2,4)] by (simp add: toordinal_def ymd2ord_def)
    also have "\<dots> = days_before_year (year a + 1)"
      by (simp add: days_before_year_Suc)
    also have "\<dots> \<le> days_before_year (year b)"
      using y by (intro days_before_year_mono) simp
    also have "\<dots> < toordinal b"
      using vb days_before_month_nonneg [OF vb(1,2), of "year b"]
      by (simp add: toordinal_def ymd2ord_def)
    finally show ?thesis .
  next
    case m
    have "days_before_month (year a) (month a) + days_in_month (year a) (month a)
            \<le> days_before_month (year a) (month b)"
      using va vb m by (intro days_before_month_next) auto
    then show ?thesis using va vb m by (simp add: toordinal_def ymd2ord_def)
  next
    case d
    then show ?thesis by (simp add: toordinal_def ymd2ord_def)
  qed
qed

lemma not_date_lt_toordinal:
  assumes "valid_date a" "valid_date b" "\<not> date_lt a b"
  shows "toordinal b \<le> toordinal a"
proof (cases "date_lt b a")
  case True
  from date_lt_toordinal [OF assms(2,1) this] show ?thesis by simp
next
  case False
  with assms(3) have "year a = year b \<and> month a = month b \<and> day a = day b"
    by (auto simp: date_lt_def)
  then show ?thesis by (simp add: toordinal_def)
qed

lemma toordinal_bounds:
  assumes "valid_date d"
  shows "1 \<le> toordinal d \<and> toordinal d \<le> MAXORDINAL"
proof -
  from assms have v: "1 \<le> month d" "month d \<le> 12" "1 \<le> day d"
    "day d \<le> days_in_month (year d) (month d)" "1 \<le> year d" "year d \<le> 9999"
    by (simp_all add: valid_date_def MINYEAR_def MAXYEAR_def)
  have "days_before_year 1 \<le> days_before_year (year d)"
    using v by (intro days_before_year_mono) simp
  then have lo: "1 \<le> toordinal d"
    using v days_before_month_nonneg [OF v(1,2), of "year d"]
    by (simp add: toordinal_def ymd2ord_def days_before_year_def)
  have "toordinal d \<le> days_before_year (year d) + (365 + (if is_leap (year d) then 1 else 0))"
    using day_of_year_le [OF v(1,2,4)] by (simp add: toordinal_def ymd2ord_def)
  also have "\<dots> = days_before_year (year d + 1)"
    by (simp add: days_before_year_Suc)
  also have "\<dots> \<le> days_before_year 10000"
    using v by (intro days_before_year_mono) simp
  also have "\<dots> = MAXORDINAL"
    by (simp add: days_before_year_def MAXORDINAL_def)
  finally show ?thesis using lo by simp
qed

section \<open>Constructing and moving dates\<close>

lemma date_new_Inr:
  "date_new y m d = Inr x \<longleftrightarrow> valid_date \<lparr>year = y, month = m, day = d\<rparr> \<and> x = \<lparr>year = y, month = m, day = d\<rparr>"
  by (auto simp: date_new_def valid_date_def)

lemma date_new_valid:
  "valid_date \<lparr>year = y, month = m, day = d\<rparr> \<Longrightarrow> date_new y m d = Inr \<lparr>year = y, month = m, day = d\<rparr>"
  by (simp add: date_new_Inr)

lemma date_new_error: "date_new y m d = Inl e \<Longrightarrow> \<exists>msg. e = ValueError msg"
  by (auto simp: date_new_def split: if_splits)

lemma replace_year_Inr:
  "replace_year v y = Inr x \<longleftrightarrow>
     valid_date \<lparr>year = y, month = month v, day = day v\<rparr> \<and> x = \<lparr>year = y, month = month v, day = day v\<rparr>"
  by (simp add: replace_year_def date_new_Inr)

lemma replace_year_feb29:
  assumes "month v = 2" "day v = 29" "\<not> is_leap y" "MINYEAR \<le> y" "y \<le> MAXYEAR"
  shows "replace_year v y = Inl (ValueError (ascii ''day is out of range for month''))"
  using assms by (simp add: replace_year_def date_new_def days_in_month_def DAYS_IN_MONTH_def)

lemma next_birthday_Inr:
  assumes "next_birthday v today = Inr nb"
  shows "nb = candidate v today \<and> valid_date nb"
proof -
  let ?c = "\<lparr>year = year today, month = month v, day = day v\<rparr>"
  from assms obtain nb0 where nb0: "replace_year v (year today) = Inr nb0"
    by (auto simp: next_birthday_def split: sum.splits)
  then have c: "nb0 = ?c" "valid_date ?c" by (simp_all add: replace_year_Inr)
  show ?thesis
  proof (cases "date_lt ?c today")
    case True
    with assms nb0 c have "replace_year ?c (year today + 1) = Inr nb"
      by (simp add: next_birthday_def)
    with True show ?thesis by (simp add: replace_year_Inr candidate_def)
  next
    case False
    with assms nb0 c show ?thesis by (simp add: next_birthday_def candidate_def)
  qed
qed

lemma next_birthday_valid_candidate:
  assumes "valid_date \<lparr>year = year today, month = month v, day = day v\<rparr>"
    and "valid_date (candidate v today)"
  shows "next_birthday v today = Inr (candidate v today)"
proof -
  let ?c = "\<lparr>year = year today, month = month v, day = day v\<rparr>"
  have r: "replace_year v (year today) = Inr ?c" using assms(1) by (simp add: replace_year_Inr)
  show ?thesis
  proof (cases "date_lt ?c today")
    case True
    then have "candidate v today = \<lparr>year = year today + 1, month = month v, day = day v\<rparr>"
      by (simp add: candidate_def)
    with assms(2) have "replace_year ?c (year today + 1) = Inr (candidate v today)"
      by (simp add: replace_year_Inr)
    with r True show ?thesis by (simp add: next_birthday_def)
  next
    case False
    with r show ?thesis by (simp add: next_birthday_def candidate_def)
  qed
qed

lemma next_birthday_error: "next_birthday v today = Inl e \<Longrightarrow> \<exists>msg. e = ValueError msg"
  by (auto simp: next_birthday_def replace_year_def split: sum.splits if_splits dest: date_new_error)

lemma candidate_not_before:
  assumes "valid_date today" "valid_date (candidate v today)"
  shows "toordinal today \<le> toordinal (candidate v today)"
proof (cases "date_lt \<lparr>year = year today, month = month v, day = day v\<rparr> today")
  case True
  then have c: "candidate v today = \<lparr>year = year today + 1, month = month v, day = day v\<rparr>"
    by (simp add: candidate_def)
  then have "date_lt today (candidate v today)" by (simp add: date_lt_def)
  from date_lt_toordinal [OF assms(1,2) this] show ?thesis by simp
next
  case False
  then have c: "candidate v today = \<lparr>year = year today, month = month v, day = day v\<rparr>"
    by (simp add: candidate_def)
  with False have "\<not> date_lt (candidate v today) today" by simp
  from not_date_lt_toordinal [OF assms(2,1) this] show ?thesis .
qed

lemma last_day_ordinal:
  assumes "valid_date d" "month d = 12" "day d = days_in_month (year d) 12"
  shows "toordinal d = days_before_year (year d + 1)"
  using assms days_before_month_12 [of "year d"]
  by (simp add: toordinal_def ymd2ord_def days_before_year_Suc)

lemma tomorrow_correct:
  assumes "valid_date d" "toordinal d < MAXORDINAL"
  shows "valid_date (tomorrow d) \<and> toordinal (tomorrow d) = toordinal d + 1"
proof -
  from assms(1) have v: "1 \<le> month d" "month d \<le> 12" "1 \<le> day d"
    "day d \<le> days_in_month (year d) (month d)" "1 \<le> year d" "year d \<le> 9999"
    by (simp_all add: valid_date_def MINYEAR_def MAXYEAR_def)
  consider (a) "day d < days_in_month (year d) (month d)"
    | (b) "day d = days_in_month (year d) (month d)" "month d < 12"
    | (c) "day d = days_in_month (year d) (month d)" "month d = 12"
    using v by linarith
  then show ?thesis
  proof cases
    case a
    with v show ?thesis
      by (simp add: tomorrow_def valid_date_def MINYEAR_def MAXYEAR_def toordinal_def ymd2ord_def)
  next
    case b
    with v days_before_month_Suc [of "month d" "year d"] days_in_month_bounds [of "month d + 1" "year d"]
    show ?thesis
      by (simp add: tomorrow_def valid_date_def MINYEAR_def MAXYEAR_def toordinal_def ymd2ord_def)
  next
    case c
    from last_day_ordinal [OF assms(1) c(2)] c have o: "toordinal d = days_before_year (year d + 1)"
      by simp
    have "year d \<noteq> 9999"
    proof
      assume "year d = 9999"
      with o have "toordinal d = MAXORDINAL"
        by (simp add: days_before_year_def MAXORDINAL_def)
      with assms(2) show False by simp
    qed
    with v have y: "year d + 1 \<le> 9999" by simp
    have t: "tomorrow d = \<lparr>year = year d + 1, month = 1, day = 1\<rparr>"
      using c by (simp add: tomorrow_def)
    show ?thesis
      unfolding t using v y o days_before_month_1 [of "year d + 1"]
      by (simp add: valid_date_def MINYEAR_def MAXYEAR_def toordinal_def ymd2ord_def
          days_in_month_def DAYS_IN_MONTH_def)
  qed
qed

lemma tomorrow_funpow:
  assumes "valid_date d" "toordinal d + int k \<le> MAXORDINAL"
  shows "valid_date ((tomorrow ^^ k) d) \<and> toordinal ((tomorrow ^^ k) d) = toordinal d + int k"
  using assms(2)
proof (induction k)
  case 0
  with assms(1) show ?case by simp
next
  case (Suc k)
  then have ih: "valid_date ((tomorrow ^^ k) d)" "toordinal ((tomorrow ^^ k) d) = toordinal d + int k"
    by simp_all
  from Suc.prems ih(2) have "toordinal ((tomorrow ^^ k) d) < MAXORDINAL" by simp
  from tomorrow_correct [OF ih(1) this] ih(2) show ?case by simp
qed

lemma date_add_days_Inr:
  assumes "valid_date d" "toordinal d + int k \<le> MAXORDINAL"
  shows "\<exists>x. date_add_days d k = Inr x \<and> valid_date x \<and> toordinal x = toordinal d + int k"
  using tomorrow_funpow [OF assms] assms(2) by (simp add: date_add_days_def)

lemma weekend_room:
  fixes n :: int
  shows "n \<le> 3652059 \<Longrightarrow> (n + 6) mod 7 = 5 \<Longrightarrow> n + 2 \<le> 3652059"
    and "n \<le> 3652059 \<Longrightarrow> (n + 6) mod 7 = 6 \<Longrightarrow> n + 1 \<le> 3652059"
  by presburger+

lemma congratulation_date_cases:
  assumes "valid_date nb"
  shows "(weekday nb < 5 \<longrightarrow> congratulation_date nb = Inr nb) \<and>
         (weekday nb = 5 \<longrightarrow>
            (\<exists>cd. congratulation_date nb = Inr cd \<and> date_add_days nb 2 = Inr cd \<and> valid_date cd \<and>
                  toordinal cd = toordinal nb + 2 \<and> weekday cd = 0)) \<and>
         (weekday nb = 6 \<longrightarrow>
            (\<exists>cd. congratulation_date nb = Inr cd \<and> date_add_days nb 1 = Inr cd \<and> valid_date cd \<and>
                  toordinal cd = toordinal nb + 1 \<and> weekday cd = 0))"
proof (intro conjI impI)
  assume "weekday nb < 5"
  then show "congratulation_date nb = Inr nb" by (simp add: congratulation_date_def)
next
  assume w: "weekday nb = 5"
  from toordinal_bounds [OF assms] have "toordinal nb \<le> 3652059" by (simp add: MAXORDINAL_def)
  with w have "toordinal nb + int 2 \<le> MAXORDINAL"
    using weekend_room(1) [of "toordinal nb"] by (simp add: weekday_def MAXORDINAL_def)
  from date_add_days_Inr [OF assms this] obtain cd where
    cd: "date_add_days nb 2 = Inr cd" "valid_date cd" "toordinal cd = toordinal nb + 2"
    by auto
  have "weekday cd = 0" using w cd(3) unfolding weekday_def by presburger
  with w cd show "\<exists>cd. congratulation_date nb = Inr cd \<and> date_add_days nb 2 = Inr cd \<and>
      valid_date cd \<and> toordinal cd = toordinal nb + 2 \<and> weekday cd = 0"
    by (simp add: congratulation_date_def)
next
  assume w: "weekday nb = 6"
  from toordinal_bounds [OF assms] have "toordinal nb \<le> 3652059" by (simp add: MAXORDINAL_def)
  with w have "toordinal nb + int 1 \<le> MAXORDINAL"
    using weekend_room(2) [of "toordinal nb"] by (simp add: weekday_def MAXORDINAL_def)
  from date_add_days_Inr [OF assms this] obtain cd where
    cd: "date_add_days nb 1 = Inr cd" "valid_date cd" "toordinal cd = toordinal nb + 1"
    by auto
  have "weekday cd = 0" using w cd(3) unfolding weekday_def by presburger
  with w cd show "\<exists>cd. congratulation_date nb = Inr cd \<and> date_add_days nb 1 = Inr cd \<and>
      valid_date cd \<and> toordinal cd = toordinal nb + 1 \<and> weekday cd = 0"
    by (simp add: congratulation_date_def)
qed

lemma weekday_range: "0 \<le> weekday d \<and> weekday d \<le> 6"
  by (simp add: weekday_def)

lemma congratulation_date_total:
  assumes "valid_date nb"
  shows "\<exists>cd. congratulation_date nb = Inr cd \<and> valid_date cd"
proof -
  from weekday_range [of nb] consider "weekday nb < 5" | "weekday nb = 5" | "weekday nb = 6"
    by linarith
  then show ?thesis using congratulation_date_cases [OF assms] assms by cases auto
qed

section \<open>The loop of \<^verbatim>\<open>birthdays\<close>\<close>

lemma listed_Nil: "listed [] = {}"
  by (simp add: listed_def)

lemma listed_Cons: "listed (p # ps) = {(fst p, n) | n. n \<in> set (snd p)} \<union> listed ps"
  by (cases p) (auto simp: listed_def)

lemma listed_setdefault_append:
  "listed (setdefault_append upcoming k v) = insert (k, v) (listed upcoming)"
proof (induction upcoming)
  case Nil
  show ?case by (auto simp: listed_def)
next
  case (Cons p ps)
  show ?case
  proof (cases "fst p = k")
    case True
    then show ?thesis by (auto simp: listed_Cons)
  next
    case False
    with Cons show ?thesis by (auto simp: listed_Cons)
  qed
qed

lemma birthdays_loop_listed:
  "birthdays_loop today records acc = Inr upcoming \<Longrightarrow>
     listed upcoming = listed acc \<union> (\<Union>r \<in> set records. contributes today r)"
proof (induction records arbitrary: acc)
  case Nil
  then show ?case by simp
next
  case (Cons r rs)
  show ?case
  proof (cases "birthday r")
    case None
    with Cons.prems have "birthdays_loop today rs acc = Inr upcoming" by simp
    from Cons.IH [OF this] None show ?thesis by (simp add: contributes_def)
  next
    case (Some b)
    show ?thesis
    proof (cases b)
      case None
      with Some Cons.prems have "birthdays_loop today rs acc = Inr upcoming" by simp
      from Cons.IH [OF this] None Some show ?thesis by (simp add: contributes_def)
    next
      case v: (Some v)
      with Some Cons.prems obtain nb where nb: "next_birthday v today = Inr nb"
        by (cases "next_birthday v today") auto
      show ?thesis
      proof (cases "0 \<le> days_between nb today \<and> days_between nb today < 7")
        case False
        with Some v nb Cons.prems have "birthdays_loop today rs acc = Inr upcoming"
          by (simp add: Let_def)
        moreover from False Some v nb have "contributes today r = {}"
          by (auto simp: contributes_def)
        ultimately show ?thesis using Cons.IH by simp
      next
        case True
        with Some v nb Cons.prems obtain cd where cd: "congratulation_date nb = Inr cd"
          and rest: "birthdays_loop today rs (setdefault_append acc cd (name r)) = Inr upcoming"
          by (cases "congratulation_date nb") (auto simp: Let_def)
        from True Some v nb cd have "contributes today r = {(cd, name r)}"
          by (auto simp: contributes_def)
        with Cons.IH [OF rest] show ?thesis by (simp add: listed_setdefault_append)
      qed
    qed
  qed
qed

lemma birthdays_loop_error:
  "birthdays_loop today records acc = Inl e \<Longrightarrow> \<exists>msg. e = ValueError msg"
proof (induction records arbitrary: acc)
  case Nil
  then show ?case by simp
next
  case (Cons r rs)
  show ?case
  proof (cases "birthday r")
    case None
    with Cons show ?thesis by simp
  next
    case (Some b)
    show ?thesis
    proof (cases b)
      case None
      with Some Cons show ?thesis by simp
    next
      case v: (Some v)
      show ?thesis
      proof (cases "next_birthday v today")
        case (Inl e')
        with Some v Cons.prems have "e = e'" by simp
        with Inl next_birthday_error show ?thesis by blast
      next
        case (Inr nb)
        then have "valid_date nb" using next_birthday_Inr by blast
        from congratulation_date_total [OF this] obtain cd where "congratulation_date nb = Inr cd"
          by blast
        with Some v Inr Cons show ?thesis by (simp add: Let_def split: if_splits)
      qed
    qed
  qed
qed

lemma birthdays_loop_raises:
  assumes "r \<in> set records" "birthday r = Some (Some v)" "next_birthday v today = Inl e"
  shows "\<exists>msg. birthdays_loop today records acc = Inl (ValueError msg)"
proof -
  have "\<exists>e'. birthdays_loop today records acc = Inl e'"
    using assms(1)
  proof (induction records arbitrary: acc)
    case Nil
    then show ?case by simp
  next
    case (Cons x xs)
    show ?case
    proof (cases "x = r")
      case True
      with assms(2,3) show ?thesis by simp
    next
      case False
      with Cons have ih: "\<And>acc. \<exists>e'. birthdays_loop today xs acc = Inl e'" by simp
      show ?thesis
      proof (cases "birthdays_loop today (x # xs) acc")
        case (Inl a)
        then show ?thesis by blast
      next
        case (Inr up)
        then obtain acc' where "birthdays_loop today xs acc' = Inr up"
          by (auto simp: Let_def split: option.splits sum.splits if_splits)
        with ih [of acc'] show ?thesis by simp
      qed
    qed
  qed
  then show ?thesis using birthdays_loop_error by blast
qed

lemma birthdays_loop_returns:
  assumes "\<And>r v. r \<in> set records \<Longrightarrow> birthday r = Some (Some v) \<Longrightarrow> \<exists>nb. next_birthday v today = Inr nb"
  shows "\<exists>upcoming. birthdays_loop today records acc = Inr upcoming"
  using assms
proof (induction records arbitrary: acc)
  case Nil
  then show ?case by simp
next
  case (Cons r rs)
  have ih: "\<exists>upcoming. birthdays_loop today rs acc = Inr upcoming" for acc
  proof (rule Cons.IH)
    fix r' v
    assume "r' \<in> set rs" "birthday r' = Some (Some v)"
    then show "\<exists>nb. next_birthday v today = Inr nb" using Cons.prems [of r' v] by simp
  qed
  show ?case
  proof (cases "birthday r")
    case None
    with ih show ?thesis by simp
  next
    case (Some b)
    show ?thesis
    proof (cases b)
      case None
      with Some ih show ?thesis by simp
    next
      case v: (Some v)
      with Some Cons.prems [of r v] obtain nb where nb: "next_birthday v today = Inr nb"
        by auto
      then have "valid_date nb" using next_birthday_Inr by blast
      from congratulation_date_total [OF this] obtain cd where "congratulation_date nb = Inr cd"
        by blast
      with Some v nb ih show ?thesis by (simp add: Let_def)
    qed
  qed
qed

section \<open>Congratulation dates\<close>

lemma contributes_iff:
  "(cd, n) \<in> contributes today r \<longleftrightarrow>
     n = name r \<and> (\<exists>v. birthday r = Some (Some v) \<and> next_birthday v today = Inr (candidate v today) \<and>
        in_window v today \<and> congratulation_date (candidate v today) = Inr cd)"
proof
  assume "(cd, n) \<in> contributes today r"
  then obtain v nb where h: "n = name r" "birthday r = Some (Some v)" "next_birthday v today = Inr nb"
    "0 \<le> days_between nb today" "days_between nb today < 7" "congratulation_date nb = Inr cd"
    by (auto simp: contributes_def)
  from next_birthday_Inr [OF h(3)] have "nb = candidate v today" by simp
  with h show "n = name r \<and> (\<exists>v. birthday r = Some (Some v) \<and>
      next_birthday v today = Inr (candidate v today) \<and>
      in_window v today \<and> congratulation_date (candidate v today) = Inr cd)"
    by (auto simp: in_window_def)
next
  assume "n = name r \<and> (\<exists>v. birthday r = Some (Some v) \<and>
      next_birthday v today = Inr (candidate v today) \<and>
      in_window v today \<and> congratulation_date (candidate v today) = Inr cd)"
  then show "(cd, n) \<in> contributes today r"
    by (auto simp: contributes_def in_window_def Let_def)
qed

lemma shift_of_candidate:
  assumes "valid_date c" "congratulation_date c = Inr cd"
  shows "(weekday c < 5 \<and> cd = c) \<or>
         (weekday c = 5 \<and> date_add_days c 2 = Inr cd \<and> toordinal cd = toordinal c + 2 \<and> weekday cd = 0) \<or>
         (weekday c = 6 \<and> date_add_days c 1 = Inr cd \<and> toordinal cd = toordinal c + 1 \<and> weekday cd = 0)"
proof -
  from weekday_range [of c] consider "weekday c < 5" | "weekday c = 5" | "weekday c = 6"
    by linarith
  then show ?thesis using congratulation_date_cases [OF assms(1)] assms(2) by cases auto
qed

section \<open>Birthdays on 29 February\<close>

lemma next_birthday_feb29:
  assumes "valid_date today" "\<not> is_leap (year today)" "month v = 2" "day v = 29"
  shows "next_birthday v today = Inl (ValueError (ascii ''day is out of range for month''))"
proof -
  from assms(1) have "MINYEAR \<le> year today" "year today \<le> MAXYEAR"
    by (simp_all add: valid_date_def)
  from replace_year_feb29 [OF assms(3,4,2) this] show ?thesis
    by (simp add: next_birthday_def)
qed

text \<open>
  C10. For every record whose stored birthday is a 29 February and every \<open>today\<close> in a year
  that is not a leap year, \<^verbatim>\<open>days_to_birthday\<close> returns no day count: it raises the
  \<^verbatim>\<open>ValueError\<close> of \<^verbatim>\<open>replace\<close>. With such a record in the book the loop of \<^verbatim>\<open>birthdays\<close>
  raises a \<^verbatim>\<open>ValueError\<close> too, which ends the listing, and \<^verbatim>\<open>input_error\<close> returns the
  message of that exception in place of the report.
\<close>

theorem feb29_raises:
  assumes "valid_date today" "\<not> is_leap (year today)"
    and "birthday r = Some (Some v)" "month v = 2" "day v = 29"
  shows "Record_days_to_birthday r today = Inl (ValueError (ascii ''day is out of range for month'')) \<and>
         ((k, r) \<in> set book \<longrightarrow>
            (\<exists>msg. birthdays_body [] book today = (Inl (ValueError msg), book) \<and>
                   birthdays [] book today = (Inr msg, book)))"
proof -
  note nb = next_birthday_feb29 [OF assms(1,2,4,5)]
  have a: "Record_days_to_birthday r today = Inl (ValueError (ascii ''day is out of range for month''))"
    using assms(3) nb by (simp add: Record_days_to_birthday_def)
  have b: "\<exists>msg. birthdays_body [] book today = (Inl (ValueError msg), book) \<and>
                 birthdays [] book today = (Inr msg, book)" if "(k, r) \<in> set book"
  proof -
    from that have "r \<in> set (map snd book)" by force
    from birthdays_loop_raises [OF this assms(3) nb] obtain msg where
      "birthdays_loop today (map snd book) [] = Inl (ValueError msg)" by blast
    then have "birthdays_body [] book today = (Inl (ValueError msg), book)"
      by (simp add: birthdays_body_def)
    then show ?thesis by (auto simp: birthdays_def input_error_def)
  qed
  from a b show ?thesis by blast
qed

theorem feb29_raises_witness:
  "valid_date \<lparr>year = 2023, month = 3, day = 1\<rparr> \<and> \<not> is_leap 2023 \<and>
   Record_days_to_birthday
     \<lparr>name = ascii ''Al'', phones = [], birthday = Some (Some \<lparr>year = 2000, month = 2, day = 29\<rparr>)\<rparr>
     \<lparr>year = 2023, month = 3, day = 1\<rparr> = Inl (ValueError (ascii ''day is out of range for month'')) \<and>
   (\<exists>msg. birthdays []
      [(ascii ''Bob'', \<lparr>name = ascii ''Bob'', phones = [], birthday = Some (Some \<lparr>year = 1990, month = 3, day = 1\<rparr>)\<rparr>),
       (ascii ''Al'', \<lparr>name = ascii ''Al'', phones = [], birthday = Some (Some \<lparr>year = 2000, month = 2, day = 29\<rparr>)\<rparr>)]
      \<lparr>year = 2023, month = 3, day = 1\<rparr> =
      (Inr msg,
       [(ascii ''Bob'', \<lparr>name = ascii ''Bob'', phones = [], birthday = Some (Some \<lparr>year = 1990, month = 3, day = 1\<rparr>)\<rparr>),
        (ascii ''Al'', \<lparr>name = ascii ''Al'', phones = [], birthday = Some (Some \<lparr>year = 2000, month = 2, day = 29\<rparr>)\<rparr>)]))"
proof -
  let ?t = "\<lparr>year = 2023, month = 3, day = 1\<rparr>"
  let ?v = "\<lparr>year = 2000, month = 2, day = 29\<rparr>"
  let ?al = "\<lparr>name = ascii ''Al'', phones = [], birthday = Some (Some ?v)\<rparr>"
  let ?book = "[(ascii ''Bob'', \<lparr>name = ascii ''Bob'', phones = [],
                   birthday = Some (Some \<lparr>year = 1990, month = 3, day = 1\<rparr>)\<rparr>), (ascii ''Al'', ?al)]"
  have a: "valid_date ?t" by code_simp
  have b: "\<not> is_leap (year ?t)" by code_simp
  have c: "birthday ?al = Some (Some ?v)" "month ?v = 2" "day ?v = 29" by simp_all
  have d: "(ascii ''Al'', ?al) \<in> set ?book" by simp
  from feb29_raises [OF a b c, of "ascii ''Al''" ?book] a b d show ?thesis by auto
qed

section \<open>Day counts\<close>

lemma days_to_birthday_absent:
  "birthday r = None \<or> birthday r = Some None \<Longrightarrow> Record_days_to_birthday r today = Inr None"
  by (auto simp: Record_days_to_birthday_def)

lemma days_to_birthday_count:
  assumes "birthday r = Some (Some v)" "valid_date today"
    and "valid_date \<lparr>year = year today, month = month v, day = day v\<rparr>"
    and "valid_date (candidate v today)"
  shows "Record_days_to_birthday r today = Inr (Some (days_between (candidate v today) today)) \<and>
         0 \<le> days_between (candidate v today) today"
  using assms(1) next_birthday_valid_candidate [OF assms(3,4)] candidate_not_before [OF assms(2,4)]
  by (simp add: Record_days_to_birthday_def days_between_def)

lemma days_to_birthday_nonneg:
  assumes "Record_days_to_birthday r today = Inr (Some n)" "valid_date today"
  shows "0 \<le> n"
proof -
  from assms(1) obtain v nb where h: "birthday r = Some (Some v)" "next_birthday v today = Inr nb"
    "n = days_between nb today"
    by (auto simp: Record_days_to_birthday_def split: option.splits sum.splits)
  from next_birthday_Inr [OF h(2)] have "nb = candidate v today" "valid_date (candidate v today)"
    by auto
  with candidate_not_before [OF assms(2)] h(3) show ?thesis by (simp add: days_between_def)
qed

section \<open>The invariant of the validated fields\<close>

lemma strptime_valid: "strptime s f = Inr d \<Longrightarrow> valid_date d"
  by (auto simp: strptime_def date_new_Inr split: option.splits if_splits)

lemma strptime_error: "strptime s f = Inl e \<Longrightarrow> \<exists>msg. e = ValueError msg"
  by (auto simp: strptime_def split: option.splits if_splits dest: date_new_error)

lemma Birthday_init_str:
  "Birthday_init (ArgStr s) =
     (case strptime s FMT_DMY of
        Inl e \<Rightarrow> Inl (ValueError (ascii ''Invalid date format. Use DD.MM.YYYY''))
      | Inr d \<Rightarrow> Inr (Some d))"
  by simp

lemma record_ok_add_phone: "record_ok r \<Longrightarrow> record_ok (snd (Record_add_phone r p))"
  by (auto simp: Record_add_phone_def Phone_init_eq record_ok_def)

lemma list_all_update: "list_all P xs \<Longrightarrow> P x \<Longrightarrow> list_all P (xs[i := x])"
  by (induction xs arbitrary: i) (auto split: nat.splits)

lemma list_all_take_drop:
  "list_all P xs \<Longrightarrow> list_all P (take i xs) \<and> list_all P (drop j xs)"
  by (auto simp: list_all_iff dest: in_set_takeD in_set_dropD)

lemma record_ok_edit_phone: "record_ok r \<Longrightarrow> record_ok (snd (Record_edit_phone r old new))"
  by (auto simp: Record_edit_phone_def Phone_init_eq record_ok_def list_all_update
      split: option.splits)

lemma record_ok_remove_phone: "record_ok r \<Longrightarrow> record_ok (snd (Record_remove_phone r p))"
  by (auto simp: Record_remove_phone_def record_ok_def list_all_take_drop split: option.splits)

lemma record_ok_add_birthday: "record_ok r \<Longrightarrow> record_ok (snd (Record_add_birthday r b))"
  by (auto simp: Record_add_birthday_def record_ok_def split: sum.splits dest: strptime_valid)

lemma Record_init_eq:
  "Record_init n = (if n = [] then Inl (ValueError (ascii ''Name cannot be empty.'')) else Inr (empty_record n))"
  by (simp add: Record_init_def Name_init_def empty_record_def)

lemma record_ok_empty: "record_ok (empty_record n)"
  by (simp add: record_ok_def empty_record_def)

lemma book_ok_dict_set: "book_ok book \<Longrightarrow> record_ok r \<Longrightarrow> book_ok (dict_set k r book)"
  by (induction book) (auto simp: book_ok_def)

lemma book_ok_find: "book_ok book \<Longrightarrow> find_record book n = Some r \<Longrightarrow> record_ok r"
  by (auto simp: book_ok_def find_record_def list_all_iff dest!: map_of_SomeD)

lemma book_ok_add_record: "book_ok book \<Longrightarrow> record_ok r \<Longrightarrow> book_ok (add_record book r)"
  by (simp add: add_record_def book_ok_dict_set)

lemma book_ok_delete: "book_ok book \<Longrightarrow> book_ok (snd (delete book n))"
  by (auto simp: delete_def book_ok_def list_all_iff)

lemma book_ok_update_entry:
  "book_ok book \<Longrightarrow> record_ok r \<Longrightarrow> book_ok (update_entry k r book)"
  by (induction book) (auto simp: book_ok_def)

lemma book_ok_store:
  "book_ok book \<Longrightarrow> record_ok (snd res) \<Longrightarrow> book_ok (snd (store book n res))"
  by (simp add: store_def book_ok_update_entry)

lemma snd_input_error: "snd (input_error res) = snd res"
  by (cases res) (auto simp: input_error_def split: sum.splits)

lemma book_ok_add_contact:
  assumes "book_ok book"
  shows "book_ok (snd (add_contact_body args book))"
proof -
  have tail: "book_ok (snd (add_contact_phone b n r p m))" if "book_ok b" "record_ok r" for b n r p m
    using book_ok_store [OF that(1) record_ok_add_phone [OF that(2)], of n p] that(1)
    by (auto simp: add_contact_phone_def split: prod.splits sum.splits)
  show ?thesis
  proof (cases args)
    case Nil
    with assms show ?thesis by (simp add: add_contact_body_def)
  next
    case (Cons n as)
    show ?thesis
    proof (cases as)
      case Nil
      with Cons assms show ?thesis by (simp add: add_contact_body_def)
    next
      case c2: (Cons p extra)
      show ?thesis
      proof (cases "find_record book n")
        case None
        show ?thesis
        proof (cases "n = []")
          case True
          with None Cons c2 assms show ?thesis by (simp add: add_contact_body_def Record_init_eq)
        next
          case False
          have "book_ok (add_record book (empty_record n))"
            using assms record_ok_empty by (rule book_ok_add_record)
          from tail [OF this record_ok_empty] None Cons c2 False show ?thesis
            by (simp add: add_contact_body_def Record_init_eq)
        qed
      next
        case (Some r)
        from tail [OF assms book_ok_find [OF assms Some]] Some Cons c2 show ?thesis
          by (simp add: add_contact_body_def)
      qed
    qed
  qed
qed

lemma book_ok_change_phone:
  assumes "book_ok book"
  shows "book_ok (snd (change_phone_body args book))"
proof -
  have "book_ok (snd (case store book n (Record_edit_phone r old new) of
                        (Inl e, book') \<Rightarrow> (Inl e, book')
                      | (Inr u, book') \<Rightarrow> (Inr (ascii ''Phone number updated.''), book')))"
    if "find_record book n = Some r" for n r old new
    using book_ok_store [OF assms record_ok_edit_phone [OF book_ok_find [OF assms that]], of n old new]
    by (auto split: prod.splits sum.splits)
  with assms show ?thesis
    by (auto simp: change_phone_body_def split: list.splits option.splits)
qed

lemma book_ok_add_birthday:
  assumes "book_ok book"
  shows "book_ok (snd (add_birthday_body args book))"
proof -
  have st: "book_ok (snd (case store b n (Record_add_birthday r s) of
                        (Inl e, book') \<Rightarrow> (Inl e, book')
                      | (Inr u, book') \<Rightarrow> (Inr (ascii ''Birthday added.''), book')))"
    if "book_ok b" "record_ok r" for b n r s
    using book_ok_store [OF that(1) record_ok_add_birthday [OF that(2)], of n s]
    by (auto split: prod.splits sum.splits)
  show ?thesis
  proof (cases args)
    case Nil
    with assms show ?thesis by (simp add: add_birthday_body_def)
  next
    case (Cons n as)
    show ?thesis
    proof (cases as)
      case Nil
      with Cons assms show ?thesis by (simp add: add_birthday_body_def)
    next
      case c2: (Cons s extra)
      show ?thesis
      proof (cases "find_record book n")
        case None
        show ?thesis
        proof (cases "n = []")
          case True
          with None Cons c2 assms show ?thesis by (simp add: add_birthday_body_def Record_init_eq)
        next
          case False
          have "book_ok (add_record book (empty_record n))"
            using assms record_ok_empty by (rule book_ok_add_record)
          from st [OF this record_ok_empty] None Cons c2 False show ?thesis
            by (simp add: add_birthday_body_def Record_init_eq)
        qed
      next
        case (Some r)
        from st [OF assms book_ok_find [OF assms Some]] Some Cons c2 show ?thesis
          by (simp add: add_birthday_body_def)
      qed
    qed
  qed
qed

lemma snd_read_only:
  "snd (show_phone_body args book) = book"
  "snd (show_all_body args book) = book"
  "snd (show_birthday_body args book) = book"
  "snd (birthdays_body args book today) = book"
  "snd (show_commands_body args book) = book"
  by (auto simp: show_phone_body_def show_all_body_def show_birthday_body_def birthdays_body_def
      show_commands_body_def split: list.splits option.splits sum.splits)

lemma book_ok_dispatch:
  assumes "book_ok book"
  shows "book_ok (snd (dispatch c args book today))"
  using assms book_ok_add_contact [OF assms] book_ok_change_phone [OF assms]
    book_ok_add_birthday [OF assms]
  by (cases c)
     (simp_all add: snd_input_error snd_read_only add_contact_def change_phone_def show_phone_def
        show_all_def add_birthday_def show_birthday_def birthdays_def show_commands_def)

lemma reachable_book_ok: "reachable book \<Longrightarrow> book_ok book"
  by (induction rule: reachable.induct) (simp_all add: book_ok_def book_ok_dispatch [unfolded book_ok_def])

text \<open>
  C5. The invariant is preserved by every operation of the model: by \<^verbatim>\<open>add_phone\<close>,
  \<^verbatim>\<open>edit_phone\<close>, \<^verbatim>\<open>remove_phone\<close> and \<^verbatim>\<open>add_birthday\<close> on a record, whether they
  return or raise; a new record satisfies it; \<^verbatim>\<open>add_record\<close> of such a record and every
  command handler keep it for the book. So every book a session reaches satisfies it, and
  so does every record found in such a book.
\<close>

theorem validated_fields_invariant:
  "(record_ok r \<longrightarrow>
      record_ok (snd (Record_add_phone r p)) \<and> record_ok (snd (Record_edit_phone r old new)) \<and>
      record_ok (snd (Record_remove_phone r p)) \<and> record_ok (snd (Record_add_birthday r b))) \<and>
   (Record_init n = Inr r' \<longrightarrow> record_ok r') \<and>
   (book_ok book \<and> record_ok r \<longrightarrow> book_ok (add_record book r)) \<and>
   (book_ok book \<longrightarrow> book_ok (snd (dispatch c args book today))) \<and>
   (reachable book \<longrightarrow> book_ok book) \<and>
   (book_ok book \<and> find_record book k = Some r'' \<longrightarrow> record_ok r'')"
proof -
  have "Record_init n = Inr r' \<longrightarrow> record_ok r'"
    by (auto simp: Record_init_eq record_ok_empty split: if_splits)
  then show ?thesis
    using record_ok_add_phone record_ok_edit_phone record_ok_remove_phone record_ok_add_birthday
      book_ok_add_record book_ok_dispatch reachable_book_ok book_ok_find
    by blast
qed

theorem validated_fields_invariant_witness:
  "record_ok \<lparr>name = ascii ''Al'', phones = [ascii ''0123456789''], birthday = None\<rparr> \<and>
   record_ok (snd (Record_edit_phone \<lparr>name = ascii ''Al'', phones = [ascii ''0123456789''], birthday = None\<rparr>
                     (ascii ''0123456789'') (ascii ''12'')))  \<and>
   record_ok (snd (Record_add_birthday \<lparr>name = ascii ''Al'', phones = [ascii ''0123456789''], birthday = None\<rparr>
                     (ascii ''15.03.1990''))) \<and>
   book_ok [] \<and> reachable [] \<and>
   book_ok (snd (dispatch ADD [ascii ''Al'', ascii ''0123456789''] [] \<lparr>year = 2023, month = 3, day = 1\<rparr>)) \<and>
   reachable (snd (dispatch ADD [ascii ''Al'', ascii ''0123456789''] [] \<lparr>year = 2023, month = 3, day = 1\<rparr>)) \<and>
   find_record (snd (dispatch ADD [ascii ''Al'', ascii ''0123456789''] [] \<lparr>year = 2023, month = 3, day = 1\<rparr>)) (ascii ''Al'') =
     Some \<lparr>name = ascii ''Al'', phones = [ascii ''0123456789''], birthday = None\<rparr>"
proof -
  let ?r = "\<lparr>name = ascii ''Al'', phones = [ascii ''0123456789''], birthday = None\<rparr>"
  let ?t = "\<lparr>year = 2023, month = 3, day = 1\<rparr>"
  have a: "record_ok ?r" by (simp add: record_ok_def ten_digits_0123456789)
  have b: "book_ok []" by (simp add: book_ok_def)
  have c: "reachable []" by (rule reachable.start)
  have d: "reachable (snd (dispatch ADD [ascii ''Al'', ascii ''0123456789''] [] ?t))"
    using c by (rule reachable.step)
  have e: "find_record (snd (dispatch ADD [ascii ''Al'', ascii ''0123456789''] [] ?t)) (ascii ''Al'') = Some ?r"
    by (simp add: add_contact_def add_contact_body_def add_contact_phone_def find_record_def
        add_record_def store_def Record_init_def Name_init_def Record_add_phone_def Phone_init_eq
        ten_digits_0123456789 input_error_def)
  from a b c d e
    validated_fields_invariant [of ?r "ascii ''0''" "ascii ''0123456789''" "ascii ''12''" "ascii ''15.03.1990''" "ascii ''Al''" ?r
      "[]" ADD "[ascii ''Al'', ascii ''0123456789'']" ?t "ascii ''Al''" ?r]
    validated_fields_invariant [of ?r "ascii ''0''" "ascii ''0123456789''" "ascii ''12''" "ascii ''15.03.1990''" "ascii ''Al''" ?r
      "snd (dispatch ADD [ascii ''Al'', ascii ''0123456789''] [] ?t)" ADD "[ascii ''Al'', ascii ''0123456789'']" ?t "ascii ''Al''" ?r]
  show ?thesis by blast
qed

section \<open>The handlers insert before they validate\<close>

lemma dict_set_absent: "k \<notin> fst ` set book \<Longrightarrow> dict_set k v book = book @ [(k, v)]"
  by (induction book) auto

lemma update_entry_last:
  "k \<notin> fst ` set book \<Longrightarrow> update_entry k v' (book @ [(k, v)]) = book @ [(k, v')]"
  by (induction book) auto

lemma update_entry_absent: "k \<notin> fst ` set book \<Longrightarrow> update_entry k v book = book"
  by (induction book) auto

lemma store_absent: "find_record book n = None \<Longrightarrow> snd (store book n res) = book"
  by (simp add: store_def find_record_def map_of_eq_None_iff update_entry_absent)

lemma find_record_None: "find_record book n = None \<longleftrightarrow> n \<notin> fst ` set book"
  by (simp add: find_record_def map_of_eq_None_iff)

lemma handlers_insert_before_validating:
  assumes "find_record book n = None" "n \<noteq> []"
  shows "(v \<noteq> [] \<and> \<not> ten_digits v \<longrightarrow>
            add_contact_body (n # v # extra) book =
              (Inl (ValueError (ascii ''Phone number must contain exactly 10 digits.'')),
               book @ [(n, \<lparr>name = n, phones = [], birthday = None\<rparr>)]) \<and>
            add_contact (n # v # extra) book =
              (Inr (ascii ''Phone number must contain exactly 10 digits.''),
               book @ [(n, \<lparr>name = n, phones = [], birthday = None\<rparr>)])) \<and>
         ((\<exists>e. Birthday_init (ArgStr v) = Inl e) \<longrightarrow>
            add_birthday_body (n # v # extra) book =
              (Inl (ValueError (ascii ''Invalid date format. Use DD.MM.YYYY'')),
               book @ [(n, \<lparr>name = n, phones = [], birthday = None\<rparr>)]) \<and>
            add_birthday (n # v # extra) book =
              (Inr (ascii ''Invalid date format. Use DD.MM.YYYY''),
               book @ [(n, \<lparr>name = n, phones = [], birthday = None\<rparr>)]))"
proof -
  let ?e = "\<lparr>name = n, phones = [], birthday = None\<rparr>"
  from assms(1) have k: "n \<notin> fst ` set book" by (simp add: find_record_None)
  have ar: "add_record book ?e = book @ [(n, ?e)]"
    using k by (simp add: add_record_def dict_set_absent)
  have st: "store (book @ [(n, ?e)]) n (x, ?e) = (x, book @ [(n, ?e)])" for x
    using k by (simp add: store_def update_entry_last)
  have a: "add_contact_body (n # v # extra) book =
             (Inl (ValueError (ascii ''Phone number must contain exactly 10 digits.'')), book @ [(n, ?e)])"
    if "v \<noteq> []" "\<not> ten_digits v"
    using that assms ar st
    by (simp add: add_contact_body_def Record_init_eq empty_record_def add_contact_phone_def
        Record_add_phone_def Phone_init_eq)
  have b: "add_birthday_body (n # v # extra) book =
             (Inl (ValueError (ascii ''Invalid date format. Use DD.MM.YYYY'')), book @ [(n, ?e)])"
    if "Birthday_init (ArgStr v) = Inl e" for e
  proof -
    from that have "Birthday_init (ArgStr v) = Inl (ValueError (ascii ''Invalid date format. Use DD.MM.YYYY''))"
      by (auto split: sum.splits)
    then have "Record_add_birthday ?e v =
        (Inl (ValueError (ascii ''Invalid date format. Use DD.MM.YYYY'')), ?e)"
      by (simp add: Record_add_birthday_def)
    with assms ar st show ?thesis
      by (simp add: add_birthday_body_def Record_init_eq empty_record_def)
  qed
  from a b show ?thesis by (auto simp: add_contact_def add_birthday_def input_error_def)
qed

section \<open>What \<^verbatim>\<open>input_error\<close> returns\<close>

lemma input_error_ValueError: "input_error (Inl (ValueError m), book) = (Inr m, book)"
  by (simp add: input_error_def)

lemma input_error_caught:
  "fst res = Inl e \<Longrightarrow> caught e \<Longrightarrow> input_error res = (Inr (str_error e), snd res)"
  by (simp add: input_error_def)

lemma input_error_text: "fst res = Inr text \<Longrightarrow> input_error res = res"
  by (simp add: input_error_def)

lemma Record_method_errors:
  "fst (Record_add_phone r p) = Inl e \<Longrightarrow> caught e"
  "fst (Record_edit_phone r old new) = Inl e \<Longrightarrow> caught e"
  "fst (Record_add_birthday r b) = Inl e \<Longrightarrow> caught e"
  by (auto simp: Record_add_phone_def Record_edit_phone_def Record_add_birthday_def Phone_init_eq
      split: option.splits sum.splits if_splits)

lemma body_errors:
  "fst (add_contact_body args book) = Inl e \<Longrightarrow> caught e"
  "fst (change_phone_body args book) = Inl e \<Longrightarrow> caught e"
  "fst (show_phone_body args book) = Inl e \<Longrightarrow> caught e"
  "fst (show_all_body args book) = Inl e \<Longrightarrow> caught e"
  "fst (add_birthday_body args book) = Inl e \<Longrightarrow> caught e"
  "fst (show_birthday_body args book) = Inl e \<Longrightarrow> caught e"
  "fst (show_commands_body args book) = Inl e \<Longrightarrow> caught e"
proof -
  show "fst (add_contact_body args book) = Inl e \<Longrightarrow> caught e"
    using Record_method_errors(1)
    by (auto simp: add_contact_body_def add_contact_phone_def store_def Record_init_eq
        split: list.splits option.splits if_splits sum.splits prod.splits)
  show "fst (change_phone_body args book) = Inl e \<Longrightarrow> caught e"
    using Record_method_errors(2)
    by (auto simp: change_phone_body_def store_def
        split: list.splits option.splits if_splits sum.splits prod.splits)
  show "fst (show_phone_body args book) = Inl e \<Longrightarrow> caught e"
    by (auto simp: show_phone_body_def split: list.splits option.splits if_splits)
  show "fst (show_all_body args book) = Inl e \<Longrightarrow> caught e"
    by (auto simp: show_all_body_def split: if_splits)
  show "fst (add_birthday_body args book) = Inl e \<Longrightarrow> caught e"
    using Record_method_errors(3)
    by (auto simp: add_birthday_body_def store_def Record_init_eq
        split: list.splits option.splits if_splits sum.splits prod.splits)
  show "fst (show_birthday_body args book) = Inl e \<Longrightarrow> caught e"
    by (auto simp: show_birthday_body_def split: list.splits option.splits if_splits)
  show "fst (show_commands_body args book) = Inl e \<Longrightarrow> caught e"
    by (auto simp: show_commands_body_def split: if_splits)
qed

lemma birthdays_body_errors: "fst (birthdays_body args book today) = Inl e \<Longrightarrow> caught e"
  by (auto simp: birthdays_body_def split: if_splits sum.splits dest: birthdays_loop_error)

lemma input_error_returns_text:
  assumes "\<And>e. fst res = Inl e \<Longrightarrow> caught e"
  shows "\<exists>text. fst (input_error res) = Inr text"
  using assms by (cases "fst res") (auto simp: input_error_def)

lemma dispatch_returns_text: "\<exists>text. fst (dispatch c args book today) = Inr text"
  by (cases c)
     (simp_all add: add_contact_def change_phone_def show_phone_def show_all_def add_birthday_def
        show_birthday_def birthdays_def show_commands_def input_error_returns_text body_errors
        birthdays_body_errors)

lemma py_repr_contact_not_found:
  "py_repr (ascii ''Contact not found.'') = SQUOTE # ascii ''Contact not found.'' @ [SQUOTE]"
  by (simp add: py_repr_def repr_char_def ascii_Cons SQUOTE_def DQUOTE_def BACKSLASH_def
      is_printable_ascii)

text \<open>
  C9. Every exception a handler body raises is a \<^verbatim>\<open>ValueError\<close> or a \<^verbatim>\<open>KeyError\<close> and is
  caught by \<^verbatim>\<open>input_error\<close> (\<open>dispatch_returns_text\<close>); a \<^verbatim>\<open>ValueError\<close> is returned as
  its message (\<open>input_error_ValueError\<close>). A \<^verbatim>\<open>KeyError\<close> is returned as the \<^verbatim>\<open>repr\<close> of
  its message: \<^verbatim>\<open>change Bob 0123456789 9876543210\<close> on an empty book answers
  \<^verbatim>\<open>'Contact not found.'\<close>, single quotes included, not the bare message.
\<close>

theorem change_absent_contact_quoted:
  "fst (change_phone_body [ascii ''Bob'', ascii ''0123456789'', ascii ''9876543210''] []) =
     Inl (KeyError (ascii ''Contact not found.'')) \<and>
   fst (change_phone [ascii ''Bob'', ascii ''0123456789'', ascii ''9876543210''] []) =
     Inr (SQUOTE # ascii ''Contact not found.'' @ [SQUOTE]) \<and>
   fst (change_phone [ascii ''Bob'', ascii ''0123456789'', ascii ''9876543210''] []) \<noteq>
     Inr (ascii ''Contact not found.'')"
proof -
  have "SQUOTE # ascii ''Contact not found.'' @ [SQUOTE] \<noteq> ascii ''Contact not found.''"
    by (simp add: ascii_Cons)
  then show ?thesis
    by (simp add: change_phone_def change_phone_body_def find_record_def input_error_def
        py_repr_contact_not_found)
qed

lemma absent_contact_quoted:
  assumes "find_record book n = None"
  shows "change_phone (n # old # new # extra) book =
           (Inr (SQUOTE # ascii ''Contact not found.'' @ [SQUOTE]), book)"
  using assms
  by (simp add: change_phone_def change_phone_body_def input_error_def py_repr_contact_not_found)

section \<open>Days to the next birthday\<close>

text \<open>
  C6, as the code has it. \<^verbatim>\<open>days_to_birthday\<close> returns \<^verbatim>\<open>None\<close> when no birthday is set.
  Otherwise, whenever the birthday's month and day form a calendar date in the year of
  \<open>today\<close>, and the candidate (that date, or the same day one year later when it is
  strictly before \<open>today\<close>) is a calendar date too, it returns the number of days from
  \<open>today\<close> to the candidate, which is not negative. Whatever it returns is not negative.
  The method returns its result only, so the record is as before and a second call with
  the same \<open>today\<close> returns the same.
\<close>

theorem days_to_birthday_when_candidate_exists:
  "(birthday r = None \<or> birthday r = Some None \<longrightarrow> Record_days_to_birthday r today = Inr None) \<and>
   (birthday r = Some (Some v) \<and> valid_date today \<and>
    valid_date \<lparr>year = year today, month = month v, day = day v\<rparr> \<and>
    valid_date (candidate v today) \<longrightarrow>
      Record_days_to_birthday r today = Inr (Some (days_between (candidate v today) today)) \<and>
      0 \<le> days_between (candidate v today) today) \<and>
   (valid_date today \<and> Record_days_to_birthday r today = Inr (Some n) \<longrightarrow> 0 \<le> n)"
  using days_to_birthday_absent [of r today] days_to_birthday_count [of r v today]
    days_to_birthday_nonneg [of r today n]
  by blast

theorem days_to_birthday_when_candidate_exists_witness:
  "valid_date \<lparr>year = 2023, month = 3, day = 1\<rparr> \<and>
   valid_date \<lparr>year = 2023, month = 2, day = 28\<rparr> \<and>
   candidate \<lparr>year = 2000, month = 2, day = 28\<rparr> \<lparr>year = 2023, month = 3, day = 1\<rparr> =
     \<lparr>year = 2024, month = 2, day = 28\<rparr> \<and>
   valid_date \<lparr>year = 2024, month = 2, day = 28\<rparr> \<and>
   Record_days_to_birthday
     \<lparr>name = ascii ''Al'', phones = [], birthday = Some (Some \<lparr>year = 2000, month = 2, day = 28\<rparr>)\<rparr>
     \<lparr>year = 2023, month = 3, day = 1\<rparr> = Inr (Some 364) \<and>
   Record_days_to_birthday \<lparr>name = ascii ''Al'', phones = [], birthday = None\<rparr>
     \<lparr>year = 2023, month = 3, day = 1\<rparr> = Inr None"
proof -
  let ?t = "\<lparr>year = 2023, month = 3, day = 1\<rparr>"
  let ?v = "\<lparr>year = 2000, month = 2, day = 28\<rparr>"
  let ?r = "\<lparr>name = ascii ''Al'', phones = [], birthday = Some (Some ?v)\<rparr>"
  let ?bare = "\<lparr>name = ascii ''Al'', phones = [], birthday = None\<rparr>"
  have a: "valid_date ?t" by code_simp
  have b: "valid_date \<lparr>year = 2023, month = 2, day = 28\<rparr>" by code_simp
  have c: "candidate ?v ?t = \<lparr>year = 2024, month = 2, day = 28\<rparr>"
    by (simp add: candidate_def date_lt_def)
  have d: "valid_date \<lparr>year = 2024, month = 2, day = 28\<rparr>" by code_simp
  have e: "days_between \<lparr>year = 2024, month = 2, day = 28\<rparr> ?t = 364" by code_simp
  have b': "valid_date \<lparr>year = year ?t, month = month ?v, day = day ?v\<rparr>" using b by simp
  have d': "valid_date (candidate ?v ?t)" using c d by simp
  have bd: "birthday ?r = Some (Some ?v)" by simp
  have bd0: "birthday ?bare = None" by simp
  from days_to_birthday_when_candidate_exists [of ?r ?t ?v 364] a b' d' bd
  have "Record_days_to_birthday ?r ?t = Inr (Some (days_between (candidate ?v ?t) ?t))"
    by blast
  then have f: "Record_days_to_birthday ?r ?t = Inr (Some 364)" using c e by simp
  from days_to_birthday_when_candidate_exists [of ?bare ?t ?v 364] bd0
  have g: "Record_days_to_birthday ?bare ?t = Inr None" by blast
  from a b c d f g show ?thesis by simp
qed

lemma str_int_10000: "str_int 10000 = ascii ''10000''"
  by (simp add: str_int_def str_nat.simps digit_char_def ascii_Cons)

lemma next_birthday_year_10000:
  "next_birthday \<lparr>year = 1990, month = 1, day = 1\<rparr> \<lparr>year = 9999, month = 12, day = 31\<rparr> =
     Inl (ValueError (ascii ''year 10000 is out of range''))"
proof -
  have a: "replace_year \<lparr>year = 1990, month = 1, day = 1\<rparr> 9999 = Inr \<lparr>year = 9999, month = 1, day = 1\<rparr>"
    by (simp add: replace_year_def date_new_def MINYEAR_def MAXYEAR_def days_in_month_def
        DAYS_IN_MONTH_def)
  have b: "replace_year \<lparr>year = 9999, month = 1, day = 1\<rparr> 10000 =
             Inl (ValueError (ascii ''year 10000 is out of range''))"
    by (simp add: replace_year_def date_new_def MINYEAR_def MAXYEAR_def str_int_10000 ascii_Cons)
  show ?thesis by (simp add: next_birthday_def a b date_lt_def)
qed

text \<open>
  C6 as stated fails: for a birthday on 29 February 2000 and \<open>today\<close> = 1 March 2023, and
  for a birthday on 1 January and \<open>today\<close> = 31 December 9999, \<^verbatim>\<open>days_to_birthday\<close> raises
  instead of returning a day count.
\<close>

theorem days_to_birthday_raises:
  "valid_date \<lparr>year = 2023, month = 3, day = 1\<rparr> \<and>
   Record_days_to_birthday
     \<lparr>name = ascii ''Al'', phones = [], birthday = Some (Some \<lparr>year = 2000, month = 2, day = 29\<rparr>)\<rparr>
     \<lparr>year = 2023, month = 3, day = 1\<rparr> = Inl (ValueError (ascii ''day is out of range for month'')) \<and>
   valid_date \<lparr>year = 9999, month = 12, day = 31\<rparr> \<and>
   Record_days_to_birthday
     \<lparr>name = ascii ''Bob'', phones = [], birthday = Some (Some \<lparr>year = 1990, month = 1, day = 1\<rparr>)\<rparr>
     \<lparr>year = 9999, month = 12, day = 31\<rparr> = Inl (ValueError (ascii ''year 10000 is out of range''))"
proof -
  have a: "valid_date \<lparr>year = 2023, month = 3, day = 1\<rparr>" by code_simp
  have b: "Record_days_to_birthday
     \<lparr>name = ascii ''Al'', phones = [], birthday = Some (Some \<lparr>year = 2000, month = 2, day = 29\<rparr>)\<rparr>
     \<lparr>year = 2023, month = 3, day = 1\<rparr> = Inl (ValueError (ascii ''day is out of range for month''))"
    by (simp add: Record_days_to_birthday_def date_eval)
  have c: "valid_date \<lparr>year = 9999, month = 12, day = 31\<rparr>" by code_simp
  have d: "Record_days_to_birthday
     \<lparr>name = ascii ''Bob'', phones = [], birthday = Some (Some \<lparr>year = 1990, month = 1, day = 1\<rparr>)\<rparr>
     \<lparr>year = 9999, month = 12, day = 31\<rparr> = Inl (ValueError (ascii ''year 10000 is out of range''))"
    by (simp add: Record_days_to_birthday_def next_birthday_year_10000)
  from a b c d show ?thesis by simp
qed

section \<open>The upcoming window\<close>

text \<open>
  C1, as the code has it. For every \<open>today\<close> and every list of records in which each
  birthday's month and day form a calendar date in the year of \<open>today\<close>, as does its
  candidate: the loop of \<^verbatim>\<open>birthdays\<close> returns, and it lists a name exactly when a record
  of that name has a birthday with \<open>0 \<le> delta < 7\<close>, \<open>delta\<close> being the days from \<open>today\<close>
  to the candidate. So \<open>delta = 0\<close> is listed and \<open>delta = 7\<close> is not.
\<close>

theorem upcoming_window:
  assumes "\<And>r v. r \<in> set records \<Longrightarrow> birthday r = Some (Some v) \<Longrightarrow>
             valid_date \<lparr>year = year today, month = month v, day = day v\<rparr> \<and>
             valid_date (candidate v today)"
  shows "\<exists>upcoming. birthdays_loop today records [] = Inr upcoming \<and>
           (\<forall>n. (\<exists>cd. (cd, n) \<in> listed upcoming) \<longleftrightarrow>
                (\<exists>r v. r \<in> set records \<and> name r = n \<and> birthday r = Some (Some v) \<and>
                       0 \<le> days_between (candidate v today) today \<and>
                       days_between (candidate v today) today < 7))"
proof -
  have nb: "next_birthday v today = Inr (candidate v today)"
    if "r \<in> set records" "birthday r = Some (Some v)" for r v
    using assms [OF that] next_birthday_valid_candidate by blast
  then have "\<exists>upcoming. birthdays_loop today records [] = Inr upcoming"
    by (intro birthdays_loop_returns) blast
  then obtain upcoming where up: "birthdays_loop today records [] = Inr upcoming" by blast
  note l = birthdays_loop_listed [OF up]
  have "(\<exists>cd. (cd, n) \<in> listed upcoming) \<longleftrightarrow>
          (\<exists>r v. r \<in> set records \<and> name r = n \<and> birthday r = Some (Some v) \<and>
                 0 \<le> days_between (candidate v today) today \<and>
                 days_between (candidate v today) today < 7)" for n
  proof
    assume "\<exists>cd. (cd, n) \<in> listed upcoming"
    then obtain cd r where "r \<in> set records" "(cd, n) \<in> contributes today r"
      using l by (auto simp: listed_Nil)
    then show "\<exists>r v. r \<in> set records \<and> name r = n \<and> birthday r = Some (Some v) \<and>
                 0 \<le> days_between (candidate v today) today \<and>
                 days_between (candidate v today) today < 7"
      by (auto simp: contributes_iff in_window_def Let_def)
  next
    assume "\<exists>r v. r \<in> set records \<and> name r = n \<and> birthday r = Some (Some v) \<and>
                 0 \<le> days_between (candidate v today) today \<and>
                 days_between (candidate v today) today < 7"
    then obtain r v where r: "r \<in> set records" "name r = n" "birthday r = Some (Some v)"
      "0 \<le> days_between (candidate v today) today" "days_between (candidate v today) today < 7"
      by blast
    from assms [OF r(1,3)] have "valid_date (candidate v today)" by simp
    from congratulation_date_total [OF this] obtain cd where
      "congratulation_date (candidate v today) = Inr cd" by blast
    with nb [OF r(1,3)] r have "(cd, n) \<in> contributes today r"
      by (auto simp: contributes_iff in_window_def Let_def)
    with r(1) l show "\<exists>cd. (cd, n) \<in> listed upcoming" by blast
  qed
  with up show ?thesis by blast
qed

theorem upcoming_window_witness:
  "(\<exists>upcoming.
      birthdays_loop \<lparr>year = 2023, month = 3, day = 1\<rparr>
        [\<lparr>name = ascii ''Bob'', phones = [], birthday = Some (Some \<lparr>year = 1990, month = 3, day = 1\<rparr>)\<rparr>,
         \<lparr>name = ascii ''Cy'', phones = [], birthday = Some (Some \<lparr>year = 1990, month = 3, day = 8\<rparr>)\<rparr>] [] =
        Inr upcoming \<and>
      (\<exists>cd. (cd, ascii ''Bob'') \<in> listed upcoming) \<and> \<not> (\<exists>cd. (cd, ascii ''Cy'') \<in> listed upcoming)) \<and>
   days_between (candidate \<lparr>year = 1990, month = 3, day = 1\<rparr> \<lparr>year = 2023, month = 3, day = 1\<rparr>)
     \<lparr>year = 2023, month = 3, day = 1\<rparr> = 0 \<and>
   days_between (candidate \<lparr>year = 1990, month = 3, day = 8\<rparr> \<lparr>year = 2023, month = 3, day = 1\<rparr>)
     \<lparr>year = 2023, month = 3, day = 1\<rparr> = 7"
proof -
  let ?t = "\<lparr>year = 2023, month = 3, day = 1\<rparr>"
  let ?vb = "\<lparr>year = 1990, month = 3, day = 1\<rparr>"
  let ?vc = "\<lparr>year = 1990, month = 3, day = 8\<rparr>"
  let ?bob = "\<lparr>name = ascii ''Bob'', phones = [], birthday = Some (Some ?vb)\<rparr>"
  let ?cy = "\<lparr>name = ascii ''Cy'', phones = [], birthday = Some (Some ?vc)\<rparr>"
  have cb: "candidate ?vb ?t = \<lparr>year = 2023, month = 3, day = 1\<rparr>"
    by (simp add: candidate_def date_lt_def)
  have cc: "candidate ?vc ?t = \<lparr>year = 2023, month = 3, day = 8\<rparr>"
    by (simp add: candidate_def date_lt_def)
  have vb: "valid_date \<lparr>year = 2023, month = 3, day = 1\<rparr>" by code_simp
  have vc: "valid_date \<lparr>year = 2023, month = 3, day = 8\<rparr>" by code_simp
  have db: "days_between (candidate ?vb ?t) ?t = 0" unfolding cb by code_simp
  have dc: "days_between (candidate ?vc ?t) ?t = 7" unfolding cc by code_simp
  have hyp: "valid_date \<lparr>year = year ?t, month = month v, day = day v\<rparr> \<and> valid_date (candidate v ?t)"
    if "r \<in> set [?bob, ?cy]" "birthday r = Some (Some v)" for r v
    using that cb cc vb vc by auto
  from upcoming_window [of "[?bob, ?cy]" ?t, OF hyp] obtain upcoming where
    both: "birthdays_loop ?t [?bob, ?cy] [] = Inr upcoming \<and>
      (\<forall>n. (\<exists>cd. (cd, n) \<in> listed upcoming) \<longleftrightarrow>
                (\<exists>r v. r \<in> set [?bob, ?cy] \<and> name r = n \<and> birthday r = Some (Some v) \<and>
                       0 \<le> days_between (candidate v ?t) ?t \<and> days_between (candidate v ?t) ?t < 7))"
    ..
  from both have up: "birthdays_loop ?t [?bob, ?cy] [] = Inr upcoming" by (rule conjunct1)
  from both have iff0: "\<forall>n. (\<exists>cd. (cd, n) \<in> listed upcoming) \<longleftrightarrow>
                (\<exists>r v. r \<in> set [?bob, ?cy] \<and> name r = n \<and> birthday r = Some (Some v) \<and>
                       0 \<le> days_between (candidate v ?t) ?t \<and> days_between (candidate v ?t) ?t < 7)"
    by (rule conjunct2)
  note iff = iff0 [rule_format]
  have "\<exists>cd. (cd, ascii ''Bob'') \<in> listed upcoming"
    unfolding iff using db by (intro exI [of _ ?bob] exI [of _ ?vb]) simp
  moreover have "\<not> (\<exists>cd. (cd, ascii ''Cy'') \<in> listed upcoming)"
    unfolding iff using dc by auto
  ultimately show ?thesis using up db dc by blast
qed

text \<open>
  C1 as stated fails: after \<^verbatim>\<open>add-birthday Bob 01.03.1990\<close> and
  \<^verbatim>\<open>add-birthday Al 29.02.2000\<close>, on 1 March 2023, Bob's birthday is today
  (\<open>delta = 0\<close>), yet \<^verbatim>\<open>birthdays\<close> answers with the message of the exception raised for Al
  and lists nobody.
\<close>

theorem birthdays_aborted:
  "find_record
     (snd (add_birthday [ascii ''Al'', ascii ''29.02.2000''] (snd (add_birthday [ascii ''Bob'', ascii ''01.03.1990''] []))))
     (ascii ''Bob'') =
     Some \<lparr>name = ascii ''Bob'', phones = [], birthday = Some (Some \<lparr>year = 1990, month = 3, day = 1\<rparr>)\<rparr> \<and>
   days_between (candidate \<lparr>year = 1990, month = 3, day = 1\<rparr> \<lparr>year = 2023, month = 3, day = 1\<rparr>)
     \<lparr>year = 2023, month = 3, day = 1\<rparr> = 0 \<and>
   fst (birthdays []
     (snd (add_birthday [ascii ''Al'', ascii ''29.02.2000''] (snd (add_birthday [ascii ''Bob'', ascii ''01.03.1990''] []))))
     \<lparr>year = 2023, month = 3, day = 1\<rparr>) = Inr (ascii ''day is out of range for month'')"
proof -
  let ?t = "\<lparr>year = 2023, month = 3, day = 1\<rparr>"
  let ?bob = "\<lparr>name = ascii ''Bob'', phones = [], birthday = Some (Some \<lparr>year = 1990, month = 3, day = 1\<rparr>)\<rparr>"
  let ?al = "\<lparr>name = ascii ''Al'', phones = [], birthday = Some (Some \<lparr>year = 2000, month = 2, day = 29\<rparr>)\<rparr>"
  have p: "strptime (ascii ''01.03.1990'') FMT_DMY = Inr \<lparr>year = 1990, month = 3, day = 1\<rparr>"
    "strptime (ascii ''29.02.2000'') FMT_DMY = Inr \<lparr>year = 2000, month = 2, day = 29\<rparr>"
    by (simp_all add: strptime_def re_match_def FMT_DMY_def DOT_def SPACE_def cls_1_9_def ascii_Cons
        matches.simps decimal_ascii group_value_def py_int_def digit_val_def date_new_def MINYEAR_def
        MAXYEAR_def days_in_month_def is_leap_def DAYS_IN_MONTH_def)
  have b: "snd (add_birthday [ascii ''Al'', ascii ''29.02.2000'']
                 (snd (add_birthday [ascii ''Bob'', ascii ''01.03.1990''] []))) =
             [(ascii ''Bob'', ?bob), (ascii ''Al'', ?al)]"
    by (simp add: add_birthday_def add_birthday_body_def find_record_def add_record_def store_def
        Record_init_def Name_init_def Record_add_birthday_def input_error_def p)
  have d: "days_between (candidate \<lparr>year = 1990, month = 3, day = 1\<rparr> ?t) ?t = 0"
    by (simp add: date_eval)
  have l: "birthdays_loop ?t [?bob, ?al] [] = Inl (ValueError (ascii ''day is out of range for month''))"
    by (simp add: date_eval)
  show ?thesis
    by (simp add: b d l find_record_def birthdays_def birthdays_body_def input_error_def
        del: birthdays_loop.simps)
qed

section \<open>Matching a sequence of groups\<close>

lemma group_matches_Cons:
  "group_matches (a # as) m \<longleftrightarrow> seq_matches a m \<or> group_matches as m"
  by (auto simp: group_matches_def)

lemma group_matches_Nil: "\<not> group_matches [] m"
  by (simp add: group_matches_def)

lemma re_run_sound:
  "re_run full gs s = Some (ms, r) \<Longrightarrow>
     s = concat ms @ r \<and> list_all2 group_matches gs ms \<and> (full \<longrightarrow> r = [])"
proof (induction full gs s arbitrary: ms r rule: re_run.induct)
  case (1 full s)
  then show ?case by (auto split: if_splits)
next
  case (2 full gs s)
  then show ?case by simp
next
  case (3 full a as gs s)
  have later: "s = concat ms @ r \<and> list_all2 group_matches ((a # as) # gs) ms \<and> (full \<longrightarrow> r = [])"
    if "re_run full (as # gs) s = Some (ms, r)" "match_seq a s = None \<or>
        (\<exists>m rest. match_seq a s = Some (m, rest) \<and> re_run full gs rest = None)"
  proof -
    from that(2) have "s = concat ms @ r \<and> list_all2 group_matches (as # gs) ms \<and> (full \<longrightarrow> r = [])"
      using "3.IH"(1) "3.IH"(3) that(1) by (cases "match_seq a s") auto
    then show ?thesis by (auto simp: list_all2_Cons1 group_matches_Cons)
  qed
  show ?case
  proof (cases "match_seq a s")
    case None
    with "3.prems" later show ?thesis by simp
  next
    case (Some p)
    obtain m rest where p: "p = (m, rest)" by (cases p)
    show ?thesis
    proof (cases "re_run full gs rest")
      case None
      with Some p "3.prems" later show ?thesis by simp
    next
      case inner: (Some q)
      obtain ms' r' where q: "q = (ms', r')" by (cases q)
      from "3.prems" Some p inner q have eq: "ms = m # ms'" "r = r'" by simp_all
      from "3.IH"(2) [OF Some [unfolded p] refl, of ms' r'] inner q
      have ih: "rest = concat ms' @ r'" "list_all2 group_matches gs ms'" "full \<longrightarrow> r' = []"
        by simp_all
      from match_seq_sound [OF Some [unfolded p]] have m: "s = m @ rest" "seq_matches a m" by simp_all
      from m ih eq show ?thesis by (auto simp: group_matches_Cons)
    qed
  qed
qed

lemma match_seq_prefix:
  assumes "match_seq a s = Some (m', rest')" "seq_matches a m" "s = m @ rest"
  shows "m' = m \<and> rest' = rest"
  using assms match_seq_complete [OF assms(2), of rest] by simp

lemma re_run_literal:
  "re_run full ([[Chars [c]]] # gs) s =
     (case s of
        [] \<Rightarrow> None
      | x # xs \<Rightarrow> if x = c then (case re_run full gs xs of
                                  Some (ms, r) \<Rightarrow> Some ([c] # ms, r) | None \<Rightarrow> None)
                else None)"
  by (cases s) (auto simp: matches.simps split: option.splits)

lemma re_run_group_unique:
  assumes "group_matches g m" "re_run full gs rest = Some (ms, r)"
    and "\<And>a m' rest'. a \<in> set g \<Longrightarrow> seq_matches a m' \<Longrightarrow> m' @ rest' = m @ rest \<Longrightarrow> m' \<noteq> m \<Longrightarrow>
           re_run full gs rest' = None"
  shows "re_run full (g # gs) (m @ rest) = Some (m # ms, r)"
  using assms(1,3)
proof (induction g)
  case Nil
  then show ?case by (simp add: group_matches_Nil)
next
  case (Cons a as)
  show ?case
  proof (cases "seq_matches a m")
    case True
    from match_seq_complete [OF this, of rest] assms(2) show ?thesis by simp
  next
    case False
    with Cons.prems(1) have gm: "group_matches as m" by (simp add: group_matches_Cons)
    have ih: "re_run full (as # gs) (m @ rest) = Some (m # ms, r)"
    proof (rule Cons.IH [OF gm])
      fix a' m' rest'
      assume "a' \<in> set as" "seq_matches a' m'" "m' @ rest' = m @ rest" "m' \<noteq> m"
      then show "re_run full gs rest' = None" using Cons.prems(2) [of a' m' rest'] by simp
    qed
    show ?thesis
    proof (cases "match_seq a (m @ rest)")
      case None
      with ih show ?thesis by simp
    next
      case (Some p)
      obtain m' rest' where p: "p = (m', rest')" by (cases p)
      from match_seq_sound [OF Some [unfolded p]] have m': "m @ rest = m' @ rest'" "seq_matches a m'"
        by simp_all
      with False have "m' \<noteq> m" by auto
      from Cons.prems(2) [of a m' rest'] m' this have "re_run full gs rest' = None" by simp
      with Some p ih show ?thesis by simp
    qed
  qed
qed

lemma re_run_group_then_literal:
  assumes "group_matches g m" "c \<notin> set m"
    and "\<And>a k. a \<in> set g \<Longrightarrow> k \<in> set a \<Longrightarrow> \<not> matches k c"
    and "re_run full ([[Chars [c]]] # gs) (c # rest) = Some (ms, r)"
  shows "re_run full (g # [[Chars [c]]] # gs) (m @ c # rest) = Some (m # ms, r)"
proof (rule re_run_group_unique [OF assms(1,4)])
  fix a m' rest'
  assume a: "a \<in> set g" "seq_matches a m'" "m' @ rest' = m @ c # rest" "m' \<noteq> m"
  have nc: "c \<notin> set m'"
  proof
    assume "c \<in> set m'"
    then obtain i where i: "i < length m'" "m' ! i = c" by (auto simp: in_set_conv_nth)
    from a(2) have "length a = length m'" "\<And>j. j < length m' \<Longrightarrow> matches (a ! j) (m' ! j)"
      by (auto simp: list_all2_conv_all_nth)
    with i have "matches (a ! i) c" "a ! i \<in> set a" by auto
    with assms(3) [OF a(1)] show False by blast
  qed
  from a(3) obtain u where
    u: "(m' = m @ u \<and> u @ rest' = c # rest) \<or> (m' @ u = m \<and> rest' = u @ c # rest)"
    by (auto simp: append_eq_append_conv2)
  then show "re_run full ([[Chars [c]]] # gs) rest' = None"
  proof
    assume h: "m' = m @ u \<and> u @ rest' = c # rest"
    with a(4) have "u \<noteq> []" by auto
    with h have "c \<in> set u" by (cases u) auto
    with h nc show ?thesis by auto
  next
    assume h: "m' @ u = m \<and> rest' = u @ c # rest"
    with a(4) have "u \<noteq> []" by auto
    then obtain x xs where x: "u = x # xs" by (cases u) auto
    with h have "x \<in> set m" by auto
    with assms(2) have "x \<noteq> c" by auto
    with h x show ?thesis by (simp add: re_run_literal matches.simps)
  qed
qed

section \<open>The fields of \<^verbatim>\<open>%d.%m.%Y\<close>\<close>

lemma seq_matches_1: "seq_matches [k] m \<longleftrightarrow> (\<exists>c. m = [c] \<and> matches k c)"
  by (auto simp: list_all2_Cons1)

lemma seq_matches_2:
  "seq_matches [k1, k2] m \<longleftrightarrow> (\<exists>c1 c2. m = [c1, c2] \<and> matches k1 c1 \<and> matches k2 c2)"
  by (auto simp: list_all2_Cons1)

lemma seq_matches_4:
  "seq_matches [k1, k2, k3, k4] m \<longleftrightarrow>
     (\<exists>c1 c2 c3 c4. m = [c1, c2, c3, c4] \<and> matches k1 c1 \<and> matches k2 c2 \<and> matches k3 c3 \<and>
        matches k4 c4)"
  by (auto simp: list_all2_Cons1)

lemma group_matches_literal: "group_matches [[Chars [c]]] m \<longleftrightarrow> m = [c]"
  by (auto simp: group_matches_def seq_matches_1 matches.simps)

lemma matches_Digit: "matches Digit c \<longleftrightarrow> is_digit c"
  by (simp add: is_digit_def matches.simps)

lemma length_4: "length Y = 4 \<longleftrightarrow> (\<exists>c1 c2 c3 c4. Y = [c1, c2, c3, c4])"
  by (auto simp: length_Suc_conv eval_nat_numeral)

lemma length_2: "length Y = 2 \<longleftrightarrow> (\<exists>c1 c2. Y = [c1, c2])"
  by (auto simp: length_Suc_conv eval_nat_numeral)

lemma length_1: "length Y = 1 \<longleftrightarrow> (\<exists>c1. Y = [c1])"
  by (auto simp: length_Suc_conv)

lemma group_matches_year: "group_matches (fmt_regex PY) Y \<longleftrightarrow> year_text Y"
proof -
  have "group_matches (fmt_regex PY) Y \<longleftrightarrow>
          (\<exists>c1 c2 c3 c4. Y = [c1, c2, c3, c4] \<and> is_digit c1 \<and> is_digit c2 \<and> is_digit c3 \<and> is_digit c4)"
    by (simp add: group_matches_def seq_matches_4 matches_Digit)
  also have "\<dots> \<longleftrightarrow> year_text Y"
    unfolding year_text_def length_4 by auto
  finally show ?thesis .
qed

lemma matches_classes:
  "matches cls_1_9 c \<longleftrightarrow> one_to_nine c"
  "matches (Chars (ascii ''01'')) c \<longleftrightarrow> c = 0x30 \<or> c = 0x31"
  "matches (Chars (ascii ''12'')) c \<longleftrightarrow> c = 0x31 \<or> c = 0x32"
  "matches (Chars (ascii ''012'')) c \<longleftrightarrow> c = 0x30 \<or> c = 0x31 \<or> c = 0x32"
  "matches (Chars (ascii ''3'')) c \<longleftrightarrow> c = 0x33"
  "matches (Chars (ascii ''1'')) c \<longleftrightarrow> c = 0x31"
  "matches (Chars (ascii ''0'')) c \<longleftrightarrow> c = 0x30"
  "matches (Chars (ascii '' '')) c \<longleftrightarrow> c = SPACE"
  by (auto simp: cls_1_9_def ascii_Cons one_to_nine_def SPACE_def matches.simps)

lemma digit_val_le: "digit_val c \<le> 9"
  using decimal_less [of c] by (auto simp: digit_val_def split: option.splits)

lemma digit_char_val: "zero_to_nine c \<Longrightarrow> digit_char (digit_val c) = c"
  by (simp add: zero_to_nine_digit digit_char_def) (simp add: zero_to_nine_def)

lemma not_digit_space: "is_digit c \<Longrightarrow> c \<noteq> SPACE" and not_digit_dot: "is_digit c \<Longrightarrow> c \<noteq> DOT"
  by (auto simp: is_digit_def SPACE_def DOT_def decimal_ascii)

lemma py_int_digits:
  "c \<noteq> SPACE \<Longrightarrow> py_int [c] = int (digit_val c)"
  "c1 \<noteq> SPACE \<Longrightarrow> py_int [c1, c2] = int (10 * digit_val c1 + digit_val c2)"
  "py_int [SPACE, c] = (if c = SPACE then 0 else int (digit_val c))"
  "c1 \<noteq> SPACE \<Longrightarrow> py_int [c1, c2, c3, c4] =
     int (10 * (10 * (10 * digit_val c1 + digit_val c2) + digit_val c3) + digit_val c4)"
  by (auto simp: py_int_def)

lemma group_matches_day: "group_matches (fmt_regex Pd) D \<longleftrightarrow> day_text D"
proof -
  consider (one) c where "D = [c]" | (two) c1 c2 where "D = [c1, c2]"
    | (other) "length D \<noteq> 1" "length D \<noteq> 2"
    using length_1 [of D] length_2 [of D] by blast
  then show ?thesis
  proof cases
    case one
    then show ?thesis
      by (auto simp: group_matches_def seq_matches_1 seq_matches_2 matches_classes day_text_def)
  next
    case two
    then show ?thesis
      by (auto simp: group_matches_def seq_matches_1 seq_matches_2 matches_classes matches_Digit
          day_text_def)
  next
    case other
    then have "\<not> day_text D"
      by (auto simp: day_text_def split: list.splits)
    moreover from other have "\<not> group_matches (fmt_regex Pd) D"
      by (auto simp: group_matches_def seq_matches_1 seq_matches_2)
    ultimately show ?thesis by simp
  qed
qed

lemma group_matches_month: "group_matches (fmt_regex Pm) M \<longleftrightarrow> month_text M"
proof -
  consider (one) c where "M = [c]" | (two) c1 c2 where "M = [c1, c2]"
    | (other) "length M \<noteq> 1" "length M \<noteq> 2"
    using length_1 [of M] length_2 [of M] by blast
  then show ?thesis
  proof cases
    case one
    then show ?thesis
      by (auto simp: group_matches_def seq_matches_1 seq_matches_2 matches_classes month_text_def)
  next
    case two
    then show ?thesis
      by (auto simp: group_matches_def seq_matches_1 seq_matches_2 matches_classes month_text_def)
  next
    case other
    then have "\<not> month_text M"
      by (auto simp: month_text_def split: list.splits)
    moreover from other have "\<not> group_matches (fmt_regex Pm) M"
      by (auto simp: group_matches_def seq_matches_1 seq_matches_2)
    ultimately show ?thesis by simp
  qed
qed

section \<open>What \<^verbatim>\<open>strptime\<close> accepts\<close>

lemma re_run_single_alt:
  "seq_matches a m \<Longrightarrow> re_run full gs rest = Some (ms, r) \<Longrightarrow>
     re_run full ([a] # gs) (m @ rest) = Some (m # ms, r)"
  by (simp add: match_seq_complete)

lemma day_month_no_dot:
  "a \<in> set (fmt_regex Pd) \<Longrightarrow> k \<in> set a \<Longrightarrow> \<not> matches k DOT"
  "a \<in> set (fmt_regex Pm) \<Longrightarrow> k \<in> set a \<Longrightarrow> \<not> matches k DOT"
  by (auto simp: cls_1_9_def ascii_Cons DOT_def decimal_ascii matches.simps)

lemma group_matches_no_dot:
  assumes "group_matches g m" "\<And>a k. a \<in> set g \<Longrightarrow> k \<in> set a \<Longrightarrow> \<not> matches k c"
  shows "c \<notin> set m"
proof
  assume "c \<in> set m"
  then obtain i where i: "i < length m" "m ! i = c" by (auto simp: in_set_conv_nth)
  from assms(1) obtain a where a: "a \<in> set g" "seq_matches a m" by (auto simp: group_matches_def)
  from a(2) have "length a = length m" "\<And>j. j < length m \<Longrightarrow> matches (a ! j) (m ! j)"
    by (auto simp: list_all2_conv_all_nth)
  with i have "matches (a ! i) c" "a ! i \<in> set a" by auto
  with assms(2) [OF a(1)] show False by blast
qed

lemma re_match_dmy_complete:
  assumes "group_matches (fmt_regex Pd) D" "group_matches (fmt_regex Pm) M"
    and "group_matches (fmt_regex PY) Y"
  shows "re_match (map fmt_regex FMT_DMY) (D @ [DOT] @ M @ [DOT] @ Y @ extra) =
           Some ([D, [DOT], M, [DOT], Y], extra)"
proof -
  from assms(3) have y: "seq_matches [Digit, Digit, Digit, Digit] Y"
    by (simp add: group_matches_def)
  have s1: "re_run False [fmt_regex PY] (Y @ extra) = Some ([Y], extra)"
    using re_run_single_alt [OF y, of False "[]" extra "[]" extra] by simp
  have s2: "re_run False [[[Chars [DOT]]], fmt_regex PY] (DOT # Y @ extra) = Some ([[DOT], Y], extra)"
    using s1 by (simp add: re_run_literal matches.simps)
  have s3: "re_run False [fmt_regex Pm, [[Chars [DOT]]], fmt_regex PY] (M @ DOT # Y @ extra) =
              Some ([M, [DOT], Y], extra)"
    using assms(2) group_matches_no_dot [OF assms(2) day_month_no_dot(2)] day_month_no_dot(2) s2
    by (rule re_run_group_then_literal)
  have s4: "re_run False [[[Chars [DOT]]], fmt_regex Pm, [[Chars [DOT]]], fmt_regex PY]
              (DOT # M @ DOT # Y @ extra) = Some ([[DOT], M, [DOT], Y], extra)"
    using s3 by (simp add: re_run_literal matches.simps)
  have s5: "re_run False [fmt_regex Pd, [[Chars [DOT]]], fmt_regex Pm, [[Chars [DOT]]], fmt_regex PY]
              (D @ DOT # M @ DOT # Y @ extra) = Some ([D, [DOT], M, [DOT], Y], extra)"
    using assms(1) group_matches_no_dot [OF assms(1) day_month_no_dot(1)] day_month_no_dot(1) s4
    by (rule re_run_group_then_literal)
  then show ?thesis by (simp add: re_match_def FMT_DMY_def)
qed

lemma re_match_dmy_sound:
  assumes "re_match (map fmt_regex FMT_DMY) s = Some (ms, r)"
  shows "\<exists>D M Y. ms = [D, [DOT], M, [DOT], Y] \<and> s = D @ [DOT] @ M @ [DOT] @ Y @ r \<and>
           group_matches (fmt_regex Pd) D \<and> group_matches (fmt_regex Pm) M \<and>
           group_matches (fmt_regex PY) Y"
proof -
  from re_run_sound [OF assms [unfolded re_match_def]]
  have s: "s = concat ms @ r"
    and l: "list_all2 group_matches
              [fmt_regex Pd, [[Chars [DOT]]], fmt_regex Pm, [[Chars [DOT]]], fmt_regex PY] ms"
    by (simp_all add: FMT_DMY_def)
  from l obtain D p1 M p2 Y where ms: "ms = [D, p1, M, p2, Y]"
    and g: "group_matches (fmt_regex Pd) D" "group_matches [[Chars [DOT]]] p1"
      "group_matches (fmt_regex Pm) M" "group_matches [[Chars [DOT]]] p2"
      "group_matches (fmt_regex PY) Y"
    by (auto simp: list_all2_Cons1)
  from g(2,4) have "p1 = [DOT]" "p2 = [DOT]" by (simp_all add: group_matches_literal)
  with ms s g show ?thesis by simp
qed

lemma group_values_dmy:
  "group_value FMT_DMY [D, p1, M, p2, Y] Pd dflt = py_int D"
  "group_value FMT_DMY [D, p1, M, p2, Y] Pm dflt = py_int M"
  "group_value FMT_DMY [D, p1, M, p2, Y] PY dflt = py_int Y"
  by (simp_all add: group_value_def FMT_DMY_def)

lemma valid_date_ranges:
  assumes "valid_date d"
  shows "1 \<le> year d" "year d \<le> 9999" "1 \<le> month d" "month d \<le> 12" "1 \<le> day d" "day d \<le> 31"
  using assms days_in_month_bounds [of "month d" "year d"]
  by (simp_all add: valid_date_def MINYEAR_def MAXYEAR_def)

lemma strptime_dmy_iff:
  "strptime s FMT_DMY = Inr d \<longleftrightarrow>
     (\<exists>D M Y. s = D @ [DOT] @ M @ [DOT] @ Y \<and> day_text D \<and> month_text M \<and> year_text Y \<and>
        valid_date (date_of_text D M Y) \<and> d = date_of_text D M Y)"
proof
  assume a: "strptime s FMT_DMY = Inr d"
  then obtain ms where m: "re_match (map fmt_regex FMT_DMY) s = Some (ms, [])"
    by (auto simp: strptime_def split: option.splits if_splits)
  from re_match_dmy_sound [OF m] obtain D M Y where
    f: "ms = [D, [DOT], M, [DOT], Y]" "s = D @ [DOT] @ M @ [DOT] @ Y"
      "group_matches (fmt_regex Pd) D" "group_matches (fmt_regex Pm) M"
      "group_matches (fmt_regex PY) Y"
    by auto
  from a m f(1) have "date_new (py_int Y) (py_int M) (py_int D) = Inr d"
    by (simp add: strptime_def group_values_dmy)
  then have "valid_date (date_of_text D M Y)" "d = date_of_text D M Y"
    by (simp_all add: date_new_Inr date_of_text_def)
  moreover from f(3,4,5) have "day_text D" "month_text M" "year_text Y"
    by (simp_all only: group_matches_day group_matches_month group_matches_year)
  ultimately show "\<exists>D M Y. s = D @ [DOT] @ M @ [DOT] @ Y \<and> day_text D \<and> month_text M \<and> year_text Y \<and>
        valid_date (date_of_text D M Y) \<and> d = date_of_text D M Y"
    using f(2) by blast
next
  assume "\<exists>D M Y. s = D @ [DOT] @ M @ [DOT] @ Y \<and> day_text D \<and> month_text M \<and> year_text Y \<and>
        valid_date (date_of_text D M Y) \<and> d = date_of_text D M Y"
  then obtain D M Y where f: "s = D @ [DOT] @ M @ [DOT] @ Y" "day_text D" "month_text M"
    "year_text Y" "valid_date (date_of_text D M Y)" "d = date_of_text D M Y"
    by blast
  from f(2,3,4) have g: "group_matches (fmt_regex Pd) D" "group_matches (fmt_regex Pm) M"
    "group_matches (fmt_regex PY) Y"
    by (simp_all only: group_matches_day group_matches_month group_matches_year)
  from re_match_dmy_complete [OF g, of "[]"] f(1)
  have "re_match (map fmt_regex FMT_DMY) s = Some ([D, [DOT], M, [DOT], Y], [])" by simp
  with f(5,6) show "strptime s FMT_DMY = Inr d"
    by (simp add: strptime_def group_values_dmy date_new_Inr date_of_text_def)
qed

section \<open>Rendering a parsed date\<close>

lemma str_nat_small: "n < 10 \<Longrightarrow> str_nat n = [digit_char n]"
  by (subst str_nat.simps) simp

lemma str_nat_step: "0 < n \<Longrightarrow> b < 10 \<Longrightarrow> str_nat (10 * n + b) = str_nat n @ [digit_char b]"
  by (subst str_nat.simps) simp

lemma str_int_int: "str_int (int n) = str_nat n"
  by (simp add: str_int_def)

lemma zero_to_nine_not_space: "zero_to_nine c \<Longrightarrow> c \<noteq> SPACE"
  by (auto simp: zero_to_nine_def SPACE_def)

lemma render_two_digits:
  assumes "zero_to_nine c1" "zero_to_nine c2"
  shows "zfill 2 (str_int (py_int [c1, c2])) = [c1, c2]"
proof (cases "digit_val c1 = 0")
  case True
  with assms(1) have "c1 = 0x30" by (simp add: zero_to_nine_digit) (simp add: zero_to_nine_def)
  moreover have "str_nat (digit_val c2) = [c2]"
    using digit_val_le [of c2] digit_char_val [OF assms(2)] by (simp add: str_nat_small)
  moreover have "py_int [c1, c2] = int (digit_val c2)"
    using py_int_digits(2) [OF zero_to_nine_not_space [OF assms(1)], of c2] True by simp
  ultimately show ?thesis
    by (simp add: zfill_def str_int_int)
next
  case False
  have "str_nat (digit_val c1) = [c1]"
    using digit_val_le [of c1] digit_char_val [OF assms(1)] by (simp add: str_nat_small)
  then have "str_nat (10 * digit_val c1 + digit_val c2) = [c1, c2]"
    using False digit_val_le [of c2] digit_char_val [OF assms(2)]
    by (simp add: str_nat_step)
  then show ?thesis
    unfolding py_int_digits(2) [OF zero_to_nine_not_space [OF assms(1)]] str_int_int
    by (simp add: zfill_def)
qed

lemma render_four_digits:
  assumes "zero_to_nine c1" "zero_to_nine c2" "zero_to_nine c3" "zero_to_nine c4"
    and "1000 \<le> py_int [c1, c2, c3, c4]"
  shows "str_int (py_int [c1, c2, c3, c4]) = [c1, c2, c3, c4]"
proof -
  note le = digit_val_le [of c1] digit_val_le [of c2] digit_val_le [of c3] digit_val_le [of c4]
  define n1 where "n1 = digit_val c1"
  define n2 where "n2 = 10 * n1 + digit_val c2"
  define n3 where "n3 = 10 * n2 + digit_val c3"
  have p: "py_int [c1, c2, c3, c4] = int (10 * n3 + digit_val c4)"
    unfolding n3_def n2_def n1_def by (rule py_int_digits(4) [OF zero_to_nine_not_space [OF assms(1)]])
  from assms(5) le have pos: "0 < n1"
    unfolding p n3_def n2_def n1_def by simp
  then have pos2: "0 < n2" and pos3: "0 < n3" by (simp_all add: n2_def n3_def)
  have a: "str_nat n1 = [c1]"
    using le digit_char_val [OF assms(1)] by (simp add: str_nat_small n1_def)
  have b: "str_nat n2 = [c1, c2]"
    unfolding n2_def using str_nat_step [OF pos, of "digit_val c2"] le a digit_char_val [OF assms(2)]
    by simp
  have c: "str_nat n3 = [c1, c2, c3]"
    unfolding n3_def using str_nat_step [OF pos2, of "digit_val c3"] le b digit_char_val [OF assms(3)]
    by simp
  have "str_nat (10 * n3 + digit_val c4) = [c1, c2, c3, c4]"
    using str_nat_step [OF pos3, of "digit_val c4"] le c digit_char_val [OF assms(4)]
    by simp
  then show ?thesis unfolding p str_int_int .
qed

lemma day_text_two_digits:
  assumes "zero_to_nine c1" "zero_to_nine c2" "1 \<le> py_int [c1, c2]" "py_int [c1, c2] \<le> 31"
  shows "day_text [c1, c2]"
proof -
  from assms(3,4) have "1 \<le> 10 * (c1 - 48) + (c2 - 48)" "10 * (c1 - 48) + (c2 - 48) \<le> 31"
    using py_int_digits(2) [OF zero_to_nine_not_space [OF assms(1)], of c2]
    by (simp_all add: zero_to_nine_digit [OF assms(1)] zero_to_nine_digit [OF assms(2)])
  with assms(1,2) have
    "(c1 = 48 \<and> 49 \<le> c2) \<or> c1 = 49 \<or> c1 = 50 \<or> (c1 = 51 \<and> (c2 = 48 \<or> c2 = 49))"
    unfolding zero_to_nine_def by arith
  with assms(1,2) zero_to_nine_digit [OF assms(2)] show ?thesis
    by (auto simp: day_text_def one_to_nine_def zero_to_nine_def)
qed

lemma month_text_two_digits:
  assumes "zero_to_nine c1" "zero_to_nine c2" "1 \<le> py_int [c1, c2]" "py_int [c1, c2] \<le> 12"
  shows "month_text [c1, c2]"
proof -
  from assms(3,4) have "1 \<le> 10 * (c1 - 48) + (c2 - 48)" "10 * (c1 - 48) + (c2 - 48) \<le> 12"
    using py_int_digits(2) [OF zero_to_nine_not_space [OF assms(1)], of c2]
    by (simp_all add: zero_to_nine_digit [OF assms(1)] zero_to_nine_digit [OF assms(2)])
  with assms(1,2) have
    "(c1 = 48 \<and> 49 \<le> c2) \<or> (c1 = 49 \<and> (c2 = 48 \<or> c2 = 49 \<or> c2 = 50))"
    unfolding zero_to_nine_def by arith
  with assms(1,2) show ?thesis
    by (auto simp: month_text_def one_to_nine_def zero_to_nine_def)
qed

lemma valid_ddmmyyyy_shape:
  assumes "valid_ddmmyyyy s"
  shows "\<exists>d1 d2 m1 m2 y1 y2 y3 y4.
           s = [d1, d2, DOT, m1, m2, DOT, y1, y2, y3, y4] \<and>
           zero_to_nine d1 \<and> zero_to_nine d2 \<and> zero_to_nine m1 \<and> zero_to_nine m2 \<and>
           zero_to_nine y1 \<and> zero_to_nine y2 \<and> zero_to_nine y3 \<and> zero_to_nine y4"
proof -
  from assms have l: "length s = 10" by (simp add: valid_ddmmyyyy_def)
  then obtain d1 d2 p1 m1 m2 p2 y1 y2 y3 y4 where s: "s = [d1, d2, p1, m1, m2, p2, y1, y2, y3, y4]"
    by (auto simp: length_Suc_conv eval_nat_numeral)
  with assms show ?thesis by (simp add: valid_ddmmyyyy_def)
qed

lemma strptime_valid_ddmmyyyy:
  assumes "valid_ddmmyyyy s"
  shows "strptime s FMT_DMY = Inr (ddmmyyyy_date s)"
proof -
  from valid_ddmmyyyy_shape [OF assms] obtain d1 d2 m1 m2 y1 y2 y3 y4 where
    s: "s = [d1, d2, DOT, m1, m2, DOT, y1, y2, y3, y4]"
    and d: "zero_to_nine d1" "zero_to_nine d2" "zero_to_nine m1" "zero_to_nine m2"
      "zero_to_nine y1" "zero_to_nine y2" "zero_to_nine y3" "zero_to_nine y4"
    by blast
  have e: "ddmmyyyy_date s = date_of_text [d1, d2] [m1, m2] [y1, y2, y3, y4]"
    by (simp add: ddmmyyyy_date_def s)
  have v: "valid_date (date_of_text [d1, d2] [m1, m2] [y1, y2, y3, y4])"
    using assms e by (simp add: valid_ddmmyyyy_def)
  from valid_date_ranges [OF v] have r: "1 \<le> py_int [d1, d2]" "py_int [d1, d2] \<le> 31"
    "1 \<le> py_int [m1, m2]" "py_int [m1, m2] \<le> 12"
    by (simp_all add: date_of_text_def)
  have "s = [d1, d2] @ [DOT] @ [m1, m2] @ [DOT] @ [y1, y2, y3, y4]" by (simp add: s)
  moreover have "day_text [d1, d2]" using d(1,2) r(1,2) by (rule day_text_two_digits)
  moreover have "month_text [m1, m2]" using d(3,4) r(3,4) by (rule month_text_two_digits)
  moreover have "year_text [y1, y2, y3, y4]"
    using d(5,6,7,8) by (simp add: year_text_def zero_to_nine_digit)
  ultimately show ?thesis unfolding strptime_dmy_iff e using v by blast
qed

lemma strftime_valid_ddmmyyyy:
  assumes "valid_ddmmyyyy s" "1000 \<le> year (ddmmyyyy_date s)"
  shows "strftime (ddmmyyyy_date s) FMT_DMY = s"
proof -
  from valid_ddmmyyyy_shape [OF assms(1)] obtain d1 d2 m1 m2 y1 y2 y3 y4 where
    s: "s = [d1, d2, DOT, m1, m2, DOT, y1, y2, y3, y4]"
    and d: "zero_to_nine d1" "zero_to_nine d2" "zero_to_nine m1" "zero_to_nine m2"
      "zero_to_nine y1" "zero_to_nine y2" "zero_to_nine y3" "zero_to_nine y4"
    by blast
  have e: "ddmmyyyy_date s = date_of_text [d1, d2] [m1, m2] [y1, y2, y3, y4]"
    by (simp add: ddmmyyyy_date_def s)
  from assms(2) have y: "1000 \<le> py_int [y1, y2, y3, y4]" by (simp add: e date_of_text_def)
  show ?thesis
    unfolding e
    by (simp add: strftime_def FMT_DMY_def date_of_text_def render_two_digits [OF d(1,2)]
        render_two_digits [OF d(3,4)] render_four_digits [OF d(5,6,7,8) y] s)
qed

section \<open>Birthdays: parse and render\<close>

lemma find_record_dict_set: "find_record (dict_set k v book) k = Some v"
  by (induction book) (auto simp: find_record_def)

lemma find_record_update_entry:
  "find_record book k \<noteq> None \<Longrightarrow> find_record (update_entry k v book) k = Some v"
  by (induction book) (auto simp: find_record_def)

lemma add_then_show_birthday:
  assumes "n \<noteq> []" "strptime s FMT_DMY = Inr d"
  shows "fst (show_birthday [n] (snd (add_birthday (n # s # extra) book))) = Inr (strftime d FMT_DMY)"
proof -
  have st: "\<exists>r'. store b n (Record_add_birthday r s) = (Inr (), update_entry n r' b) \<and>
              birthday r' = Some (Some d)" for b r
    using assms(2)
    by (intro exI [of _ "r\<lparr>birthday := Some (Some d)\<rparr>"])
       (simp add: store_def Record_add_birthday_def)
  have "\<exists>b r'. add_birthday_body (n # s # extra) book = (Inr (ascii ''Birthday added.''), update_entry n r' b) \<and>
          birthday r' = Some (Some d) \<and> find_record b n \<noteq> None"
  proof (cases "find_record book n")
    case None
    have present: "find_record (add_record book (empty_record n)) n \<noteq> None"
      using find_record_dict_set [of n "empty_record n" book]
      by (simp add: add_record_def empty_record_def)
    from st [of "add_record book (empty_record n)" "empty_record n"] obtain r' where
      "store (add_record book (empty_record n)) n (Record_add_birthday (empty_record n) s) =
         (Inr (), update_entry n r' (add_record book (empty_record n)))" "birthday r' = Some (Some d)"
      by blast
    with None assms(1) present show ?thesis
      by (auto simp: add_birthday_body_def Record_init_eq)
  next
    case (Some r)
    from st [of book r] obtain r' where
      "store book n (Record_add_birthday r s) = (Inr (), update_entry n r' book)"
      "birthday r' = Some (Some d)"
      by blast
    with Some show ?thesis by (auto simp: add_birthday_body_def)
  qed
  then obtain b r' where
    "add_birthday (n # s # extra) book = (Inr (ascii ''Birthday added.''), update_entry n r' b)"
    "birthday r' = Some (Some d)" "find_record b n \<noteq> None"
    by (auto simp: add_birthday_def input_error_def)
  then show ?thesis
    by (simp add: show_birthday_def show_birthday_body_def input_error_def find_record_update_entry)
qed

text \<open>
  C4, as the code has it. For every string in valid \<^verbatim>\<open>DD.MM.YYYY\<close> format, written with
  the digits \<^verbatim>\<open>0\<close>..\<^verbatim>\<open>9\<close>, the construction of a \<^verbatim>\<open>Birthday\<close> succeeds and stores the date the
  string names; when the year is 1000 or later, rendering the stored value gives the
  string back, through \<^verbatim>\<open>__str__\<close> and through \<^verbatim>\<open>add-birthday\<close> followed by
  \<^verbatim>\<open>show-birthday\<close>. The construction succeeds exactly for the strings \<open>D.M.Y\<close> that name
  a calendar date with \<open>D\<close> a day text, \<open>M\<close> a month text and \<open>Y\<close> a year text: a day or a
  month may come without its leading zero, a day with a blank for it, and the second
  character of a day from 10 to 29 and the four of the year may be digits of any script.
  On any other string it raises the invalid-date \<^verbatim>\<open>ValueError\<close>, whatever \<^verbatim>\<open>strptime\<close>
  raised.
\<close>

theorem Birthday_parse_render:
  "(valid_ddmmyyyy s \<longrightarrow>
      Birthday_init (ArgStr s) = Inr (Some (ddmmyyyy_date s)) \<and>
      (1000 \<le> year (ddmmyyyy_date s) \<longrightarrow>
         Birthday_str (Some (ddmmyyyy_date s)) = s \<and>
         (n \<noteq> [] \<longrightarrow> fst (show_birthday [n] (snd (add_birthday (n # s # extra) book))) = Inr s))) \<and>
   (Birthday_init (ArgStr s) = Inr b \<longleftrightarrow>
      (\<exists>D M Y. s = D @ [DOT] @ M @ [DOT] @ Y \<and> day_text D \<and> month_text M \<and> year_text Y \<and>
         valid_date (date_of_text D M Y) \<and> b = Some (date_of_text D M Y))) \<and>
   (Birthday_init (ArgStr s) = Inl e \<longrightarrow> e = ValueError (ascii ''Invalid date format. Use DD.MM.YYYY''))"
proof (intro conjI impI)
  assume v: "valid_ddmmyyyy s"
  from strptime_valid_ddmmyyyy [OF v] show "Birthday_init (ArgStr s) = Inr (Some (ddmmyyyy_date s))"
    by simp
next
  assume v: "valid_ddmmyyyy s" and y: "1000 \<le> year (ddmmyyyy_date s)"
  from strftime_valid_ddmmyyyy [OF v y] show "Birthday_str (Some (ddmmyyyy_date s)) = s" by simp
next
  assume v: "valid_ddmmyyyy s" and y: "1000 \<le> year (ddmmyyyy_date s)" and n: "n \<noteq> []"
  from add_then_show_birthday [OF n strptime_valid_ddmmyyyy [OF v], of extra book]
    strftime_valid_ddmmyyyy [OF v y]
  show "fst (show_birthday [n] (snd (add_birthday (n # s # extra) book))) = Inr s" by simp
next
  show "Birthday_init (ArgStr s) = Inr b \<longleftrightarrow>
      (\<exists>D M Y. s = D @ [DOT] @ M @ [DOT] @ Y \<and> day_text D \<and> month_text M \<and> year_text Y \<and>
         valid_date (date_of_text D M Y) \<and> b = Some (date_of_text D M Y))"
  proof (cases "strptime s FMT_DMY")
    case (Inl x)
    then have "\<And>d. strptime s FMT_DMY \<noteq> Inr d" by simp
    then have "\<not> (\<exists>D M Y. s = D @ [DOT] @ M @ [DOT] @ Y \<and> day_text D \<and> month_text M \<and>
        year_text Y \<and> valid_date (date_of_text D M Y))"
      unfolding strptime_dmy_iff by blast
    with Inl show ?thesis by auto
  next
    case (Inr d)
    from Inr [unfolded strptime_dmy_iff] obtain D M Y where
      f: "s = D @ [DOT] @ M @ [DOT] @ Y" "day_text D" "month_text M" "year_text Y"
        "valid_date (date_of_text D M Y)" "d = date_of_text D M Y"
      by blast
    have u: "d' = d" if "strptime s FMT_DMY = Inr d'" for d' using that Inr by simp
    show ?thesis
    proof
      assume "Birthday_init (ArgStr s) = Inr b"
      with Inr have "b = Some d" by simp
      with f show "\<exists>D M Y. s = D @ [DOT] @ M @ [DOT] @ Y \<and> day_text D \<and> month_text M \<and>
          year_text Y \<and> valid_date (date_of_text D M Y) \<and> b = Some (date_of_text D M Y)"
        by blast
    next
      assume "\<exists>D M Y. s = D @ [DOT] @ M @ [DOT] @ Y \<and> day_text D \<and> month_text M \<and>
          year_text Y \<and> valid_date (date_of_text D M Y) \<and> b = Some (date_of_text D M Y)"
      then obtain D' M' Y' where g: "s = D' @ [DOT] @ M' @ [DOT] @ Y'" "day_text D'" "month_text M'"
        "year_text Y'" "valid_date (date_of_text D' M' Y')" "b = Some (date_of_text D' M' Y')"
        by blast
      then have "strptime s FMT_DMY = Inr (date_of_text D' M' Y')"
        unfolding strptime_dmy_iff by blast
      from u [OF this] g(6) Inr show "Birthday_init (ArgStr s) = Inr b" by simp
    qed
  qed
next
  assume "Birthday_init (ArgStr s) = Inl e"
  then show "e = ValueError (ascii ''Invalid date format. Use DD.MM.YYYY'')"
    by (auto split: sum.splits)
qed

lemma render_1990_03_01:
  "strftime \<lparr>year = 1990, month = 3, day = 1\<rparr> FMT_DMY = ascii ''01.03.1990''"
  by (simp add: strftime_def FMT_DMY_def zfill_def str_int_def str_nat.simps digit_char_def
      ascii_Cons DOT_def)

lemma render_1990_03_15:
  "strftime \<lparr>year = 1990, month = 3, day = 15\<rparr> FMT_DMY = ascii ''15.03.1990''"
  by (simp add: strftime_def FMT_DMY_def zfill_def str_int_def str_nat.simps digit_char_def
      ascii_Cons DOT_def)

lemma render_0990_03_15:
  "strftime \<lparr>year = 990, month = 3, day = 15\<rparr> FMT_DMY = ascii ''15.03.990''"
  by (simp add: strftime_def FMT_DMY_def zfill_def str_int_def str_nat.simps digit_char_def
      ascii_Cons DOT_def)

lemmas strptime_eval =
  strptime_def re_match_def FMT_DMY_def FMT_YMD_def DOT_def SPACE_def cls_1_9_def ascii_Cons
  matches.simps
  decimal_ascii group_value_def py_int_def digit_val_def date_new_def MINYEAR_def MAXYEAR_def
  days_in_month_def is_leap_def DAYS_IN_MONTH_def

lemma valid_15_03_1990:
  "valid_ddmmyyyy (ascii ''15.03.1990'')"
  "ddmmyyyy_date (ascii ''15.03.1990'') = \<lparr>year = 1990, month = 3, day = 15\<rparr>"
  by (simp_all add: valid_ddmmyyyy_def ddmmyyyy_date_def date_of_text_def zero_to_nine_def
      valid_date_def strptime_eval)

lemma valid_15_03_0990:
  "valid_ddmmyyyy (ascii ''15.03.0990'')"
  "ddmmyyyy_date (ascii ''15.03.0990'') = \<lparr>year = 990, month = 3, day = 15\<rparr>"
  by (simp_all add: valid_ddmmyyyy_def ddmmyyyy_date_def date_of_text_def zero_to_nine_def
      valid_date_def strptime_eval)

lemma Birthday_init_rejects:
  "Birthday_init (ArgStr (ascii ''31.02.2024'')) =
     Inl (ValueError (ascii ''Invalid date format. Use DD.MM.YYYY''))"
  "Birthday_init (ArgStr (ascii ''15/03/1990'')) =
     Inl (ValueError (ascii ''Invalid date format. Use DD.MM.YYYY''))"
  "Birthday_init (ArgStr (ascii ''ab.03.1990'')) =
     Inl (ValueError (ascii ''Invalid date format. Use DD.MM.YYYY''))"
  "Birthday_init (ArgStr ([0x660, 0x665] @ ascii ''.03.1990'')) =
     Inl (ValueError (ascii ''Invalid date format. Use DD.MM.YYYY''))"
  by (simp_all add: strptime_eval decimal_def DECIMAL_ZEROS_def)

theorem Birthday_parse_render_witness:
  "valid_ddmmyyyy (ascii ''15.03.1990'') \<and>
   ddmmyyyy_date (ascii ''15.03.1990'') = \<lparr>year = 1990, month = 3, day = 15\<rparr> \<and>
   Birthday_init (ArgStr (ascii ''15.03.1990'')) = Inr (Some \<lparr>year = 1990, month = 3, day = 15\<rparr>) \<and>
   Birthday_str (Some \<lparr>year = 1990, month = 3, day = 15\<rparr>) = ascii ''15.03.1990'' \<and>
   fst (show_birthday [ascii ''Alice'']
         (snd (add_birthday [ascii ''Alice'', ascii ''15.03.1990''] []))) =
     Inr (ascii ''15.03.1990'') \<and>
   Birthday_init (ArgStr (ascii ''31.02.2024'')) =
     Inl (ValueError (ascii ''Invalid date format. Use DD.MM.YYYY'')) \<and>
   Birthday_init (ArgStr (ascii ''15/03/1990'')) =
     Inl (ValueError (ascii ''Invalid date format. Use DD.MM.YYYY'')) \<and>
   Birthday_init (ArgStr (ascii ''ab.03.1990'')) =
     Inl (ValueError (ascii ''Invalid date format. Use DD.MM.YYYY'')) \<and>
   Birthday_init (ArgStr ([0x660, 0x665] @ ascii ''.03.1990'')) =
     Inl (ValueError (ascii ''Invalid date format. Use DD.MM.YYYY''))"
proof -
  have c: "ascii ''Alice'' \<noteq> []" by simp
  from Birthday_parse_render [of "ascii ''15.03.1990''" "ascii ''Alice''" "[]" "[]"]
    valid_15_03_1990 c Birthday_init_rejects
  show ?thesis by simp
qed

text \<open>
  C4 as stated fails, in three ways. \<^verbatim>\<open>1.3.1990\<close> and \<^verbatim>\<open> 1.03.1990\<close> are not in
  \<^verbatim>\<open>DD.MM.YYYY\<close> format, yet the construction succeeds, and the stored value renders as
  \<^verbatim>\<open>01.03.1990\<close>, not as the string given. \<^verbatim>\<open>15.03.0990\<close> is in the format and is accepted,
  but renders as \<^verbatim>\<open>15.03.990\<close>: the year is printed without padding. A year of four
  Arabic-Indic digits, \<^verbatim>\<open>U+0661 U+0669 U+0669 U+0660\<close>, is accepted after \<^verbatim>\<open>15.03.\<close> and
  renders as \<^verbatim>\<open>15.03.1990\<close>, and so is the day \<^verbatim>\<open>1\<close> \<^verbatim>\<open>U+0665\<close>.
\<close>

theorem Birthday_not_only_ddmmyyyy:
  "\<not> valid_ddmmyyyy (ascii ''1.3.1990'') \<and>
   Birthday_init (ArgStr (ascii ''1.3.1990'')) = Inr (Some \<lparr>year = 1990, month = 3, day = 1\<rparr>) \<and>
   Birthday_str (Some \<lparr>year = 1990, month = 3, day = 1\<rparr>) = ascii ''01.03.1990'' \<and>
   ascii ''01.03.1990'' \<noteq> ascii ''1.3.1990'' \<and>
   \<not> valid_ddmmyyyy (ascii '' 1.03.1990'') \<and>
   Birthday_init (ArgStr (ascii '' 1.03.1990'')) = Inr (Some \<lparr>year = 1990, month = 3, day = 1\<rparr>) \<and>
   valid_ddmmyyyy (ascii ''15.03.0990'') \<and>
   Birthday_init (ArgStr (ascii ''15.03.0990'')) = Inr (Some \<lparr>year = 990, month = 3, day = 15\<rparr>) \<and>
   Birthday_str (Some \<lparr>year = 990, month = 3, day = 15\<rparr>) = ascii ''15.03.990'' \<and>
   ascii ''15.03.990'' \<noteq> ascii ''15.03.0990'' \<and>
   \<not> valid_ddmmyyyy (ascii ''15.03.'' @ [0x661, 0x669, 0x669, 0x660]) \<and>
   Birthday_init (ArgStr (ascii ''15.03.'' @ [0x661, 0x669, 0x669, 0x660])) =
     Inr (Some \<lparr>year = 1990, month = 3, day = 15\<rparr>) \<and>
   \<not> valid_ddmmyyyy ([0x31, 0x665] @ ascii ''.03.1990'') \<and>
   Birthday_init (ArgStr ([0x31, 0x665] @ ascii ''.03.1990'')) =
     Inr (Some \<lparr>year = 1990, month = 3, day = 15\<rparr>) \<and>
   Birthday_str (Some \<lparr>year = 1990, month = 3, day = 15\<rparr>) = ascii ''15.03.1990'' \<and>
   ascii ''15.03.1990'' \<noteq> ascii ''15.03.'' @ [0x661, 0x669, 0x669, 0x660] \<and>
   ascii ''15.03.1990'' \<noteq> [0x31, 0x665] @ ascii ''.03.1990''"
proof -
  have a: "\<not> valid_ddmmyyyy (ascii ''1.3.1990'')" "\<not> valid_ddmmyyyy (ascii '' 1.03.1990'')"
    "\<not> valid_ddmmyyyy (ascii ''15.03.'' @ [0x661, 0x669, 0x669, 0x660])"
    "\<not> valid_ddmmyyyy ([0x31, 0x665] @ ascii ''.03.1990'')"
    by (simp_all add: valid_ddmmyyyy_def zero_to_nine_def ascii_Cons DOT_def)
  have b: "Birthday_init (ArgStr (ascii ''1.3.1990'')) = Inr (Some \<lparr>year = 1990, month = 3, day = 1\<rparr>)"
    "Birthday_init (ArgStr (ascii '' 1.03.1990'')) = Inr (Some \<lparr>year = 1990, month = 3, day = 1\<rparr>)"
    "Birthday_init (ArgStr (ascii ''15.03.0990'')) = Inr (Some \<lparr>year = 990, month = 3, day = 15\<rparr>)"
    by (simp_all add: strptime_eval)
  have c: "Birthday_init (ArgStr (ascii ''15.03.'' @ [0x661, 0x669, 0x669, 0x660])) =
      Inr (Some \<lparr>year = 1990, month = 3, day = 15\<rparr>)"
    "Birthday_init (ArgStr ([0x31, 0x665] @ ascii ''.03.1990'')) =
      Inr (Some \<lparr>year = 1990, month = 3, day = 15\<rparr>)"
    by (simp_all add: strptime_eval decimal_def DECIMAL_ZEROS_def)
  have d: "ascii ''15.03.1990'' \<noteq> ascii ''15.03.'' @ [0x661, 0x669, 0x669, 0x660]"
    "ascii ''15.03.1990'' \<noteq> [0x31, 0x665] @ ascii ''.03.1990''"
    by (simp_all add: ascii_Cons)
  from a b c d valid_15_03_0990(1) render_1990_03_01 render_1990_03_15 render_0990_03_15
  show ?thesis by simp
qed

section \<open>Command lines and the insert before validation\<close>

lemma split_from_tokens:
  "t \<in> set (split_from word s) \<Longrightarrow> (\<forall>c \<in> set word. \<not> is_space c) \<Longrightarrow>
     t \<noteq> [] \<and> (\<forall>c \<in> set t. \<not> is_space c)"
proof (induction word s rule: split_from.induct)
  case (1 word)
  then show ?case by (simp split: if_splits)
next
  case (2 word c cs)
  show ?case
  proof (cases "is_space c")
    case True
    show ?thesis
    proof (cases "word = []")
      case w: True
      with True "2.prems" "2.IH"(1) show ?thesis by simp
    next
      case w: False
      with True "2.prems"(1) have "t = word \<or> t \<in> set (split_from [] cs)" by simp
      then show ?thesis
      proof
        assume "t = word"
        with w "2.prems"(2) show ?thesis by simp
      next
        assume "t \<in> set (split_from [] cs)"
        with True w "2.IH"(2) show ?thesis by simp
      qed
    qed
  next
    case False
    with "2.prems"(1) have "t \<in> set (split_from (word @ [c]) cs)" by simp
    moreover from False "2.prems"(2) have "\<forall>x \<in> set (word @ [c]). \<not> is_space x" by simp
    ultimately show ?thesis using "2.IH"(3) [OF False] by blast
  qed
qed

lemma py_split_tokens: "t \<in> set (py_split s) \<Longrightarrow> t \<noteq> [] \<and> (\<forall>c \<in> set t. \<not> is_space c)"
  using split_from_tokens [of t "[]" s] by (simp add: py_split_def)

lemma py_split_Nil: "py_split [] = []"
  by (simp add: py_split_def)

lemma parse_input_args:
  assumes "parse_input user_input = (command, args, raw_command)" "a \<in> set args"
  shows "a \<noteq> []"
proof -
  from assms obtain w where "py_split (py_strip user_input) = w # args"
    by (auto simp: parse_input_def split: list.splits)
  with assms(2) have "a \<in> set (py_split (py_strip user_input))" by simp
  then show ?thesis using py_split_tokens by blast
qed

lemma parse_input_not_blank:
  assumes "parse_input user_input = (Some command, args, raw_command)"
  shows "py_strip user_input \<noteq> []"
proof
  assume "py_strip user_input = []"
  with assms show False by (simp add: parse_input_def py_split_Nil)
qed

lemma main_iteration_command:
  assumes "parse_input user_input = (Some command, args, raw_command)"
  shows "fst (main_iteration user_input book today) = dispatch command args book today"
  using assms parse_input_not_blank [OF assms] by (simp add: main_iteration_def)

text \<open>
  C8. For every book with no record under the name \<open>n\<close>: the command \<^verbatim>\<open>add\<close> with \<open>n\<close> and
  a phone that is not ten digits, and the command \<^verbatim>\<open>add-birthday\<close> with \<open>n\<close> and a date
  that does not parse, raise the validation error after the new record has been inserted
  into the book: the handler body raises with the record in place, and the iteration
  prints the message and leaves the book with a record for \<open>n\<close> that has no phones and no
  birthday.
\<close>

theorem failed_add_keeps_new_record:
  assumes "find_record book n = None"
  shows "(parse_input user_input = (Some ADD, n # v # extra, raw_command) \<and> \<not> ten_digits v \<longrightarrow>
            add_contact_body (n # v # extra) book =
              (Inl (ValueError (ascii ''Phone number must contain exactly 10 digits.'')),
               book @ [(n, \<lparr>name = n, phones = [], birthday = None\<rparr>)]) \<and>
            fst (main_iteration user_input book today) =
              (Inr (ascii ''Phone number must contain exactly 10 digits.''),
               book @ [(n, \<lparr>name = n, phones = [], birthday = None\<rparr>)])) \<and>
         (parse_input user_input = (Some ADD_BIRTHDAY, n # v # extra, raw_command) \<and>
          (\<exists>e. Birthday_init (ArgStr v) = Inl e) \<longrightarrow>
            add_birthday_body (n # v # extra) book =
              (Inl (ValueError (ascii ''Invalid date format. Use DD.MM.YYYY'')),
               book @ [(n, \<lparr>name = n, phones = [], birthday = None\<rparr>)]) \<and>
            fst (main_iteration user_input book today) =
              (Inr (ascii ''Invalid date format. Use DD.MM.YYYY''),
               book @ [(n, \<lparr>name = n, phones = [], birthday = None\<rparr>)]))"
proof (intro conjI impI)
  assume h: "parse_input user_input = (Some ADD, n # v # extra, raw_command) \<and> \<not> ten_digits v"
  then have ne: "n \<noteq> []" "v \<noteq> []" using parse_input_args [of user_input _ "n # v # extra" _] by auto
  from handlers_insert_before_validating [OF assms ne(1), of v extra] ne(2) h
  show "add_contact_body (n # v # extra) book =
              (Inl (ValueError (ascii ''Phone number must contain exactly 10 digits.'')),
               book @ [(n, \<lparr>name = n, phones = [], birthday = None\<rparr>)])"
    by blast
  from handlers_insert_before_validating [OF assms ne(1), of v extra] ne(2) h
    main_iteration_command [of user_input ADD "n # v # extra" raw_command book today]
  show "fst (main_iteration user_input book today) =
              (Inr (ascii ''Phone number must contain exactly 10 digits.''),
               book @ [(n, \<lparr>name = n, phones = [], birthday = None\<rparr>)])"
    by simp
next
  assume h: "parse_input user_input = (Some ADD_BIRTHDAY, n # v # extra, raw_command) \<and>
          (\<exists>e. Birthday_init (ArgStr v) = Inl e)"
  then have ne: "n \<noteq> []" using parse_input_args [of user_input _ "n # v # extra" _] by auto
  from handlers_insert_before_validating [OF assms ne, of v extra] h
  show "add_birthday_body (n # v # extra) book =
              (Inl (ValueError (ascii ''Invalid date format. Use DD.MM.YYYY'')),
               book @ [(n, \<lparr>name = n, phones = [], birthday = None\<rparr>)])"
    by blast
  from handlers_insert_before_validating [OF assms ne, of v extra] h
    main_iteration_command [of user_input ADD_BIRTHDAY "n # v # extra" raw_command book today]
  show "fst (main_iteration user_input book today) =
              (Inr (ascii ''Invalid date format. Use DD.MM.YYYY''),
               book @ [(n, \<lparr>name = n, phones = [], birthday = None\<rparr>)])"
    by simp
qed

lemma parse_add_line:
  "parse_input (ascii ''add Bob 123'') = (Some ADD, [ascii ''Bob'', ascii ''123''], Some (ascii ''add''))"
  by (simp add: parse_eval)

lemma parse_add_birthday_line:
  "parse_input (ascii ''Add-Birthday Bob 31.02.2024'') =
     (Some ADD_BIRTHDAY, [ascii ''Bob'', ascii ''31.02.2024''], Some (ascii ''Add-Birthday''))"
  by (simp add: parse_eval)

theorem failed_add_keeps_new_record_witness:
  "find_record [] (ascii ''Bob'') = None \<and>
   parse_input (ascii ''add Bob 123'') = (Some ADD, [ascii ''Bob'', ascii ''123''], Some (ascii ''add'')) \<and> \<not> ten_digits (ascii ''123'') \<and>
   fst (main_iteration (ascii ''add Bob 123'') [] \<lparr>year = 2023, month = 3, day = 1\<rparr>) =
     (Inr (ascii ''Phone number must contain exactly 10 digits.''),
      [(ascii ''Bob'', \<lparr>name = ascii ''Bob'', phones = [], birthday = None\<rparr>)]) \<and>
   parse_input (ascii ''Add-Birthday Bob 31.02.2024'') =
     (Some ADD_BIRTHDAY, [ascii ''Bob'', ascii ''31.02.2024''], Some (ascii ''Add-Birthday'')) \<and>
   (\<exists>e. Birthday_init (ArgStr (ascii ''31.02.2024'')) = Inl e) \<and>
   fst (main_iteration (ascii ''Add-Birthday Bob 31.02.2024'') [] \<lparr>year = 2023, month = 3, day = 1\<rparr>) =
     (Inr (ascii ''Invalid date format. Use DD.MM.YYYY''),
      [(ascii ''Bob'', \<lparr>name = ascii ''Bob'', phones = [], birthday = None\<rparr>)])"
proof -
  let ?t = "\<lparr>year = 2023, month = 3, day = 1\<rparr>"
  have a: "find_record [] (ascii ''Bob'') = None" by (simp add: find_record_def)
  have c: "\<not> ten_digits (ascii ''123'')" by (simp add: ten_digits_def)
  have d: "Birthday_init (ArgStr (ascii ''31.02.2024'')) =
      Inl (ValueError (ascii ''Invalid date format. Use DD.MM.YYYY''))"
    by (rule Birthday_init_rejects(1))
  from failed_add_keeps_new_record [OF a, of "ascii ''add Bob 123''" "ascii ''123''" "[]" "Some (ascii ''add'')" ?t]
    failed_add_keeps_new_record [OF a, of "ascii ''Add-Birthday Bob 31.02.2024''" "ascii ''31.02.2024''" "[]"
      "Some (ascii ''Add-Birthday'')" ?t]
    a c d parse_add_line parse_add_birthday_line
  show ?thesis by auto
qed

section \<open>The weekend shift\<close>

lemma weekend_shift_candidate:
  "valid_date c \<Longrightarrow> congratulation_date c = Inr cd \<Longrightarrow> weekend_shift c cd"
  unfolding weekend_shift_def by (rule shift_of_candidate)

lemma get_upcoming_birthdays_entries:
  "get_upcoming_birthdays today users = Inr out \<Longrightarrow> e \<in> set out \<Longrightarrow>
     \<exists>user b v cd n. user \<in> set users \<and> dict_get user (ascii ''birthday'') = Inr b \<and>
        strptime b FMT_YMD = Inr v \<and> next_birthday v today = Inr (candidate v today) \<and>
        in_window v today \<and> weekend_shift (candidate v today) cd \<and>
        dict_get user (ascii ''name'') = Inr n \<and>
        e = [(ascii ''name'', n), (ascii ''congratulation_date'', strftime cd FMT_YMD)]"
proof (induction users arbitrary: out)
  case Nil
  then show ?case by simp
next
  case (Cons user users)
  from Cons.prems(1) obtain b where b: "dict_get user (ascii ''birthday'') = Inr b"
    by (cases "dict_get user (ascii ''birthday'')") auto
  with Cons.prems(1) obtain v where v: "strptime b FMT_YMD = Inr v"
    by (cases "strptime b FMT_YMD") auto
  with b Cons.prems(1) obtain nb where nb: "next_birthday v today = Inr nb"
    by (cases "next_birthday v today") auto
  from next_birthday_Inr [OF nb] have c: "nb = candidate v today" "valid_date nb" by auto
  show ?case
  proof (cases "0 \<le> days_between nb today \<and> days_between nb today < 7")
    case False
    with b v nb Cons.prems(1) have "get_upcoming_birthdays today users = Inr out"
      by (simp add: Let_def)
    from Cons.IH [OF this Cons.prems(2)] show ?thesis by (metis list.set_intros(2))
  next
    case True
    with b v nb Cons.prems(1) obtain cd n out' where
      h: "congratulation_date nb = Inr cd" "dict_get user (ascii ''name'') = Inr n"
        "get_upcoming_birthdays today users = Inr out'"
        "out = [(ascii ''name'', n), (ascii ''congratulation_date'', strftime cd FMT_YMD)] # out'"
      by (auto simp: Let_def split: sum.splits)
    show ?thesis
    proof (cases "e \<in> set out'")
      case True
      from Cons.IH [OF h(3) this] show ?thesis by (metis list.set_intros(2))
    next
      case False
      with Cons.prems(2) h(4) have e: "e = [(ascii ''name'', n), (ascii ''congratulation_date'', strftime cd FMT_YMD)]"
        by simp
      have w: "in_window v today" using True c(1) by (simp add: in_window_def)
      from weekend_shift_candidate [OF c(2) h(1)] c(1) have "weekend_shift (candidate v today) cd"
        by simp
      with b v nb c(1) w h(2) e show ?thesis by (metis list.set_intros(1))
    qed
  qed
qed

lemma render_2023_03_06: "strftime \<lparr>year = 2023, month = 3, day = 6\<rparr> FMT_YMD = ascii ''2023.03.06''"
  by (simp add: strftime_def FMT_YMD_def zfill_def str_int_def str_nat.simps digit_char_def
      ascii_Cons DOT_def)

text \<open>
  C2. For every contact the loop of \<^verbatim>\<open>birthdays\<close> lists under a congratulation date \<open>cd\<close>,
  and for every entry \<^verbatim>\<open>get_upcoming_birthdays\<close> returns: the contact has a birthday whose
  candidate date \<open>c\<close> is in the window, and the congratulation date is \<open>c\<close> itself when
  \<open>c\<close> falls on Monday to Friday, \<open>c\<close> plus two days when \<open>c\<close> is a Saturday and \<open>c\<close> plus
  one day when \<open>c\<close> is a Sunday, a Monday in both weekend cases.
\<close>

theorem congratulation_date_shift:
  "(birthdays_loop today records [] = Inr upcoming \<and> (cd, n) \<in> listed upcoming \<longrightarrow>
      (\<exists>r v. r \<in> set records \<and> name r = n \<and> birthday r = Some (Some v) \<and>
             next_birthday v today = Inr (candidate v today) \<and> in_window v today \<and>
             weekend_shift (candidate v today) cd)) \<and>
   (get_upcoming_birthdays today users = Inr out \<and> e \<in> set out \<longrightarrow>
      (\<exists>user b v cd' n'. user \<in> set users \<and> dict_get user (ascii ''birthday'') = Inr b \<and>
         strptime b FMT_YMD = Inr v \<and> next_birthday v today = Inr (candidate v today) \<and>
         in_window v today \<and> weekend_shift (candidate v today) cd' \<and>
         dict_get user (ascii ''name'') = Inr n' \<and>
         e = [(ascii ''name'', n'), (ascii ''congratulation_date'', strftime cd' FMT_YMD)]))"
proof (intro conjI impI)
  assume h: "birthdays_loop today records [] = Inr upcoming \<and> (cd, n) \<in> listed upcoming"
  from birthdays_loop_listed [of today records "[]" upcoming] h
  obtain r where r: "r \<in> set records" "(cd, n) \<in> contributes today r"
    by (auto simp: listed_Nil)
  from r(2) obtain v where v: "n = name r" "birthday r = Some (Some v)"
    "next_birthday v today = Inr (candidate v today)" "in_window v today"
    "congratulation_date (candidate v today) = Inr cd"
    by (auto simp: contributes_iff)
  from next_birthday_Inr [OF v(3)] have "valid_date (candidate v today)" by simp
  from weekend_shift_candidate [OF this v(5)] r(1) v
  show "\<exists>r v. r \<in> set records \<and> name r = n \<and> birthday r = Some (Some v) \<and>
             next_birthday v today = Inr (candidate v today) \<and> in_window v today \<and>
             weekend_shift (candidate v today) cd"
    by blast
next
  assume "get_upcoming_birthdays today users = Inr out \<and> e \<in> set out"
  then show "\<exists>user b v cd' n'. user \<in> set users \<and> dict_get user (ascii ''birthday'') = Inr b \<and>
         strptime b FMT_YMD = Inr v \<and> next_birthday v today = Inr (candidate v today) \<and>
         in_window v today \<and> weekend_shift (candidate v today) cd' \<and>
         dict_get user (ascii ''name'') = Inr n' \<and>
         e = [(ascii ''name'', n'), (ascii ''congratulation_date'', strftime cd' FMT_YMD)]"
    using get_upcoming_birthdays_entries [of today users out e] by blast
qed

theorem congratulation_date_shift_witness:
  "birthdays_loop \<lparr>year = 2023, month = 3, day = 1\<rparr>
     [\<lparr>name = ascii ''Al'', phones = [], birthday = Some (Some \<lparr>year = 2000, month = 3, day = 4\<rparr>)\<rparr>] [] =
     Inr [(\<lparr>year = 2023, month = 3, day = 6\<rparr>, [ascii ''Al''])] \<and>
   (\<lparr>year = 2023, month = 3, day = 6\<rparr>, ascii ''Al'') \<in> listed [(\<lparr>year = 2023, month = 3, day = 6\<rparr>, [ascii ''Al''])] \<and>
   candidate \<lparr>year = 2000, month = 3, day = 4\<rparr> \<lparr>year = 2023, month = 3, day = 1\<rparr> =
     \<lparr>year = 2023, month = 3, day = 4\<rparr> \<and>
   weekday \<lparr>year = 2023, month = 3, day = 4\<rparr> = 5 \<and>
   weekend_shift \<lparr>year = 2023, month = 3, day = 4\<rparr> \<lparr>year = 2023, month = 3, day = 6\<rparr> \<and>
   weekday \<lparr>year = 2023, month = 3, day = 6\<rparr> = 0 \<and>
   get_upcoming_birthdays \<lparr>year = 2023, month = 3, day = 1\<rparr>
     [[(ascii ''name'', ascii ''Al''), (ascii ''birthday'', ascii ''2000.03.04'')]] =
     Inr [[(ascii ''name'', ascii ''Al''), (ascii ''congratulation_date'', ascii ''2023.03.06'')]]"
proof -
  let ?t = "\<lparr>year = 2023, month = 3, day = 1\<rparr>"
  let ?v = "\<lparr>year = 2000, month = 3, day = 4\<rparr>"
  let ?r = "\<lparr>name = ascii ''Al'', phones = [], birthday = Some (Some ?v)\<rparr>"
  let ?cd = "\<lparr>year = 2023, month = 3, day = 6\<rparr>"
  let ?u = "[(ascii ''name'', ascii ''Al''), (ascii ''birthday'', ascii ''2000.03.04'')]"
  have b: "(?cd, ascii ''Al'') \<in> listed [(?cd, [ascii ''Al''])]" by (simp add: listed_def)
  have c: "candidate ?v ?t = \<lparr>year = 2023, month = 3, day = 4\<rparr>"
    by (simp add: candidate_def date_lt_def)
  have d: "weekday \<lparr>year = 2023, month = 3, day = 4\<rparr> = 5" by code_simp
  have d2: "weekday ?cd = 0" by code_simp
  have f: "strptime (ascii ''2000.03.04'') FMT_YMD = Inr ?v" by (simp add: strptime_eval)
  have g: "congratulation_date \<lparr>year = 2023, month = 3, day = 4\<rparr> = Inr ?cd" by code_simp
  have nb: "next_birthday ?v ?t = Inr \<lparr>year = 2023, month = 3, day = 4\<rparr>" by code_simp
  have db: "days_between \<lparr>year = 2023, month = 3, day = 4\<rparr> ?t = 3" by code_simp
  have a: "birthdays_loop ?t [?r] [] = Inr [(?cd, [ascii ''Al''])]" by (simp add: nb db g)
  have h: "get_upcoming_birthdays ?t [?u] =
             Inr [[(ascii ''name'', ascii ''Al''), (ascii ''congratulation_date'', ascii ''2023.03.06'')]]"
    by (simp add: dict_get_def f nb db g render_2023_03_06)
  from congratulation_date_shift [of ?t "[?r]" "[(?cd, [ascii ''Al''])]" ?cd "ascii ''Al''" "[?u]"
      "[[(ascii ''name'', ascii ''Al''), (ascii ''congratulation_date'', ascii ''2023.03.06'')]]"
      "[(ascii ''name'', ascii ''Al''), (ascii ''congratulation_date'', ascii ''2023.03.06'')]"] a b c h
  have "weekend_shift \<lparr>year = 2023, month = 3, day = 4\<rparr> ?cd" by auto
  with a b c d d2 h show ?thesis by simp
qed

end
